theory Spec2Isabelle
  imports Complex_Main
begin

section \<open>JavaScript numbers\<close>

text \<open>
  Every coordinate in the program is a JavaScript \<^verbatim>\<open>number\<close>, that is an IEEE-754
  binary64 value.  A finite value is kept as the rational it denotes; the two infinities
  and NaN are separate constructors.  The two zeros are identified (they are equal under
  \<^verbatim>\<open>===\<close> and under every comparison); a division by zero therefore takes the
  sign of the numerator, as it does for \<^verbatim>\<open>+0\<close>.

  Each arithmetic operation computes the exact rational result and rounds it to the
  nearest double, ties to even, with gradual underflow (least exponent \<open>-1074\<close>) and
  overflow to infinity.
\<close>

datatype number = Fin rat | PInf | NInf | NaN

function lg2 :: "int \<Rightarrow> int" where
  "lg2 n = (if n < 2 then 0 else 1 + lg2 (n div 2))"
  by pat_completeness auto
termination
  by (relation "measure nat") auto

declare lg2.simps [simp del]

text \<open>\<open>binade q\<close> is the exponent \<open>e\<close> with \<open>2\<^sup>e \<le> q < 2\<^sup>e\<^sup>+\<^sup>1\<close>, for \<open>q > 0\<close>.\<close>

definition binade :: "rat \<Rightarrow> int" where
  "binade q = (if 1 \<le> q then lg2 \<lfloor>q\<rfloor> else - (1 + lg2 (\<lceil>1 / q\<rceil> - 1)))"

definition round_half_even :: "rat \<Rightarrow> int" where
  "round_half_even s =
     (let f = \<lfloor>s\<rfloor>; d = s - of_int f
      in if d < 1 / 2 then f else if 1 / 2 < d then f + 1
         else if even f then f else f + 1)"

text \<open>
  Rounding to binary64: the significand has 53 bits, so the spacing of doubles around
  \<open>q\<close> is \<open>2\<^sup>e\<close> with \<open>e = max (binade \<bar>q\<bar>) (-1022) - 52\<close>.
\<close>

definition rnd :: "rat \<Rightarrow> number" where
  "rnd q =
     (if q = 0 then Fin 0
      else let e = max (binade \<bar>q\<bar>) (- 1022) - 52;
               r = of_int (round_half_even (q / 2 powi e)) * 2 powi e
           in if r = 0 then Fin 0
              else if 1024 \<le> binade \<bar>r\<bar> then (if 0 < q then PInf else NInf)
              else Fin r)"

text \<open>The finite doubles are the rationals that rounding leaves alone.\<close>

definition is_double :: "rat \<Rightarrow> bool" where
  "is_double q = (rnd q = Fin q)"

fun fneg :: "number \<Rightarrow> number" where
  "fneg (Fin a) = Fin (- a)"
| "fneg PInf = NInf"
| "fneg NInf = PInf"
| "fneg NaN = NaN"

fun fadd :: "number \<Rightarrow> number \<Rightarrow> number" where
  "fadd NaN _ = NaN"
| "fadd _ NaN = NaN"
| "fadd PInf NInf = NaN"
| "fadd NInf PInf = NaN"
| "fadd PInf _ = PInf"
| "fadd _ PInf = PInf"
| "fadd NInf _ = NInf"
| "fadd _ NInf = NInf"
| "fadd (Fin a) (Fin b) = rnd (a + b)"

definition fsub :: "number \<Rightarrow> number \<Rightarrow> number" where
  "fsub a b = fadd a (fneg b)"

text \<open>The sign of a number: \<open>1\<close>, \<open>0\<close> or \<open>-1\<close>; NaN has none.\<close>

fun fsgn :: "number \<Rightarrow> int" where
  "fsgn (Fin a) = (if 0 < a then 1 else if a < 0 then - 1 else 0)"
| "fsgn PInf = 1"
| "fsgn NInf = - 1"
| "fsgn NaN = 0"

definition inf_of_sign :: "int \<Rightarrow> number" where
  "inf_of_sign s = (if s = 0 then NaN else if 0 < s then PInf else NInf)"

fun fmul :: "number \<Rightarrow> number \<Rightarrow> number" where
  "fmul NaN _ = NaN"
| "fmul _ NaN = NaN"
| "fmul (Fin a) (Fin b) = rnd (a * b)"
| "fmul a b = inf_of_sign (fsgn a * fsgn b)"

fun fdiv :: "number \<Rightarrow> number \<Rightarrow> number" where
  "fdiv NaN _ = NaN"
| "fdiv _ NaN = NaN"
| "fdiv (Fin a) (Fin b) = (if b = 0 then inf_of_sign (fsgn (Fin a)) else rnd (a / b))"
| "fdiv (Fin a) _ = Fin 0"
| "fdiv a (Fin b) = inf_of_sign (fsgn a * (if b < 0 then - 1 else 1))"
| "fdiv _ _ = NaN"

text \<open>Comparisons: every comparison with NaN is false.\<close>

fun flt :: "number \<Rightarrow> number \<Rightarrow> bool" where
  "flt NaN _ = False"
| "flt _ NaN = False"
| "flt (Fin a) (Fin b) = (a < b)"
| "flt PInf _ = False"
| "flt _ PInf = True"
| "flt NInf NInf = False"
| "flt NInf _ = True"
| "flt _ NInf = False"

definition fgt :: "number \<Rightarrow> number \<Rightarrow> bool" where
  "fgt a b = flt b a"

definition feq :: "number \<Rightarrow> number \<Rightarrow> bool" where
  "feq a b = (a \<noteq> NaN \<and> a = b)"

definition fle :: "number \<Rightarrow> number \<Rightarrow> bool" where
  "fle a b = (flt a b \<or> feq a b)"

definition fge :: "number \<Rightarrow> number \<Rightarrow> bool" where
  "fge a b = fle b a"

text \<open>
  A numeric property that may be missing is \<open>None\<close> when it is \<^verbatim>\<open>undefined\<close> and
  \<open>Some v\<close> when it is the number \<open>v\<close>.  \<^verbatim>\<open>Number.isFinite\<close> holds of a finite
  number only; in arithmetic \<^verbatim>\<open>undefined\<close> becomes NaN.  Property values of other
  types (\<^verbatim>\<open>null\<close>, strings, BigInts, symbols) are treated in the section on
  arbitrary arguments below.
\<close>

fun isFinite :: "number option \<Rightarrow> bool" where
  "isFinite (Some (Fin a)) = True"
| "isFinite _ = False"

fun toNumber :: "number option \<Rightarrow> number" where
  "toNumber (Some v) = v"
| "toNumber None = NaN"

section \<open>Pixel box to page box (\<^verbatim>\<open>pixelBoxToPageBox\<close>)\<close>

record bbox_any =
  bbox_x :: "number option"
  bbox_y :: "number option"
  bbox_w :: "number option"
  bbox_h :: "number option"

text \<open>
  The argument \<^verbatim>\<open>box\<close> as the callers pass it (an \<^verbatim>\<open>OcrPixelBox\<close>, a character
  box or an error of the analysis): every property is a number or a string, and may be
  missing.
\<close>

record pixel_box =
  box_id :: "string option"
  box_x :: "number option"
  box_y :: "number option"
  box_w :: "number option"
  box_h :: "number option"
  box_bbox :: "bbox_any option"

record dom_rect =
  rect_x :: number
  rect_y :: number
  rect_width :: number
  rect_height :: number

record DomImageData =
  rect :: dom_rect
  naturalWidth :: number
  naturalHeight :: number

record PageBox =
  page_id :: "string option"
  page_x :: number
  page_y :: number
  page_w :: number
  page_h :: number

text \<open>\<^verbatim>\<open>box.bbox?.x\<close> and its siblings.\<close>

definition opt_bbox :: "(bbox_any \<Rightarrow> number option) \<Rightarrow> pixel_box \<Rightarrow> number option" where
  "opt_bbox field box = (case box_bbox box of None \<Rightarrow> None | Some b \<Rightarrow> field b)"

definition pixelBoxToPageBox :: "pixel_box \<Rightarrow> DomImageData \<Rightarrow> PageBox" where
  "pixelBoxToPageBox box img =
     (let bx = (if isFinite (box_x box) then box_x box else opt_bbox bbox_x box);
          by = (if isFinite (box_y box) then box_y box else opt_bbox bbox_y box);
          bw = (if isFinite (box_w box) then box_w box else opt_bbox bbox_w box);
          bh = (if isFinite (box_h box) then box_h box else opt_bbox bbox_h box)
      in if \<not> isFinite bx \<or> \<not> isFinite by
         then \<lparr>page_id = Some (case box_id box of None \<Rightarrow> ''unknown'' | Some i \<Rightarrow> i),
               page_x = NaN, page_y = NaN, page_w = NaN, page_h = NaN\<rparr>
         else
           let scaleX = fdiv (rect_width (rect img)) (naturalWidth img);
               scaleY = fdiv (rect_height (rect img)) (naturalHeight img);
               pageX1 = fadd (rect_x (rect img)) (fmul (toNumber bx) scaleX);
               pageY1 = fadd (rect_y (rect img)) (fmul (toNumber by) scaleY);
               pageX2 = fadd (rect_x (rect img))
                          (fmul (fadd (toNumber bx) (toNumber bw)) scaleX);
               pageY2 = fadd (rect_y (rect img))
                          (fmul (fadd (toNumber by) (toNumber bh)) scaleY)
           in \<lparr>page_id = box_id box, page_x = pageX1, page_y = pageY1,
                page_w = fsub pageX2 pageX1, page_h = fsub pageY2 pageY1\<rparr>)"

definition mapOcrBoxesToPage :: "pixel_box list \<Rightarrow> DomImageData \<Rightarrow> PageBox list" where
  "mapOcrBoxesToPage boxes img = map (\<lambda>b. pixelBoxToPageBox b img) boxes"


section \<open>Local OCR coordinates and the scale correction (\<^verbatim>\<open>coordinateMapping.ts\<close>)\<close>

record BoundingBox =
  bb_x :: number
  bb_y :: number
  bb_w :: number
  bb_h :: number

text \<open>
  An optional property \<^verbatim>\<open>w?: number\<close> of an object is absent, present with the value
  \<^verbatim>\<open>undefined\<close>, or present with a number.  \<^verbatim>\<open>'w' in o\<close> sees the difference
  between the first two; \<^verbatim>\<open>o.w !== undefined\<close> does not.
\<close>

datatype opt_number = Absent | Undefined | Present number

record ocr_coord =
  oc_x :: number
  oc_y :: number
  oc_w :: opt_number
  oc_h :: opt_number

record image_size =
  width :: number
  height :: number

definition has_key :: "opt_number \<Rightarrow> bool" where
  "has_key p = (p \<noteq> Absent)"

text \<open>Truthiness of a number: \<open>0\<close> and NaN are falsy, and so is \<^verbatim>\<open>undefined\<close>.\<close>

fun truthy :: "number \<Rightarrow> bool" where
  "truthy (Fin a) = (a \<noteq> 0)"
| "truthy NaN = False"
| "truthy _ = True"

fun prop_truthy :: "opt_number \<Rightarrow> bool" where
  "prop_truthy (Present v) = truthy v"
| "prop_truthy _ = False"

fun prop_number :: "opt_number \<Rightarrow> number" where
  "prop_number (Present v) = v"
| "prop_number _ = NaN"

definition mapLocalOcrCoordinates :: "ocr_coord \<Rightarrow> BoundingBox \<Rightarrow> ocr_coord" where
  "mapLocalOcrCoordinates ocrCoord selectionBounds =
     (if has_key (oc_w ocrCoord) \<and> has_key (oc_h ocrCoord)
      then \<lparr>oc_x = fadd (bb_x selectionBounds) (oc_x ocrCoord),
            oc_y = fadd (bb_y selectionBounds) (oc_y ocrCoord),
            oc_w = oc_w ocrCoord, oc_h = oc_h ocrCoord\<rparr>
      else \<lparr>oc_x = fadd (bb_x selectionBounds) (oc_x ocrCoord),
            oc_y = fadd (bb_y selectionBounds) (oc_y ocrCoord),
            oc_w = Absent, oc_h = Absent\<rparr>)"

text \<open>\<^verbatim>\<open>if (ocrCoord.w !== undefined) result.w = ocrCoord.w / correctionFactor\<close>\<close>

fun scale_prop :: "opt_number \<Rightarrow> number \<Rightarrow> opt_number" where
  "scale_prop (Present v) f = Present (fdiv v f)"
| "scale_prop _ f = Absent"

definition applyScaleCorrectionToOCRCoordinates :: "ocr_coord \<Rightarrow> number \<Rightarrow> ocr_coord" where
  "applyScaleCorrectionToOCRCoordinates ocrCoord correctionFactor =
     \<lparr>oc_x = fdiv (oc_x ocrCoord) correctionFactor,
      oc_y = fdiv (oc_y ocrCoord) correctionFactor,
      oc_w = scale_prop (oc_w ocrCoord) correctionFactor,
      oc_h = scale_prop (oc_h ocrCoord) correctionFactor\<rparr>"

text \<open>The literal \<^verbatim>\<open>0.8\<close> is the double nearest to \<open>4/5\<close>; \<^verbatim>\<open>1.5\<close> is exact.\<close>

definition lit_0_8 :: number where
  "lit_0_8 = rnd (4 / 5)"

definition isOversized :: "ocr_coord \<Rightarrow> image_size \<Rightarrow> bool" where
  "isOversized ocrCoord imageSize =
     (fgt (oc_x ocrCoord) (fmul (width imageSize) (Fin (3 / 2))) \<or>
      fgt (oc_y ocrCoord) (fmul (height imageSize) (Fin (3 / 2))) \<or>
      (prop_truthy (oc_w ocrCoord) \<and>
         fgt (prop_number (oc_w ocrCoord)) (fmul (width imageSize) lit_0_8)) \<or>
      (prop_truthy (oc_h ocrCoord) \<and>
         fgt (prop_number (oc_h ocrCoord)) (fmul (height imageSize) lit_0_8)))"

text \<open>
  The first half of \<^verbatim>\<open>mapLocalOcrCoordinatesWithAutoCorrection\<close>: the values of its
  local variables \<^verbatim>\<open>appliedScaleFactor\<close> and \<^verbatim>\<open>correctedOcrCoord\<close> when the
  final mapping is reached.  The optional argument
  \<^verbatim>\<open>detectedInternalScaleFactor\<close> is \<open>None\<close> when not given.
\<close>

definition autoCorrection ::
  "ocr_coord \<Rightarrow> image_size \<Rightarrow> number option \<Rightarrow> number \<times> ocr_coord" where
  "autoCorrection ocrCoord imageSize detectedInternalScaleFactor =
     (case detectedInternalScaleFactor of
        Some f \<Rightarrow>
          if truthy f \<and> fgt f (Fin 1)
          then (f, applyScaleCorrectionToOCRCoordinates ocrCoord f)
          else if isOversized ocrCoord imageSize
          then (Fin 2, applyScaleCorrectionToOCRCoordinates ocrCoord (Fin 2))
          else (Fin 1, ocrCoord)
      | None \<Rightarrow>
          if isOversized ocrCoord imageSize
          then (Fin 2, applyScaleCorrectionToOCRCoordinates ocrCoord (Fin 2))
          else (Fin 1, ocrCoord))"

definition mapLocalOcrCoordinatesWithAutoCorrection ::
  "ocr_coord \<Rightarrow> BoundingBox \<Rightarrow> image_size \<Rightarrow> number option \<Rightarrow> ocr_coord" where
  "mapLocalOcrCoordinatesWithAutoCorrection ocrCoord selectionBounds imageSize
       detectedInternalScaleFactor =
     mapLocalOcrCoordinates
       (snd (autoCorrection ocrCoord imageSize detectedInternalScaleFactor)) selectionBounds"

section \<open>Detection of the internal scale factor (\<^verbatim>\<open>TesseractOCRProcessor.processImage\<close>)\<close>

record tess_bbox =
  x0 :: number
  y0 :: number
  x1 :: number
  y1 :: number

record tess_symbol =
  sym_text :: string
  sym_bbox :: tess_bbox

text \<open>\<^verbatim>\<open>word.symbols\<close> may be missing.\<close>

record tess_word =
  symbols :: "tess_symbol list option"

record tess_line =
  words :: "tess_word list"

record tess_paragraph =
  lines :: "tess_line list"

text \<open>
  The symbol \<^verbatim>\<open>paragraphs[0].lines[0].words[0].symbols[0]\<close>, reached through the four
  nested length checks of \<^verbatim>\<open>processImage\<close>.
\<close>

definition firstSymbolOf :: "tess_paragraph list \<Rightarrow> tess_symbol option" where
  "firstSymbolOf paragraphs =
     (case paragraphs of
        [] \<Rightarrow> None
      | firstParagraph # _ \<Rightarrow>
         (case lines firstParagraph of
            [] \<Rightarrow> None
          | firstLine # _ \<Rightarrow>
             (case words firstLine of
                [] \<Rightarrow> None
              | firstWord # _ \<Rightarrow>
                 (case symbols firstWord of
                    None \<Rightarrow> None
                  | Some [] \<Rightarrow> None
                  | Some (s # _) \<Rightarrow> Some s))))"

text \<open>
  The value that \<^verbatim>\<open>processImage\<close> stores in
  \<^verbatim>\<open>metadata.detectedInternalScaleFactor\<close>, from the paragraphs that Tesseract
  returned and the height of the preprocessed canvas (an unsigned integer).
\<close>

definition internalScaleFactor :: "tess_paragraph list \<Rightarrow> nat \<Rightarrow> number" where
  "internalScaleFactor paragraphs canvasHeight =
     (case firstSymbolOf paragraphs of
        None \<Rightarrow> Fin 1
      | Some firstSymbol \<Rightarrow>
          let h = fsub (y1 (sym_bbox firstSymbol)) (y0 (sym_bbox firstSymbol));
              charHeightRatio = fdiv h (Fin (of_nat canvasHeight))
          in if fgt charHeightRatio (Fin (1 / 2)) then Fin 2 else Fin 1)"

section \<open>Reconciliation of error annotations (\<^verbatim>\<open>validateAndFixGPTCoordinates\<close>)\<close>

record point =
  pt_x :: number
  pt_y :: number

record CharacterBox =
  cb_id :: string
  cb_char :: string
  cb_bbox :: BoundingBox
  cb_center :: point
  cb_confidence :: number

datatype errorType = Math | Notation | Dimension | Property | Concept

datatype action = Circle | Strikethrough | Underline | Highlight

record HandwritingError =
  he_id :: string
  he_bbox :: BoundingBox
  he_center :: point
  he_errorType :: errorType
  he_suggestion :: string
  he_explanation :: string
  he_action :: action

text \<open>
  \<^verbatim>\<open>new Map(ocrCharBoxes.map(char => [char.id, char]))\<close>: the entries are inserted in
  order, a later box replacing an earlier one with the same id.
\<close>

definition charMap :: "CharacterBox list \<Rightarrow> (string \<rightharpoonup> CharacterBox)" where
  "charMap ocrCharBoxes = foldl (\<lambda>m char. m(cb_id char \<mapsto> char)) Map.empty ocrCharBoxes"

text \<open>The two \<^verbatim>\<open>console.warn\<close> reports, by the id they name.\<close>

datatype warning = UnknownCharId string | CoordinatesFixed string

definition coordsMatch :: "HandwritingError \<Rightarrow> CharacterBox \<Rightarrow> bool" where
  "coordsMatch error ocrChar =
     (feq (bb_x (he_bbox error)) (bb_x (cb_bbox ocrChar)) \<and>
      feq (bb_y (he_bbox error)) (bb_y (cb_bbox ocrChar)) \<and>
      feq (bb_w (he_bbox error)) (bb_w (cb_bbox ocrChar)) \<and>
      feq (bb_h (he_bbox error)) (bb_h (cb_bbox ocrChar)))"

text \<open>The body of the callback given to \<^verbatim>\<open>gptErrors.map\<close>, with what it logs.\<close>

definition fixGPTError ::
  "(string \<rightharpoonup> CharacterBox) \<Rightarrow> HandwritingError \<Rightarrow> HandwritingError \<times> warning list" where
  "fixGPTError m error =
     (case m (he_id error) of
        None \<Rightarrow> (error, [UnknownCharId (he_id error)])
      | Some ocrChar \<Rightarrow>
          if \<not> coordsMatch error ocrChar
          then (error\<lparr>he_bbox := cb_bbox ocrChar, he_center := cb_center ocrChar\<rparr>,
                [CoordinatesFixed (he_id error)])
          else (error, []))"

definition validateAndFixGPTCoordinates ::
  "HandwritingError list \<Rightarrow> CharacterBox list \<Rightarrow> HandwritingError list \<times> warning list" where
  "validateAndFixGPTCoordinates gptErrors ocrCharBoxes =
     (let m = charMap ocrCharBoxes
      in (map (\<lambda>error. fst (fixGPTError m error)) gptErrors,
          concat (map (\<lambda>error. snd (fixGPTError m error)) gptErrors)))"

section \<open>Page mapping of the error boxes (\<^verbatim>\<open>processSelectedShapes\<close>)\<close>

text \<open>
  A canonical character box as \<^verbatim>\<open>pixelBoxToPageBox\<close> receives it: an object with
  \<open>id\<close> and \<open>bbox\<close> and no \<open>x\<close>, \<open>y\<close>, \<open>w\<close>, \<open>h\<close> of its own.
\<close>

definition bbox_of :: "BoundingBox \<Rightarrow> bbox_any" where
  "bbox_of b = \<lparr>bbox_x = Some (bb_x b), bbox_y = Some (bb_y b),
               bbox_w = Some (bb_w b), bbox_h = Some (bb_h b)\<rparr>"

definition charBoxAsPixelBox :: "CharacterBox \<Rightarrow> pixel_box" where
  "charBoxAsPixelBox c =
     \<lparr>box_id = Some (cb_id c), box_x = None, box_y = None, box_w = None, box_h = None,
      box_bbox = Some (bbox_of (cb_bbox c))\<rparr>"

text \<open>
  \<^verbatim>\<open>{ id: error.id, x: error.bbox.x, y: error.bbox.y, w: error.bbox.w, h: error.bbox.h,
  char: error.suggestion, ...error }\<close>; the fallback path omits the spread, and with it
  the \<open>bbox\<close> property.
\<close>

definition errorAsPixelBox :: "bool \<Rightarrow> HandwritingError \<Rightarrow> pixel_box" where
  "errorAsPixelBox spread error =
     \<lparr>box_id = Some (he_id error),
      box_x = Some (bb_x (he_bbox error)), box_y = Some (bb_y (he_bbox error)),
      box_w = Some (bb_w (he_bbox error)), box_h = Some (bb_h (he_bbox error)),
      box_bbox = (if spread then Some (bbox_of (he_bbox error)) else None)\<rparr>"

definition isNaN :: "number \<Rightarrow> bool" where
  "isNaN v = (v = NaN)"

definition mappedError :: "HandwritingError \<Rightarrow> PageBox \<Rightarrow> HandwritingError" where
  "mappedError error mappedBox =
     error\<lparr>he_bbox := \<lparr>bb_x = page_x mappedBox, bb_y = page_y mappedBox,
                        bb_w = page_w mappedBox, bb_h = page_h mappedBox\<rparr>,
           he_center := \<lparr>pt_x = fadd (page_x mappedBox) (fdiv (page_w mappedBox) (Fin 2)),
                          pt_y = fadd (page_y mappedBox) (fdiv (page_h mappedBox) (Fin 2))\<rparr>\<rparr>"

text \<open>
  \<^verbatim>\<open>convertedErrors\<close>: the error list in page coordinates.  \<open>imageData\<close> is what
  \<^verbatim>\<open>getImageData()\<close> gave after the retries; when it is \<^verbatim>\<open>null\<close> the geometry is
  built from the selection bounds and the image size in the OCR metadata, and the NaN check
  is not made.
\<close>

definition convertedErrors ::
  "HandwritingError list \<Rightarrow> DomImageData option \<Rightarrow> BoundingBox \<Rightarrow> number \<Rightarrow> number \<Rightarrow>
   HandwritingError list" where
  "convertedErrors results imageData selectionBounds imageWidth imageHeight =
     (case imageData of
        None \<Rightarrow>
          let standardImageData =
                \<lparr>rect = \<lparr>rect_x = bb_x selectionBounds, rect_y = bb_y selectionBounds,
                          rect_width = bb_w selectionBounds, rect_height = bb_h selectionBounds\<rparr>,
                 naturalWidth = imageWidth, naturalHeight = imageHeight\<rparr>;
              mappedPageBoxes = mapOcrBoxesToPage (map (errorAsPixelBox False) results)
                                  standardImageData
          in map (\<lambda>(error, mappedBox). mappedError error mappedBox)
                 (zip results mappedPageBoxes)
      | Some img \<Rightarrow>
          let mappedPageBoxes = mapOcrBoxesToPage (map (errorAsPixelBox True) results) img
          in map (\<lambda>(error, mappedBox).
                    if isNaN (page_x mappedBox) \<or> isNaN (page_y mappedBox) \<or>
                       isNaN (page_w mappedBox) \<or> isNaN (page_h mappedBox)
                    then error
                    else mappedError error mappedBox)
                 (zip results mappedPageBoxes))"

text \<open>The geometry that \<^verbatim>\<open>convertedErrors\<close> maps with.\<close>

definition captureGeometry :: "DomImageData option \<Rightarrow> BoundingBox \<Rightarrow> number \<Rightarrow> number \<Rightarrow> DomImageData" where
  "captureGeometry imageData selectionBounds imageWidth imageHeight =
     (case imageData of
        Some img \<Rightarrow> img
      | None \<Rightarrow> \<lparr>rect = \<lparr>rect_x = bb_x selectionBounds, rect_y = bb_y selectionBounds,
                          rect_width = bb_w selectionBounds, rect_height = bb_h selectionBounds\<rparr>,
                 naturalWidth = imageWidth, naturalHeight = imageHeight\<rparr>)"


section \<open>Placement of suggestion cards (\<^verbatim>\<open>smartPositioning.ts\<close>)\<close>

text \<open>
  \<^verbatim>\<open>Math.floor\<close>, \<^verbatim>\<open>Math.abs\<close>, \<^verbatim>\<open>Math.max\<close> and \<^verbatim>\<open>Math.min\<close> are exact.
  \<^verbatim>\<open>Math.sqrt\<close> and \<^verbatim>\<open>Math.pow(d, 2)\<close> are taken to be correctly rounded.
\<close>

fun js_floor :: "number \<Rightarrow> number" where
  "js_floor (Fin a) = Fin (of_int \<lfloor>a\<rfloor>)"
| "js_floor v = v"

fun js_abs :: "number \<Rightarrow> number" where
  "js_abs (Fin a) = Fin \<bar>a\<bar>"
| "js_abs NInf = PInf"
| "js_abs v = v"

definition js_max :: "number \<Rightarrow> number \<Rightarrow> number" where
  "js_max a b = (if a = NaN \<or> b = NaN then NaN else if flt a b then b else a)"

definition js_min :: "number \<Rightarrow> number \<Rightarrow> number" where
  "js_min a b = (if a = NaN \<or> b = NaN then NaN else if flt b a then b else a)"

function isqrt :: "int \<Rightarrow> int" where
  "isqrt n = (if n < 1 then 0
              else let r = 2 * isqrt (n div 4) in if (r + 1) * (r + 1) \<le> n then r + 1 else r)"
  by pat_completeness auto
termination
  by (relation "measure nat") auto

declare isqrt.simps [simp del]

text \<open>
  The square root of a positive rational to 53 significant bits, ties to even: with
  \<open>e\<close> the binade of the root, the root is rounded to a multiple of \<open>2\<^sup>e\<^sup>-\<^sup>5\<^sup>2\<close>.
\<close>

definition sqrt_53 :: "rat \<Rightarrow> rat" where
  "sqrt_53 q =
     (let e = binade q div 2 - 52;
          s = q / (2 powi e) ^ 2;
          f = isqrt \<lfloor>s\<rfloor>;
          m = (of_int f + 1 / 2) ^ 2;
          n = (if s < m then f else if m < s then f + 1 else if even f then f else f + 1)
      in of_int n * 2 powi e)"

fun js_sqrt :: "number \<Rightarrow> number" where
  "js_sqrt (Fin a) = (if a < 0 then NaN else if a = 0 then Fin 0 else rnd (sqrt_53 a))"
| "js_sqrt PInf = PInf"
| "js_sqrt v = NaN"

definition js_pow2 :: "number \<Rightarrow> number" where
  "js_pow2 d = fmul d d"

datatype js_error = TypeError

record PositionCandidate =
  pc_x :: number
  pc_y :: number
  pc_score :: number
  pc_direction :: string
  pc_avoided_shapes :: number
  pc_distance_to_error :: number

text \<open>
  \<open>width\<close> and \<open>height\<close> of a grid count the columns and rows of its arrays, so they are
  natural numbers; loop counters that run up to them are exact.
\<close>

record SpatialGrid =
  grid_width :: nat
  grid_height :: nat
  cellSize :: number
  density :: "number list list"
  occupied :: "bool list list"

record SuggestionPlacement =
  sp_x :: number
  sp_y :: number
  sp_width :: number
  sp_height :: number
  leadLineStart :: point
  leadLineEnd :: point
  animationDelay :: number

text \<open>
  The values of the counter of \<^verbatim>\<open>for (let i = Math.max(0, start); i <= Math.min(n - 1,
  end); i++)\<close>.  Both bounds are integers when they are finite; the loop body never runs
  when a bound is NaN or the bounds are infinite the wrong way round.
\<close>

definition loop_range :: "number \<Rightarrow> number \<Rightarrow> nat \<Rightarrow> int list" where
  "loop_range start end n =
     (case (js_max (Fin 0) start, js_min (Fin (of_nat n - 1)) end) of
        (Fin a, Fin b) \<Rightarrow> [\<lfloor>a\<rfloor>..\<lfloor>b\<rfloor>]
      | _ \<Rightarrow> [])"

text \<open>
  \<^verbatim>\<open>totalDensity += grid.density[row][col]; cellCount++\<close> for each cell in turn.  A row
  that the array does not have is \<^verbatim>\<open>undefined\<close> and indexing it throws; a column that
  the row does not have reads as \<^verbatim>\<open>undefined\<close> and adds NaN.
\<close>

fun add_cells ::
  "number list list \<Rightarrow> (int \<times> int) list \<Rightarrow> number \<times> nat \<Rightarrow> js_error + number \<times> nat" where
  "add_cells d [] acc = Inr acc"
| "add_cells d ((row, col) # cells) (totalDensity, cellCount) =
     (if nat row < length d
      then add_cells d cells
             (fadd totalDensity
                (if nat col < length (d ! nat row) then d ! nat row ! nat col else NaN),
              Suc cellCount)
      else Inl TypeError)"

definition calculateDensityPenalty ::
  "point \<Rightarrow> image_size \<Rightarrow> BoundingBox \<Rightarrow> SpatialGrid \<Rightarrow> js_error + number" where
  "calculateDensityPenalty position cardSize viewportBounds grid =
     (let cellWidth = fdiv (bb_w viewportBounds) (Fin (of_nat (grid_width grid)));
          cellHeight = fdiv (bb_h viewportBounds) (Fin (of_nat (grid_height grid)));
          startCol = js_floor (fdiv (fsub (pt_x position) (bb_x viewportBounds)) cellWidth);
          endCol = js_floor (fdiv (fsub (fadd (pt_x position) (width cardSize))
                                    (bb_x viewportBounds)) cellWidth);
          startRow = js_floor (fdiv (fsub (pt_y position) (bb_y viewportBounds)) cellHeight);
          endRow = js_floor (fdiv (fsub (fadd (pt_y position) (height cardSize))
                                    (bb_y viewportBounds)) cellHeight);
          rows = loop_range startRow endRow (grid_height grid);
          cols = loop_range startCol endCol (grid_width grid)
      in case add_cells (density grid) (List.product rows cols) (Fin 0, 0) of
           Inl e \<Rightarrow> Inl e
         | Inr (totalDensity, cellCount) \<Rightarrow>
             Inr (if 0 < cellCount
                  then fmul (fdiv totalDensity (Fin (of_nat cellCount))) (Fin 25)
                  else Fin 0))"

definition calculateBoundaryBonus :: "point \<Rightarrow> image_size \<Rightarrow> BoundingBox \<Rightarrow> number" where
  "calculateBoundaryBonus position cardSize viewportBounds =
     (let minDistanceToEdge =
            js_min (js_min (js_min
              (fsub (pt_x position) (bb_x viewportBounds))
              (fsub (pt_y position) (bb_y viewportBounds)))
              (fsub (fadd (bb_x viewportBounds) (bb_w viewportBounds))
                    (fadd (pt_x position) (width cardSize))))
              (fsub (fadd (bb_y viewportBounds) (bb_h viewportBounds))
                    (fadd (pt_y position) (height cardSize)))
      in if fge minDistanceToEdge (Fin 40) \<and> fle minDistanceToEdge (Fin 80) then Fin 1
         else if fge minDistanceToEdge (Fin 20) \<and> fle minDistanceToEdge (Fin 120)
         then Fin (1 / 2)
         else Fin 0)"

definition calculateDistanceBonus :: "point \<Rightarrow> point \<Rightarrow> number" where
  "calculateDistanceBonus position errorPosition =
     (let distance = js_sqrt (fadd (js_pow2 (fsub (pt_x position) (pt_x errorPosition)))
                                   (js_pow2 (fsub (pt_y position) (pt_y errorPosition))))
      in if fge distance (Fin 100) \<and> fle distance (Fin 150) then Fin 1
         else if fge distance (Fin 80) \<and> fle distance (Fin 200) then rnd (6 / 10)
         else if fge distance (Fin 60) \<and> fle distance (Fin 250) then rnd (3 / 10)
         else Fin 0)"

definition calculateDirectionBonus :: "point \<Rightarrow> point \<Rightarrow> number" where
  "calculateDirectionBonus position errorPosition =
     (let dx = fsub (pt_x position) (pt_x errorPosition);
          dy = fsub (pt_y position) (pt_y errorPosition)
      in if fgt dx (Fin 0) \<and> flt dy (Fin 0) then Fin 1
         else if fgt dx (Fin 0) \<and> fgt dy (Fin 0) then rnd (8 / 10)
         else if fgt dx (Fin 0) \<and> flt (js_abs dy) (Fin 20) then rnd (6 / 10)
         else if flt dx (Fin 0) \<and> flt dy (Fin 0) then rnd (4 / 10)
         else rnd (2 / 10))"

definition calculatePositionScore ::
  "point \<Rightarrow> image_size \<Rightarrow> point \<Rightarrow> BoundingBox \<Rightarrow> SpatialGrid \<Rightarrow> js_error + number" where
  "calculatePositionScore position cardSize errorPosition viewportBounds grid =
     (case calculateDensityPenalty position cardSize viewportBounds grid of
        Inl e \<Rightarrow> Inl e
      | Inr densityPenalty \<Rightarrow>
          let score = fsub (Fin 100) (fmul densityPenalty (Fin 40));
              score = fadd score
                        (fmul (calculateBoundaryBonus position cardSize viewportBounds) (Fin 20));
              score = fadd score (fmul (calculateDistanceBonus position errorPosition) (Fin 25));
              score = fadd score (fmul (calculateDirectionBonus position errorPosition) (Fin 15))
          in Inr (js_max (Fin 0) score))"

definition DISTANCE_OPTIONS :: "number list" where
  "DISTANCE_OPTIONS = [Fin 80, Fin 120, Fin 160, Fin 200]"

text \<open>The eight directions: name, \<open>dx\<close>, \<open>dy\<close>.\<close>

definition directions :: "(string \<times> number \<times> number) list" where
  "directions =
     [(''N'', Fin 0, Fin (- 1)), (''NE'', Fin 1, Fin (- 1)), (''E'', Fin 1, Fin 0),
      (''SE'', Fin 1, Fin 1), (''S'', Fin 0, Fin 1), (''SW'', Fin (- 1), Fin 1),
      (''W'', Fin (- 1), Fin 0), (''NW'', Fin (- 1), Fin (- 1))]"

text \<open>
  One turn of the inner \<^verbatim>\<open>forEach\<close>: nothing is pushed for a position outside the
  viewport.
\<close>

definition candidateAt ::
  "point \<Rightarrow> image_size \<Rightarrow> BoundingBox \<Rightarrow> SpatialGrid \<Rightarrow> (string \<times> number \<times> number) \<times> number \<Rightarrow>
   js_error + PositionCandidate option" where
  "candidateAt errorPosition cardSize viewportBounds grid dd =
     (case dd of ((name, dx, dy), distance) \<Rightarrow>
        let candidateX = fadd (pt_x errorPosition) (fmul dx distance);
            candidateY = fadd (pt_y errorPosition) (fmul dy distance)
        in if fge candidateX (bb_x viewportBounds) \<and>
              fle (fadd candidateX (width cardSize))
                  (fadd (bb_x viewportBounds) (bb_w viewportBounds)) \<and>
              fge candidateY (bb_y viewportBounds) \<and>
              fle (fadd candidateY (height cardSize))
                  (fadd (bb_y viewportBounds) (bb_h viewportBounds))
           then (case calculatePositionScore \<lparr>pt_x = candidateX, pt_y = candidateY\<rparr> cardSize
                         errorPosition viewportBounds grid of
                   Inl e \<Rightarrow> Inl e
                 | Inr score \<Rightarrow>
                     Inr (Some \<lparr>pc_x = candidateX, pc_y = candidateY, pc_score = score,
                                pc_direction = name, pc_avoided_shapes = Fin 0,
                                pc_distance_to_error = distance\<rparr>))
           else Inr None)"

fun collect :: "('a \<Rightarrow> js_error + 'b option) \<Rightarrow> 'a list \<Rightarrow> js_error + 'b list" where
  "collect f [] = Inr []"
| "collect f (x # xs) =
     (case f x of
        Inl e \<Rightarrow> Inl e
      | Inr None \<Rightarrow> collect f xs
      | Inr (Some y) \<Rightarrow> (case collect f xs of Inl e \<Rightarrow> Inl e | Inr ys \<Rightarrow> Inr (y # ys)))"

text \<open>
  \<^verbatim>\<open>candidates.sort((a, b) => b.score - a.score)\<close>: a stable sort; \<open>b\<close> moves in front
  of \<open>a\<close> only when the comparator is positive.  When a score is NaN so is the
  comparator, which is then not a consistent comparator, and the order the engine
  produces is implementation-defined; the insertion order below is one such order.  What
  is proved about the layout below uses only that sorting keeps the set of candidates.
\<close>

fun insort_score :: "PositionCandidate \<Rightarrow> PositionCandidate list \<Rightarrow> PositionCandidate list" where
  "insort_score a [] = [a]"
| "insort_score a (b # bs) =
     (if fgt (fsub (pc_score b) (pc_score a)) (Fin 0) then b # insort_score a bs
      else a # b # bs)"

definition sort_score :: "PositionCandidate list \<Rightarrow> PositionCandidate list" where
  "sort_score cs = foldr insort_score cs []"

definition generatePositionCandidates ::
  "point \<Rightarrow> image_size \<Rightarrow> BoundingBox \<Rightarrow> SpatialGrid \<Rightarrow> js_error + PositionCandidate list" where
  "generatePositionCandidates errorPosition cardSize viewportBounds grid =
     (case collect (candidateAt errorPosition cardSize viewportBounds grid)
             (List.product directions DISTANCE_OPTIONS) of
        Inl e \<Rightarrow> Inl e
      | Inr candidates \<Rightarrow> Inr (sort_score candidates))"

text \<open>The test inside \<^verbatim>\<open>usedPositions.some\<close>: the candidate's card overlaps \<open>used\<close>.\<close>

definition overlaps :: "number \<Rightarrow> number \<Rightarrow> image_size \<Rightarrow> BoundingBox \<Rightarrow> bool" where
  "overlaps x y cardSize used =
     (\<not> (fge x (fadd (bb_x used) (bb_w used)) \<or>
         fle (fadd x (width cardSize)) (bb_x used) \<or>
         fge y (fadd (bb_y used) (bb_h used)) \<or>
         fle (fadd y (height cardSize)) (bb_y used)))"

text \<open>The entry pushed on \<^verbatim>\<open>usedPositions\<close>: the card with a buffer of 20 on every side.\<close>

definition buffered :: "number \<Rightarrow> number \<Rightarrow> image_size \<Rightarrow> BoundingBox" where
  "buffered x y cardSize =
     \<lparr>bb_x = fsub x (Fin 20), bb_y = fsub y (Fin 20),
      bb_w = fadd (width cardSize) (Fin 40), bb_h = fadd (height cardSize) (Fin 40)\<rparr>"

definition placementAt ::
  "number \<Rightarrow> number \<Rightarrow> image_size \<Rightarrow> point \<Rightarrow> nat \<Rightarrow> SuggestionPlacement" where
  "placementAt x y cardSize errorCenter index =
     \<lparr>sp_x = x, sp_y = y, sp_width = width cardSize, sp_height = height cardSize,
      leadLineStart = errorCenter,
      leadLineEnd = \<lparr>pt_x = fadd x (fdiv (width cardSize) (Fin 2)),
                     pt_y = fadd y (fdiv (height cardSize) (Fin 2))\<rparr>,
      animationDelay = fmul (Fin (of_nat index)) (Fin 800)\<rparr>"

text \<open>
  The body of \<^verbatim>\<open>errors.forEach((error, index) => ...)\<close>, on the two arrays it
  updates.
\<close>

definition placeError ::
  "BoundingBox \<Rightarrow> SpatialGrid \<Rightarrow> image_size \<Rightarrow> HandwritingError \<Rightarrow> nat \<Rightarrow>
   SuggestionPlacement list \<times> BoundingBox list \<Rightarrow>
   js_error + SuggestionPlacement list \<times> BoundingBox list" where
  "placeError viewportBounds grid cardSize error index st =
     (case st of (placements, usedPositions) \<Rightarrow>
       (let errorCenter =
              \<lparr>pt_x = fadd (bb_x (he_bbox error)) (fdiv (bb_w (he_bbox error)) (Fin 2)),
               pt_y = fadd (bb_y (he_bbox error)) (fdiv (bb_h (he_bbox error)) (Fin 2))\<rparr>
        in (case generatePositionCandidates errorCenter cardSize viewportBounds grid of
              Inl e \<Rightarrow> Inl e
            | Inr candidates \<Rightarrow>
               (case filter (\<lambda>candidate.
                        \<not> list_ex (overlaps (pc_x candidate) (pc_y candidate) cardSize)
                            usedPositions) candidates of
                  bestPosition # _ \<Rightarrow>
                    Inr (placements @
                           [placementAt (pc_x bestPosition) (pc_y bestPosition) cardSize
                              errorCenter index],
                         usedPositions @
                           [buffered (pc_x bestPosition) (pc_y bestPosition) cardSize])
                | [] \<Rightarrow>
                   (let fallbackX = fadd (pt_x errorCenter) (Fin 100);
                        fallbackY = fsub (pt_y errorCenter) (fdiv (height cardSize) (Fin 2))
                    in Inr (placements @
                              [placementAt fallbackX fallbackY cardSize errorCenter index],
                            usedPositions))))))"

fun placeErrors ::
  "BoundingBox \<Rightarrow> SpatialGrid \<Rightarrow> image_size \<Rightarrow> HandwritingError list \<Rightarrow> nat \<Rightarrow>
   SuggestionPlacement list \<times> BoundingBox list \<Rightarrow>
   js_error + SuggestionPlacement list \<times> BoundingBox list" where
  "placeErrors viewportBounds grid cardSize [] index st = Inr st"
| "placeErrors viewportBounds grid cardSize (error # errors) index st =
     (case placeError viewportBounds grid cardSize error index st of
        Inl e \<Rightarrow> Inl e
      | Inr st' \<Rightarrow> placeErrors viewportBounds grid cardSize errors (Suc index) st')"

definition optimizeMultipleErrorLayout ::
  "HandwritingError list \<Rightarrow> BoundingBox \<Rightarrow> SpatialGrid \<Rightarrow> image_size \<Rightarrow>
   js_error + SuggestionPlacement list" where
  "optimizeMultipleErrorLayout errors viewportBounds grid cardSize =
     (case placeErrors viewportBounds grid cardSize errors 0 ([], []) of
        Inl e \<Rightarrow> Inl e
      | Inr (placements, usedPositions) \<Rightarrow> Inr placements)"

text \<open>The default argument \<^verbatim>\<open>cardSize = { width: 180, height: 120 }\<close>.\<close>

definition defaultCardSize :: image_size where
  "defaultCardSize = \<lparr>width = Fin 180, height = Fin 120\<rparr>"

text \<open>
  A placement has the shape of the fallback when it sits at \<open>(100, - height / 2)\<close> from
  the start of its lead line, which is the error centre.
\<close>

definition isFallbackPlacement :: "image_size \<Rightarrow> SuggestionPlacement \<Rightarrow> bool" where
  "isFallbackPlacement cardSize p =
     (sp_x p = fadd (pt_x (leadLineStart p)) (Fin 100) \<and>
      sp_y p = fsub (pt_y (leadLineStart p)) (fdiv (height cardSize) (Fin 2)))"

text \<open>A placement has the shape of a candidate: one of the 32 offsets from the error centre.\<close>

definition isCandidatePlacement :: "SuggestionPlacement \<Rightarrow> bool" where
  "isCandidatePlacement p =
     list_ex (\<lambda>((name, dx, dy), distance).
                sp_x p = fadd (pt_x (leadLineStart p)) (fmul dx distance) \<and>
                sp_y p = fadd (pt_y (leadLineStart p)) (fmul dy distance))
       (List.product directions DISTANCE_OPTIONS)"

text \<open>What holds of the two arrays after each turn of the loop.\<close>

definition layout_inv :: "image_size \<Rightarrow> SuggestionPlacement list \<times> BoundingBox list \<Rightarrow> bool" where
  "layout_inv cardSize st =
     (case st of (placements, usedPositions) \<Rightarrow>
        (\<forall>i<length placements.
            isFallbackPlacement cardSize (placements ! i) \<or>
            buffered (sp_x (placements ! i)) (sp_y (placements ! i)) cardSize
              \<in> set usedPositions) \<and>
        (\<forall>j<length placements. \<forall>i<j.
            \<not> isFallbackPlacement cardSize (placements ! i) \<longrightarrow>
            \<not> isFallbackPlacement cardSize (placements ! j) \<longrightarrow>
            \<not> overlaps (sp_x (placements ! j)) (sp_y (placements ! j)) cardSize
                (buffered (sp_x (placements ! i)) (sp_y (placements ! i)) cardSize)) \<and>
        (\<forall>i<length placements.
            isFallbackPlacement cardSize (placements ! i) \<or>
            isCandidatePlacement (placements ! i)))"


section \<open>The two-phase capture (\<^verbatim>\<open>useHandwritingOCR\<close>)\<close>

text \<open>
  The hook keeps one state object and changes it only through \<^verbatim>\<open>updateOCRState\<close>,
  which merges the given fields into the latest state.  The model keeps the fields that
  drive the two phases and the result of recognition; the fields for error marks and
  suggestion cards are left out, as are toasts, console output and the debug log.

  What the editor, the browser and the OCR engine answer is an argument of the model.  A
  promise either resolves with a value or rejects with a message; a synchronous call that
  throws is a rejection as well.
\<close>

datatype message =
    NoSelection | NoSelectionBounds | NoBlob | ImageLoadFailed | InitSucceeded
  | InitDataIncomplete | Failure string

datatype 'a outcome = Resolved 'a | Rejected message

text \<open>A canvas element: its identity and its size.\<close>

record canvas =
  canvas_id :: nat
  canvas_width :: nat
  canvas_height :: nat

record OCRResult =
  imageId :: string
  fullText :: string
  charBoxes :: "CharacterBox list"
  imageWidth :: number
  imageHeight :: number
  detectedInternalScaleFactor :: "number option"

record initialization_data =
  init_selectionBounds :: "BoundingBox option"
  init_shapeIds :: "string list"
  init_imageCanvas :: "canvas option"

datatype step =
    Idle | InitializingEnvironment | CapturingImage | ConvertingToCanvas | SettingUpImage
  | InitializationCompleted | StartingRecognition | UsingInitializedImage | Preprocessing
  | PerformingOCR | Validating | Saving | AnalyzingErrors | ProcessingCompleted

record OCRState =
  isProcessing :: bool
  progress :: nat
  currentStep :: step
  lastResult :: "OCRResult option"
  lastSelectionBounds :: "BoundingBox option"
  isInitialized :: bool
  initializationData :: "initialization_data option"
  error :: "message option"

text \<open>
  The answers of the collaborators: the editor's selection, \<^verbatim>\<open>editor.toImage\<close> (a
  blob, which may be null, with its size), \<^verbatim>\<open>blobToCanvas\<close>, the load of the proxy
  image element, \<^verbatim>\<open>preprocessImage\<close>, \<^verbatim>\<open>processImageOCR\<close>, and the steps that
  follow recognition, of which only a throw that escapes their own \<^verbatim>\<open>try\<close> blocks
  matters here.  Three of these steps run before the state is set to completed, each
  after a progress update of its own: the validation of the result with its warning
  (\<open>validateOCRResult\<close>, at 80), the two saves with their notifications
  (\<open>saveOCRResult\<close>, at 90), and the error analysis with the marking of errors
  (\<open>analyzeHandwritingErrors\<close>, at 92; when the analysis is switched off the step is
  skipped, which looks the same as a step that returns at once).  The layout of suggestions
  that follows cannot throw, and its progress update is overwritten before anything else
  can.  The result notification and the scheduling of suggestions and speech
  (\<open>afterCompletion\<close>) run after the state is set to completed, still inside the same
  \<^verbatim>\<open>try\<close>.
\<close>

record environment =
  getSelectedShapeIds :: "string list"
  getSelectionPageBounds :: "BoundingBox option"
  toImage :: "string list \<Rightarrow> (nat option \<times> nat \<times> nat) outcome"
  blobToCanvas :: "nat \<Rightarrow> canvas outcome"
  imageLoad :: "nat \<Rightarrow> unit outcome"
  preprocessImage :: "canvas \<Rightarrow> canvas outcome"
  processImageOCR :: "canvas \<Rightarrow> canvas \<Rightarrow> OCRResult outcome"
  validateOCRResult :: "OCRResult \<Rightarrow> unit outcome"
  saveOCRResult :: "OCRResult \<Rightarrow> unit outcome"
  analyzeHandwritingErrors :: "OCRResult \<Rightarrow> unit outcome"
  afterCompletion :: "OCRResult \<Rightarrow> unit outcome"

text \<open>The calls made to the collaborators, in order.\<close>

datatype call =
    ToImage "string list" | BlobToCanvas nat | LoadImage nat
  | PreprocessImage canvas | ProcessImageOCR canvas canvas | ValidateOCRResult
  | SaveOCRResult | AnalyzeHandwritingErrors | AfterCompletion

record init_result =
  init_success :: bool
  init_message :: message

record OCRProcessingResult =
  success :: bool
  result :: "OCRResult option"
  error_message :: "message option"

text \<open>The \<^verbatim>\<open>catch\<close> block of \<^verbatim>\<open>initializeOCR\<close>.\<close>

definition initFailed ::
  "OCRState \<Rightarrow> message \<Rightarrow> call list \<Rightarrow> OCRState \<times> init_result \<times> call list" where
  "initFailed s errorMessage calls =
     (s\<lparr>isProcessing := False, error := Some errorMessage, isInitialized := False,
        initializationData := None\<rparr>,
      \<lparr>init_success = False, init_message = errorMessage\<rparr>, calls)"

text \<open>
  \<^verbatim>\<open>initializeOCR\<close>, phase one.  It starts from the latest state and never reads it.
\<close>

definition initializeOCR ::
  "environment \<Rightarrow> OCRState \<Rightarrow> OCRState \<times> init_result \<times> call list" where
  "initializeOCR env s =
     (let s = s\<lparr>isProcessing := True, progress := 0, currentStep := InitializingEnvironment,
                 error := None\<rparr>;
          shapeIds = getSelectedShapeIds env
      in if shapeIds = [] then initFailed s NoSelection []
         else case getSelectionPageBounds env of
           None \<Rightarrow> initFailed s NoSelectionBounds []
         | Some selectionBounds \<Rightarrow>
            (let s = s\<lparr>progress := 30, currentStep := CapturingImage\<rparr>
             in case toImage env shapeIds of
               Rejected m \<Rightarrow> initFailed s m [ToImage shapeIds]
             | Resolved (None, w, h) \<Rightarrow> initFailed s NoBlob [ToImage shapeIds]
             | Resolved (Some blob, w, h) \<Rightarrow>
                (let s = s\<lparr>progress := 60, currentStep := ConvertingToCanvas\<rparr>
                 in case blobToCanvas env blob of
                   Rejected m \<Rightarrow> initFailed s m [ToImage shapeIds, BlobToCanvas blob]
                 | Resolved imageCanvas \<Rightarrow>
                    (let s = s\<lparr>progress := 90, currentStep := SettingUpImage\<rparr>
                     in case imageLoad env blob of
                       Rejected m \<Rightarrow>
                         initFailed s m [ToImage shapeIds, BlobToCanvas blob, LoadImage blob]
                     | Resolved _ \<Rightarrow>
                         (s\<lparr>progress := 100, currentStep := InitializationCompleted,
                            isInitialized := True,
                            initializationData :=
                              Some \<lparr>init_selectionBounds = Some selectionBounds,
                                    init_shapeIds = shapeIds,
                                    init_imageCanvas = Some imageCanvas\<rparr>,
                            isProcessing := False\<rparr>,
                          \<lparr>init_success = True, init_message = InitSucceeded\<rparr>,
                          [ToImage shapeIds, BlobToCanvas blob, LoadImage blob])))))"

text \<open>The \<^verbatim>\<open>catch\<close> block of phase two.\<close>

definition recognitionFailed ::
  "OCRState \<Rightarrow> message \<Rightarrow> call list \<Rightarrow> OCRState \<times> OCRProcessingResult \<times> call list" where
  "recognitionFailed s errorMessage calls =
     (s\<lparr>isProcessing := False, error := Some errorMessage\<rparr>,
      \<lparr>success = False, result = None, error_message = Some errorMessage\<rparr>, calls)"

text \<open>
  \<^verbatim>\<open>processSelectedShapes\<close>.  The callback reads \<^verbatim>\<open>ocrState\<close> as it was when the
  component last rendered (\<open>ocrState\<close> below) and writes onto the latest state (\<open>s\<close>); for a
  call made on a freshly rendered component the two are the same.  A throw after the
  state has been set to completed reaches the same \<^verbatim>\<open>catch\<close> block: the state then
  keeps \<open>lastResult\<close> and the step \<open>Processing completed\<close> while the call returns
  \<open>success: false\<close>.
\<close>

definition processSelectedShapes ::
  "environment \<Rightarrow> OCRState \<Rightarrow> OCRState \<Rightarrow> OCRState \<times> OCRProcessingResult \<times> call list" where
  "processSelectedShapes env ocrState s =
     (if \<not> isInitialized ocrState \<or> initializationData ocrState = None
      then (case initializeOCR env s of
              (s', initResult, calls) \<Rightarrow>
                (s',
                 \<lparr>success = init_success initResult, result = None,
                  error_message =
                    (if init_success initResult then None else Some (init_message initResult))\<rparr>,
                 calls))
      else
        (let s = s\<lparr>isProcessing := True, progress := 0, currentStep := StartingRecognition,
                    error := None\<rparr>
         in case initializationData ocrState of
           None \<Rightarrow> recognitionFailed s InitDataIncomplete []
         | Some init \<Rightarrow>
            (case (init_imageCanvas init, init_selectionBounds init) of
               (Some originalCanvas, Some selectionBounds) \<Rightarrow>
                (let s = s\<lparr>progress := 20, currentStep := UsingInitializedImage\<rparr>;
                     s = s\<lparr>progress := 30, currentStep := Preprocessing\<rparr>
                 in case preprocessImage env originalCanvas of
                   Rejected m \<Rightarrow> recognitionFailed s m [PreprocessImage originalCanvas]
                 | Resolved preprocessedCanvas \<Rightarrow>
                    (let s = s\<lparr>progress := 50, currentStep := PerformingOCR\<rparr>
                     in case processImageOCR env originalCanvas preprocessedCanvas of
                       Rejected m \<Rightarrow>
                         recognitionFailed s m
                           [PreprocessImage originalCanvas,
                            ProcessImageOCR originalCanvas preprocessedCanvas]
                     | Resolved r \<Rightarrow>
                        (let ocrResult =
                               r\<lparr>imageWidth := Fin (of_nat (canvas_width originalCanvas)),
                                 imageHeight := Fin (of_nat (canvas_height originalCanvas))\<rparr>;
                             calls =
                               [PreprocessImage originalCanvas,
                                ProcessImageOCR originalCanvas preprocessedCanvas];
                             s = s\<lparr>progress := 80, currentStep := Validating\<rparr>
                         in case validateOCRResult env ocrResult of
                           Rejected m \<Rightarrow> recognitionFailed s m (calls @ [ValidateOCRResult])
                         | Resolved _ \<Rightarrow>
                            (let calls = calls @ [ValidateOCRResult, SaveOCRResult];
                                 s = s\<lparr>progress := 90, currentStep := Saving\<rparr>
                             in case saveOCRResult env ocrResult of
                               Rejected m \<Rightarrow> recognitionFailed s m calls
                             | Resolved _ \<Rightarrow>
                                (let calls = calls @ [AnalyzeHandwritingErrors];
                                     s = s\<lparr>progress := 92, currentStep := AnalyzingErrors\<rparr>
                                 in case analyzeHandwritingErrors env ocrResult of
                                   Rejected m \<Rightarrow> recognitionFailed s m calls
                                 | Resolved _ \<Rightarrow>
                                    (let calls = calls @ [AfterCompletion];
                                         s = s\<lparr>progress := 100,
                                               currentStep := ProcessingCompleted,
                                               lastResult := Some ocrResult,
                                               lastSelectionBounds := Some selectionBounds,
                                               isProcessing := False\<rparr>
                                     in case afterCompletion env ocrResult of
                                       Rejected m \<Rightarrow> recognitionFailed s m calls
                                     | Resolved _ \<Rightarrow>
                                         (s,
                                          \<lparr>success = True, result = Some ocrResult,
                                           error_message = None\<rparr>,
                                          calls)))))))
             | _ \<Rightarrow> recognitionFailed s InitDataIncomplete [])))"

text \<open>The state that \<^verbatim>\<open>useState\<close> starts with (and \<^verbatim>\<open>resetOCRState\<close> restores).\<close>

definition initialState :: OCRState where
  "initialState =
     \<lparr>isProcessing = False, progress = 0, currentStep = Idle, lastResult = None,
      lastSelectionBounds = None, isInitialized = False, initializationData = None,
      error = None\<rparr>"

text \<open>
  A session in which every collaborator answers: one selected shape, rasterized to blob 7
  and drawn on canvas 1; preprocessing gives canvas 2; recognition finds one character.
\<close>

definition exampleOCRResult :: OCRResult where
  "exampleOCRResult =
     \<lparr>imageId = ''ocr_1'', fullText = ''7'',
      charBoxes =
        [\<lparr>cb_id = ''c001'', cb_char = ''7'',
          cb_bbox = \<lparr>bb_x = Fin 90, bb_y = Fin 45, bb_w = Fin 30, bb_h = Fin 45\<rparr>,
          cb_center = \<lparr>pt_x = Fin 105, pt_y = Fin 68\<rparr>, cb_confidence = Fin 1\<rparr>],
      imageWidth = Fin 300, imageHeight = Fin 150,
      detectedInternalScaleFactor = Some (Fin 1)\<rparr>"

definition exampleEnvironment :: environment where
  "exampleEnvironment =
     \<lparr>getSelectedShapeIds = [''shape:1''],
      getSelectionPageBounds =
        Some \<lparr>bb_x = Fin 100, bb_y = Fin 200, bb_w = Fin 300, bb_h = Fin 150\<rparr>,
      toImage = (\<lambda>ids. Resolved (Some 7, 300, 150)),
      blobToCanvas =
        (\<lambda>blob. Resolved \<lparr>canvas_id = 1, canvas_width = 300, canvas_height = 150\<rparr>),
      imageLoad = (\<lambda>blob. Resolved ()),
      preprocessImage =
        (\<lambda>c. Resolved \<lparr>canvas_id = 2, canvas_width = 300, canvas_height = 150\<rparr>),
      processImageOCR = (\<lambda>original preprocessed. Resolved exampleOCRResult),
      validateOCRResult = (\<lambda>r. Resolved ()),
      saveOCRResult = (\<lambda>r. Resolved ()),
      analyzeHandwritingErrors = (\<lambda>r. Resolved ()),
      afterCompletion = (\<lambda>r. Resolved ())\<rparr>"

text \<open>The state after a successful phase one in that session.\<close>

definition initializedState :: OCRState where
  "initializedState =
     \<lparr>isProcessing = False, progress = 100, currentStep = InitializationCompleted,
      lastResult = None, lastSelectionBounds = None, isInitialized = True,
      initializationData =
        Some \<lparr>init_selectionBounds =
                Some \<lparr>bb_x = Fin 100, bb_y = Fin 200, bb_w = Fin 300, bb_h = Fin 150\<rparr>,
              init_shapeIds = [''shape:1''],
              init_imageCanvas =
                Some \<lparr>canvas_id = 1, canvas_width = 300, canvas_height = 150\<rparr>\<rparr>,
      error = None\<rparr>"

text \<open>
  The two callers under \<^verbatim>\<open>src/\<close>.  \<^verbatim>\<open>handleProcessSelected\<close> of the button
  (\<^verbatim>\<open>HandwritingButton.tsx\<close>) resets the state and then calls the callback of its
  render.
\<close>

definition handleProcessSelected ::
  "environment \<Rightarrow> OCRState \<Rightarrow> OCRState \<times> OCRProcessingResult \<times> call list" where
  "handleProcessSelected env ocrState = processSelectedShapes env ocrState initialState"

text \<open>
  The idle timer of \<^verbatim>\<open>AutoOCRProcessor\<close>: the callback was created in a render whose
  state was \<open>ocrState\<close>, \<open>initialized\<close> is the flag kept in \<^verbatim>\<open>processingStateRef\<close>, and
  \<open>s\<close> is the latest state.  On a session that its render saw uninitialized it awaits
  \<^verbatim>\<open>initializeOCR\<close>, waits two seconds, and then calls the
  \<^verbatim>\<open>processSelectedShapes\<close> of the same render.  The pair returned with the state is
  the result of the recognize call, when one was made, and the calls of both phases.
\<close>

definition autoOCRProcessorTimer ::
  "environment \<Rightarrow> OCRState \<Rightarrow> bool \<Rightarrow> OCRState \<Rightarrow>
     OCRState \<times> OCRProcessingResult option \<times> call list" where
  "autoOCRProcessorTimer env ocrState initialized s =
     (if getSelectedShapeIds env = [] then (s, None, [])
      else if \<not> isInitialized ocrState \<and> \<not> initialized then
        (case initializeOCR env s of
           (s1, initResult, calls1) \<Rightarrow>
             (case processSelectedShapes env ocrState s1 of
                (s2, r, calls2) \<Rightarrow> (s2, Some r, calls1 @ calls2)))
      else if isInitialized ocrState then
        (case processSelectedShapes env ocrState s of
           (s2, r, calls) \<Rightarrow> (s2, Some r, calls))
      else (s, None, []))"

section \<open>\<^verbatim>\<open>pixelBoxToPageBox\<close> on an arbitrary argument\<close>

text \<open>
  The parameter \<^verbatim>\<open>box\<close> has type \<^verbatim>\<open>any\<close>.  This section models the function on
  every argument whose properties hold plain data: \<^verbatim>\<open>undefined\<close> (also for a missing
  property), \<^verbatim>\<open>null\<close>, a boolean, a number, a string, a BigInt, a symbol, or an object
  or array with the inherited conversion methods, which is given by the string it
  converts to.  Objects with conversion methods or getters of their own run code that is
  not part of this function and are left out.
\<close>

datatype js_value =
    JSUndefined | JSNull | JSBoolean bool | JSNumber number | JSString string
  | JSBigInt int | JSSymbol string | JSObject string

text \<open>
  The conversions between numbers and strings are those of the language; the model takes
  them as given.
\<close>

record conversions =
  numberToString :: "number \<Rightarrow> string"
  stringToNumber :: "string \<Rightarrow> number"

fun isFinite_any :: "js_value \<Rightarrow> bool" where
  "isFinite_any (JSNumber (Fin a)) = True"
| "isFinite_any _ = False"

text \<open>
  \<^verbatim>\<open>x + v\<close> for a number \<open>x\<close>: a string or an object makes it a concatenation, a BigInt
  or a symbol a \<^verbatim>\<open>TypeError\<close>; \<^verbatim>\<open>undefined\<close> counts as NaN, \<^verbatim>\<open>null\<close> as \<open>0\<close>,
  \<^verbatim>\<open>true\<close> as \<open>1\<close>.
\<close>

fun add_any :: "conversions \<Rightarrow> number \<Rightarrow> js_value \<Rightarrow> js_error + js_value" where
  "add_any c x JSUndefined = Inr (JSNumber (fadd x NaN))"
| "add_any c x JSNull = Inr (JSNumber (fadd x (Fin 0)))"
| "add_any c x (JSBoolean b) = Inr (JSNumber (fadd x (Fin (if b then 1 else 0))))"
| "add_any c x (JSNumber y) = Inr (JSNumber (fadd x y))"
| "add_any c x (JSString t) = Inr (JSString (numberToString c x @ t))"
| "add_any c x (JSObject t) = Inr (JSString (numberToString c x @ t))"
| "add_any c x (JSBigInt n) = Inl TypeError"
| "add_any c x (JSSymbol d) = Inl TypeError"

text \<open>The conversion of the left operand of \<^verbatim>\<open>v * y\<close>, for a number \<open>y\<close>.\<close>

fun toNumber_any :: "conversions \<Rightarrow> js_value \<Rightarrow> js_error + number" where
  "toNumber_any c JSUndefined = Inr NaN"
| "toNumber_any c JSNull = Inr (Fin 0)"
| "toNumber_any c (JSBoolean b) = Inr (Fin (if b then 1 else 0))"
| "toNumber_any c (JSNumber y) = Inr y"
| "toNumber_any c (JSString t) = Inr (stringToNumber c t)"
| "toNumber_any c (JSObject t) = Inr (stringToNumber c t)"
| "toNumber_any c (JSBigInt n) = Inl TypeError"
| "toNumber_any c (JSSymbol d) = Inl TypeError"

record any_bbox =
  any_bbox_x :: js_value
  any_bbox_y :: js_value
  any_bbox_w :: js_value
  any_bbox_h :: js_value

text \<open>
  A box object.  Its \<^verbatim>\<open>bbox\<close> is \<open>None\<close> when the property is not an object: for
  \<^verbatim>\<open>undefined\<close> and \<^verbatim>\<open>null\<close> the optional chain gives \<^verbatim>\<open>undefined\<close>, and so
  does the property access on any other primitive.
\<close>

record any_box =
  any_id :: js_value
  any_x :: js_value
  any_y :: js_value
  any_w :: js_value
  any_h :: js_value
  any_bbox :: "any_bbox option"

record any_page_box =
  any_page_id :: js_value
  any_page_x :: number
  any_page_y :: number
  any_page_w :: number
  any_page_h :: number

text \<open>\<^verbatim>\<open>Number.isFinite(box.x) ? box.x : box.bbox?.x\<close> and its siblings.\<close>

definition finite_or_bbox ::
  "(any_box \<Rightarrow> js_value) \<Rightarrow> (any_bbox \<Rightarrow> js_value) \<Rightarrow> any_box \<Rightarrow> js_value" where
  "finite_or_bbox own fallback box =
     (if isFinite_any (own box) then own box
      else case any_bbox box of None \<Rightarrow> JSUndefined | Some b \<Rightarrow> fallback b)"

text \<open>\<^verbatim>\<open>box.id ?? 'unknown'\<close>.\<close>

fun id_or_unknown :: "js_value \<Rightarrow> js_value" where
  "id_or_unknown JSUndefined = JSString ''unknown''"
| "id_or_unknown JSNull = JSString ''unknown''"
| "id_or_unknown v = v"

text \<open>
  The function itself.  The argument is \<open>None\<close> when it is \<^verbatim>\<open>null\<close> or
  \<^verbatim>\<open>undefined\<close>, on which the first property access throws; a primitive argument
  behaves as an object without properties.
\<close>

definition pixelBoxToPageBox_any ::
  "conversions \<Rightarrow> any_box option \<Rightarrow> DomImageData \<Rightarrow> js_error + any_page_box" where
  "pixelBoxToPageBox_any c arg img =
     (case arg of
        None \<Rightarrow> Inl TypeError
      | Some box \<Rightarrow>
         (let bx = finite_or_bbox any_x any_bbox_x box;
              by = finite_or_bbox any_y any_bbox_y box;
              bw = finite_or_bbox any_w any_bbox_w box;
              bh = finite_or_bbox any_h any_bbox_h box
          in case (bx, by) of
               (JSNumber (Fin x), JSNumber (Fin y)) \<Rightarrow>
                 (let scaleX = fdiv (rect_width (rect img)) (naturalWidth img);
                      scaleY = fdiv (rect_height (rect img)) (naturalHeight img);
                      pageX1 = fadd (rect_x (rect img)) (fmul (Fin x) scaleX);
                      pageY1 = fadd (rect_y (rect img)) (fmul (Fin y) scaleY)
                  in case add_any c (Fin x) bw of
                       Inl e \<Rightarrow> Inl e
                     | Inr sumX \<Rightarrow>
                        (case toNumber_any c sumX of
                           Inl e \<Rightarrow> Inl e
                         | Inr farX \<Rightarrow>
                            (let pageX2 = fadd (rect_x (rect img)) (fmul farX scaleX)
                             in case add_any c (Fin y) bh of
                                  Inl e \<Rightarrow> Inl e
                                | Inr sumY \<Rightarrow>
                                   (case toNumber_any c sumY of
                                      Inl e \<Rightarrow> Inl e
                                    | Inr farY \<Rightarrow>
                                       (let pageY2 =
                                              fadd (rect_y (rect img)) (fmul farY scaleY)
                                        in Inr \<lparr>any_page_id = any_id box,
                                                any_page_x = pageX1, any_page_y = pageY1,
                                                any_page_w = fsub pageX2 pageX1,
                                                any_page_h = fsub pageY2 pageY1\<rparr>)))))
             | _ \<Rightarrow>
                 Inr \<lparr>any_page_id = id_or_unknown (any_id box), any_page_x = NaN,
                      any_page_y = NaN, any_page_w = NaN, any_page_h = NaN\<rparr>))"

text \<open>
  A typed box as an arbitrary argument, and a page box as the object returned; an id that
  is missing is \<^verbatim>\<open>undefined\<close>.
\<close>

definition number_as_any :: "number option \<Rightarrow> js_value" where
  "number_as_any v = (case v of None \<Rightarrow> JSUndefined | Some n \<Rightarrow> JSNumber n)"

definition string_as_any :: "string option \<Rightarrow> js_value" where
  "string_as_any v = (case v of None \<Rightarrow> JSUndefined | Some t \<Rightarrow> JSString t)"

definition box_as_any :: "pixel_box \<Rightarrow> any_box" where
  "box_as_any box =
     \<lparr>any_id = string_as_any (box_id box), any_x = number_as_any (box_x box),
      any_y = number_as_any (box_y box), any_w = number_as_any (box_w box),
      any_h = number_as_any (box_h box),
      any_bbox =
        (case box_bbox box of
           None \<Rightarrow> None
         | Some b \<Rightarrow>
             Some \<lparr>any_bbox_x = number_as_any (bbox_x b), any_bbox_y = number_as_any (bbox_y b),
                   any_bbox_w = number_as_any (bbox_w b),
                   any_bbox_h = number_as_any (bbox_h b)\<rparr>)\<rparr>"

definition page_as_any :: "PageBox \<Rightarrow> any_page_box" where
  "page_as_any p =
     \<lparr>any_page_id = string_as_any (page_id p), any_page_x = page_x p, any_page_y = page_y p,
      any_page_w = page_w p, any_page_h = page_h p\<rparr>"

text \<open>The values on which an addition to a number throws.\<close>

fun is_bigint_or_symbol :: "js_value \<Rightarrow> bool" where
  "is_bigint_or_symbol (JSBigInt n) = True"
| "is_bigint_or_symbol (JSSymbol d) = True"
| "is_bigint_or_symbol _ = False"

section \<open>Facts about rounding\<close>

lemma rnd_zero: "rnd 0 = Fin 0"
  by (simp add: rnd_def)

lemma fsub_Fin: "fsub (Fin a) (Fin b) = rnd (a - b)"
  by (simp add: fsub_def)

lemma rnd_third: "rnd (1 / 3) = Fin (6004799503160661 / 18014398509481984)"
  by code_simp

lemma rnd_small_integers:
  "rnd 10 = Fin 10" "rnd 15 = Fin 15" "rnd 120 = Fin 120" "rnd 90 = Fin 90"
  "rnd 130 = Fin 130" "rnd 140 = Fin 140" "rnd 215 = Fin 215" "rnd 230 = Fin 230"
  by code_simp+


lemma lg2_nonneg: "0 \<le> lg2 n"
  by (induction n rule: lg2.induct) (subst lg2.simps, simp)

lemma lg2_bounds: "1 \<le> n \<Longrightarrow> 2 ^ nat (lg2 n) \<le> n \<and> n < 2 * 2 ^ nat (lg2 n)"
proof (induction n rule: lg2.induct)
  case (1 n)
  show ?case
  proof (cases "n < 2")
    case True
    with "1.prems" have "n = 1" by simp
    then show ?thesis by (simp add: lg2.simps)
  next
    case False
    then have half: "1 \<le> n div 2" by simp
    let ?k = "nat (lg2 (n div 2))"
    have IH: "2 ^ ?k \<le> n div 2" "n div 2 < 2 * 2 ^ ?k"
      using "1.IH" [OF False half] by simp_all
    have eq: "nat (lg2 n) = Suc ?k"
      using False lg2_nonneg [of "n div 2"] by (subst lg2.simps) (simp add: nat_add_distrib)
    have "2 * 2 ^ ?k \<le> n" using IH(1) by linarith
    moreover have "n < 2 * (2 * 2 ^ ?k)" using IH(2) by linarith
    ultimately show ?thesis by (simp add: eq)
  qed
qed

lemma lg2_less: assumes "1 \<le> n" "n < 2 ^ k" shows "lg2 n < int k"
proof -
  have "(2::int) ^ nat (lg2 n) < 2 ^ k"
    using lg2_bounds [OF assms(1)] assms(2) by linarith
  then have "nat (lg2 n) < k"
    by simp
  then show ?thesis by linarith
qed

lemma round_half_even_of_int: "round_half_even (of_int m) = m"
  by (simp add: round_half_even_def)

lemma rnd_of_int:
  assumes "\<bar>n\<bar> < 2 ^ 53"
  shows "rnd (of_int n) = Fin (of_int n)"
proof (cases "n = 0")
  case True
  then show ?thesis by (simp add: rnd_def)
next
  case False
  then have pos: "1 \<le> \<bar>n\<bar>" by linarith
  let ?e = "lg2 \<bar>n\<bar>"
  have e0: "0 \<le> ?e" by (rule lg2_nonneg)
  have e52: "?e \<le> 52" using lg2_less [OF pos, of 53] assms by simp
  have binade: "binade \<bar>of_int n\<bar> = ?e"
  proof -
    have abs: "\<bar>of_int n :: rat\<bar> = of_int \<bar>n\<bar>" by simp
    have "(1::rat) \<le> of_int \<bar>n\<bar>" using pos by (simp only: of_int_1_le_iff)
    then show ?thesis unfolding abs binade_def by (simp only: if_True floor_of_int)
  qed
  let ?s = "(2::rat) ^ nat (52 - ?e)"
  have powi: "(2::rat) powi (?e - 52) = 1 / ?s"
    using e52 by (simp add: power_int_def inverse_eq_divide power_one_over)
  have scaled: "(of_int n :: rat) / (1 / ?s) = of_int (n * 2 ^ nat (52 - ?e))"
    by simp
  have unscaled: "of_int (n * 2 ^ nat (52 - ?e)) * (1 / ?s) = (of_int n :: rat)"
    by simp
  have max: "max ?e (- 1022) - 52 = ?e - 52" using e0 by simp
  show ?thesis
    unfolding rnd_def Let_def binade max powi scaled round_half_even_of_int unscaled
    using False e52 binade by simp
qed

lemma rnd_numeral:
  "numeral k < (9007199254740992::int) \<Longrightarrow> rnd (numeral k) = Fin (numeral k)"
  "numeral k < (9007199254740992::int) \<Longrightarrow> rnd (- numeral k) = Fin (- numeral k)"
  "rnd 1 = Fin 1" "rnd (- 1) = Fin (- 1)"
  using rnd_of_int [of "numeral k"] rnd_of_int [of "- numeral k"] rnd_of_int [of 1]
    rnd_of_int [of "- 1"]
  by simp_all


text \<open>
  The error of one rounding: at most half a unit in the last place, which is a relative
  error of \<open>2\<^sup>-\<^sup>5\<^sup>3\<close> in the normal range and at most \<open>2\<^sup>-\<^sup>1\<^sup>0\<^sup>7\<^sup>5\<close> below it.
\<close>

lemma round_half_even_error: "\<bar>of_int (round_half_even s) - s\<bar> \<le> 1 / 2"
proof -
  have "of_int \<lfloor>s\<rfloor> \<le> s" "s < of_int \<lfloor>s\<rfloor> + 1"
    by linarith+
  then show ?thesis
    by (auto simp: round_half_even_def Let_def)
qed

lemma binade_le:
  assumes "0 < q"
  shows "2 powi (binade q) \<le> q"
proof (cases "1 \<le> q")
  case True
  then have one: "1 \<le> \<lfloor>q\<rfloor>" by simp
  have "(2::int) ^ nat (lg2 \<lfloor>q\<rfloor>) \<le> \<lfloor>q\<rfloor>"
    using lg2_bounds [OF one] by simp
  then have "(of_int (2 ^ nat (lg2 \<lfloor>q\<rfloor>)) :: rat) \<le> of_int \<lfloor>q\<rfloor>"
    by (simp only: of_int_le_iff)
  also have "\<dots> \<le> q" by simp
  finally have "(2::rat) ^ nat (lg2 \<lfloor>q\<rfloor>) \<le> q" by simp
  moreover have "(2::rat) powi (lg2 \<lfloor>q\<rfloor>) = 2 ^ nat (lg2 \<lfloor>q\<rfloor>)"
    using lg2_nonneg [of "\<lfloor>q\<rfloor>"] by (simp add: power_int_def)
  ultimately show ?thesis
    using True by (simp add: binade_def)
next
  case False
  let ?m = "\<lceil>1 / q\<rceil> - 1"
  let ?k = "nat (lg2 ?m)"
  have "1 < 1 / q" using False assms by simp
  then have one: "1 \<le> ?m" by linarith
  have "?m < 2 * 2 ^ ?k"
    using lg2_bounds [OF one] by simp
  then have "\<lceil>1 / q\<rceil> \<le> 2 * 2 ^ ?k" by linarith
  then have "(of_int \<lceil>1 / q\<rceil> :: rat) \<le> of_int (2 * 2 ^ ?k)"
    by (simp only: of_int_le_iff)
  then have a: "(of_int \<lceil>1 / q\<rceil> :: rat) \<le> 2 * 2 ^ ?k"
    by simp
  have "1 / q \<le> of_int \<lceil>1 / q\<rceil>"
    by (rule le_of_int_ceiling)
  then have "1 / q \<le> 2 * 2 ^ ?k"
    using a by (rule order_trans)
  then have "1 \<le> q * (2 * 2 ^ ?k)"
    using assms by (simp add: field_simps)
  then have le: "1 / (2 * 2 ^ ?k) \<le> q"
    by (simp add: field_simps)
  have "(2::rat) powi (- (1 + lg2 ?m)) = 1 / (2 * 2 ^ ?k)"
    using lg2_nonneg [of ?m]
    by (simp add: power_int_def nat_add_distrib inverse_eq_divide divide_simps)
  then show ?thesis
    using False le by (simp add: binade_def)
qed

lemma rnd_Fin_value:
  assumes "rnd q = Fin r" "q \<noteq> 0"
  shows "r = of_int (round_half_even (q / 2 powi (max (binade \<bar>q\<bar>) (- 1022) - 52))) *
             2 powi (max (binade \<bar>q\<bar>) (- 1022) - 52)"
  using assms by (auto simp: rnd_def Let_def split: if_splits)

lemma rnd_error:
  assumes "rnd q = Fin r"
  shows "\<bar>r - q\<bar> \<le> \<bar>q\<bar> / 2 ^ 53 + 1 / 2 ^ 1075"
proof (cases "q = 0")
  case True
  then show ?thesis using assms by (simp add: rnd_def)
next
  case False
  define e where "e = max (binade \<bar>q\<bar>) (- 1022) - 52"
  define p where "p = (2::rat) powi e"
  have p0: "0 < p" by (simp add: p_def)
  have r: "r = of_int (round_half_even (q / p)) * p"
    using rnd_Fin_value [OF assms False] by (simp add: e_def p_def)
  have "r - q = (of_int (round_half_even (q / p)) - q / p) * p"
    using p0 by (simp add: r field_simps)
  then have "\<bar>r - q\<bar> = \<bar>of_int (round_half_even (q / p)) - q / p\<bar> * p"
    using p0 by (simp add: abs_mult)
  also have "\<dots> \<le> (1 / 2) * p"
    using round_half_even_error [of "q / p"] p0 by (intro mult_right_mono) simp_all
  finally have half: "\<bar>r - q\<bar> \<le> p / 2" by simp
  show ?thesis
  proof (cases "- 1022 \<le> binade \<bar>q\<bar>")
    case True
    then have "e = binade \<bar>q\<bar> + (- 52)" by (simp add: e_def)
    then have "p = 2 powi (binade \<bar>q\<bar> + (- 52))" by (simp add: p_def)
    also have "\<dots> = 2 powi (binade \<bar>q\<bar>) * 2 powi (- 52)"
      by (rule power_int_add) simp
    finally have "p = 2 powi (binade \<bar>q\<bar>) * 2 powi (- 52)" .
    moreover have "2 powi (binade \<bar>q\<bar>) \<le> \<bar>q\<bar>"
      using False by (intro binade_le) simp
    ultimately have "p \<le> \<bar>q\<bar> * 2 powi (- 52)"
      by (simp add: mult_right_mono)
    then have "p / 2 \<le> \<bar>q\<bar> / 2 ^ 53"
      by (simp add: power_int_minus field_simps)
    with half have "\<bar>r - q\<bar> \<le> \<bar>q\<bar> / 2 ^ 53"
      by (rule order_trans)
    then show ?thesis
      by (rule order_trans) simp
  next
    case False
    then have "e = - 1074" by (simp add: e_def)
    then have "p / 2 = 1 / 2 ^ 1075"
      by (simp add: p_def power_int_minus field_simps)
    with half have "\<bar>r - q\<bar> \<le> 1 / 2 ^ 1075"
      by simp
    then show ?thesis
      by (rule order_trans) simp
  qed
qed

text \<open>
  The round trip of the full-image box along one axis,
  \<open>(x + n * (w / n)) - x\<close>: four roundings, whose errors add up.
\<close>

lemma rnd_not_NaN: "rnd q \<noteq> NaN"
  by (simp add: rnd_def Let_def)

lemma round_trip_steps:
  assumes "fsub (fadd (Fin x) (fmul (Fin n) (Fin s))) (Fin x) = Fin w'"
  shows "\<exists>p t. rnd (n * s) = Fin p \<and> rnd (x + p) = Fin t \<and> rnd (t - x) = Fin w'"
proof (cases "rnd (n * s)")
  case (Fin p)
  show ?thesis
  proof (cases "rnd (x + p)")
    case (Fin t)
    with \<open>rnd (n * s) = Fin p\<close> assms show ?thesis
      by (simp add: fsub_def)
  qed (use \<open>rnd (n * s) = Fin p\<close> assms rnd_not_NaN [of "x + p"] in \<open>simp_all add: fsub_def\<close>)
qed (use assms rnd_not_NaN [of "n * s"] in \<open>simp_all add: fsub_def\<close>)

lemma error_chain:
  fixes A W N M P XP TX a1 a2 a3 a4 G :: rat
  assumes "0 \<le> A" "0 \<le> W" "0 < N"
    and "a1 \<le> W / 2 ^ 53 + N / 2 ^ 1075"
    and "a2 \<le> M / 2 ^ 53 + 1 / 2 ^ 1075"
    and "a3 \<le> XP / 2 ^ 53 + 1 / 2 ^ 1075"
    and "a4 \<le> TX / 2 ^ 53 + 1 / 2 ^ 1075"
    and "M \<le> W + a1" "P \<le> M + a2" "XP \<le> A + P" "TX \<le> P + a3"
    and "G \<le> a4 + a3 + a2 + a1"
  shows "G \<le> (A + W) / 2 ^ 50 + (N + 1) / 2 ^ 1072"
proof -
  define u :: rat where "u = 1 / 2 ^ 53"
  define d :: rat where "d = 1 / 2 ^ 1075"
  have u: "0 \<le> u" "u \<le> 1 / 8" by (simp_all add: u_def)
  have d: "0 \<le> d" by (simp add: d_def)
  have h1: "a1 \<le> u * W + d * N" using assms(4) by (simp add: u_def d_def)
  have h2: "a2 \<le> u * M + d" using assms(5) by (simp add: u_def d_def)
  have h3: "a3 \<le> u * XP + d" using assms(6) by (simp add: u_def d_def)
  have h4: "a4 \<le> u * TX + d" using assms(7) by (simp add: u_def d_def)
  have M: "M \<le> W + u * W + d * N" using assms(8) h1 by linarith
  have "u * M \<le> u * (W + u * W + d * N)" using M u(1) by (rule mult_left_mono)
  then have a2: "a2 \<le> u * (W + u * W + d * N) + d" using h2 by linarith
  have P: "P \<le> (W + u * W + d * N) + (u * (W + u * W + d * N) + d)"
    using assms(9) M a2 by linarith
  have XP: "XP \<le> A + ((W + u * W + d * N) + (u * (W + u * W + d * N) + d))"
    using assms(10) P by linarith
  have "u * XP \<le> u * (A + ((W + u * W + d * N) + (u * (W + u * W + d * N) + d)))"
    using XP u(1) by (rule mult_left_mono)
  then have a3: "a3 \<le> u * (A + ((W + u * W + d * N) + (u * (W + u * W + d * N) + d))) + d"
    using h3 by linarith
  have TX: "TX \<le> ((W + u * W + d * N) + (u * (W + u * W + d * N) + d)) +
      (u * (A + ((W + u * W + d * N) + (u * (W + u * W + d * N) + d))) + d)"
    using assms(11) P a3 by linarith
  have "u * TX \<le> u * (((W + u * W + d * N) + (u * (W + u * W + d * N) + d)) +
      (u * (A + ((W + u * W + d * N) + (u * (W + u * W + d * N) + d))) + d))"
    using TX u(1) by (rule mult_left_mono)
  then have a4: "a4 \<le> u * (((W + u * W + d * N) + (u * (W + u * W + d * N) + d)) +
      (u * (A + ((W + u * W + d * N) + (u * (W + u * W + d * N) + d))) + d)) + d"
    using h4 by linarith
  have G: "G \<le> (u * (((W + u * W + d * N) + (u * (W + u * W + d * N) + d)) +
      (u * (A + ((W + u * W + d * N) + (u * (W + u * W + d * N) + d))) + d)) + d) +
      (u * (A + ((W + u * W + d * N) + (u * (W + u * W + d * N) + d))) + d) +
      (u * (W + u * W + d * N) + d) + (u * W + d * N)"
    using assms(12) a4 a3 a2 h1 by linarith
  define cW where "cW = (2 * u + u * u) * ((1 + u) * (1 + u)) + u * (1 + u) + u"
  define cA where "cA = u + u * u"
  define cN where "cN = (2 * u + u * u) * (1 + u) + u + 1"
  define c0 where "c0 = (2 * u + u * u) + (3 + u)"
  have eq: "(u * (((W + u * W + d * N) + (u * (W + u * W + d * N) + d)) +
      (u * (A + ((W + u * W + d * N) + (u * (W + u * W + d * N) + d))) + d)) + d) +
      (u * (A + ((W + u * W + d * N) + (u * (W + u * W + d * N) + d))) + d) +
      (u * (W + u * W + d * N) + d) + (u * W + d * N) =
      cW * W + cA * A + cN * (d * N) + c0 * d"
    unfolding cW_def cA_def cN_def c0_def by (simp add: algebra_simps)
  have c: "cW \<le> 8 * u" "cA \<le> 8 * u" "cN \<le> 8" "c0 \<le> 8"
    unfolding cW_def cA_def cN_def c0_def u_def by simp_all
  have "cW * W \<le> 8 * u * W" using c(1) assms(2) by (rule mult_right_mono)
  moreover have "cA * A \<le> 8 * u * A" using c(2) assms(1) by (rule mult_right_mono)
  moreover have "cN * (d * N) \<le> 8 * (d * N)"
    using c(3) by (rule mult_right_mono) (use d assms(3) in simp)
  moreover have "c0 * d \<le> 8 * d" using c(4) d by (rule mult_right_mono)
  ultimately have "cW * W + cA * A + cN * (d * N) + c0 * d \<le>
      8 * u * (A + W) + 8 * d * (N + 1)"
    by (simp add: algebra_simps)
  then have "(u * (((W + u * W + d * N) + (u * (W + u * W + d * N) + d)) +
      (u * (A + ((W + u * W + d * N) + (u * (W + u * W + d * N) + d))) + d)) + d) +
      (u * (A + ((W + u * W + d * N) + (u * (W + u * W + d * N) + d))) + d) +
      (u * (W + u * W + d * N) + d) + (u * W + d * N) \<le> 8 * u * (A + W) + 8 * d * (N + 1)"
    unfolding eq .
  then have "G \<le> 8 * u * (A + W) + 8 * d * (N + 1)" using G by linarith
  then show ?thesis by (simp add: u_def d_def)
qed

lemma round_trip_error:
  assumes n: "0 < n"
    and s: "rnd (w / n) = Fin s"
    and p: "rnd (n * s) = Fin p"
    and t: "rnd (x + p) = Fin t"
    and w': "rnd (t - x) = Fin w'"
  shows "\<bar>w' - w\<bar> \<le> (\<bar>x\<bar> + \<bar>w\<bar>) / 2 ^ 50 + (n + 1) / 2 ^ 1072"
proof -
  have "n * s - w = n * (s - w / n)"
    using n by (simp add: field_simps)
  then have "\<bar>n * s - w\<bar> = n * \<bar>s - w / n\<bar>"
    using n by (simp add: abs_mult)
  also have "\<dots> \<le> n * (\<bar>w / n\<bar> / 2 ^ 53 + 1 / 2 ^ 1075)"
    using rnd_error [OF s] n by (intro mult_left_mono) simp_all
  also have "\<dots> = \<bar>w\<bar> / 2 ^ 53 + n / 2 ^ 1075"
    using n by (simp add: field_simps abs_divide)
  finally have e1: "\<bar>n * s - w\<bar> \<le> \<bar>w\<bar> / 2 ^ 53 + n / 2 ^ 1075" .
  have e2: "\<bar>p - n * s\<bar> \<le> \<bar>n * s\<bar> / 2 ^ 53 + 1 / 2 ^ 1075"
    by (rule rnd_error [OF p])
  have e3: "\<bar>t - (x + p)\<bar> \<le> \<bar>x + p\<bar> / 2 ^ 53 + 1 / 2 ^ 1075"
    by (rule rnd_error [OF t])
  have e4: "\<bar>w' - (t - x)\<bar> \<le> \<bar>t - x\<bar> / 2 ^ 53 + 1 / 2 ^ 1075"
    by (rule rnd_error [OF w'])
  have t1: "\<bar>n * s\<bar> \<le> \<bar>w\<bar> + \<bar>n * s - w\<bar>" by linarith
  have t2: "\<bar>p\<bar> \<le> \<bar>n * s\<bar> + \<bar>p - n * s\<bar>" by linarith
  have t3: "\<bar>x + p\<bar> \<le> \<bar>x\<bar> + \<bar>p\<bar>" by linarith
  have t4: "\<bar>t - x\<bar> \<le> \<bar>p\<bar> + \<bar>t - (x + p)\<bar>" by linarith
  have t5: "\<bar>w' - w\<bar> \<le> \<bar>w' - (t - x)\<bar> + \<bar>t - (x + p)\<bar> + \<bar>p - n * s\<bar> + \<bar>n * s - w\<bar>"
    by linarith
  show ?thesis
    by (rule error_chain [OF _ _ n e1 e2 e3 e4 t1 t2 t3 t4 t5]) simp_all
qed

lemma full_image_axis:
  assumes "is_double x" "is_double n" "0 < n" "fdiv (Fin w) (Fin n) = Fin s"
  shows "fadd (Fin x) (fmul (Fin 0) (fdiv (Fin w) (Fin n))) = Fin x"
    and "fadd (Fin x) (fmul (fadd (Fin 0) (Fin n)) (fdiv (Fin w) (Fin n))) =
         fadd (Fin x) (fmul (Fin n) (Fin s))"
    and "fmul (Fin n) (Fin s) = Fin w \<Longrightarrow> fsub (fadd (Fin x) (Fin w)) (Fin x) = Fin w \<Longrightarrow>
         fsub (fadd (Fin x) (fmul (Fin n) (Fin s))) (Fin x) = Fin w"
    and "fsub (fadd (Fin x) (fmul (Fin n) (Fin s))) (Fin x) = Fin w' \<Longrightarrow>
         \<bar>w' - w\<bar> \<le> (\<bar>x\<bar> + \<bar>w\<bar>) / 2 ^ 50 + (n + 1) / 2 ^ 1072"
proof -
  have near: "fadd (Fin x) (fmul (Fin 0) (Fin s)) = Fin x"
    using assms(1) by (simp add: rnd_zero is_double_def)
  have far: "fadd (Fin 0) (Fin n) = Fin n"
    using assms(2) by (simp add: is_double_def)
  show "fadd (Fin x) (fmul (Fin 0) (fdiv (Fin w) (Fin n))) = Fin x"
    unfolding assms(4) by (rule near)
  show "fadd (Fin x) (fmul (fadd (Fin 0) (Fin n)) (fdiv (Fin w) (Fin n))) =
         fadd (Fin x) (fmul (Fin n) (Fin s))"
    unfolding assms(4) far ..
  show "fmul (Fin n) (Fin s) = Fin w \<Longrightarrow> fsub (fadd (Fin x) (Fin w)) (Fin x) = Fin w \<Longrightarrow>
         fsub (fadd (Fin x) (fmul (Fin n) (Fin s))) (Fin x) = Fin w"
    by simp
  assume "fsub (fadd (Fin x) (fmul (Fin n) (Fin s))) (Fin x) = Fin w'"
  then obtain p t where steps: "rnd (n * s) = Fin p" "rnd (x + p) = Fin t" "rnd (t - x) = Fin w'"
    using round_trip_steps by blast
  have scale: "rnd (w / n) = Fin s"
    using assms(3,4) by simp
  show "\<bar>w' - w\<bar> \<le> (\<bar>x\<bar> + \<bar>w\<bar>) / 2 ^ 50 + (n + 1) / 2 ^ 1072"
    by (rule round_trip_error [OF assms(3) scale steps])
qed

section \<open>Facts about the scale correction\<close>

lemma lit_0_8_value: "lit_0_8 = Fin (3602879701896397 / 4503599627370496)"
  unfolding lit_0_8_def by code_simp

lemma fgt_one_truthy: "fgt f (Fin 1) \<Longrightarrow> truthy f"
  by (cases f) (auto simp: fgt_def)

lemma fle_not_fgt: "fle a b \<Longrightarrow> \<not> fgt a b"
  by (cases a; cases b) (auto simp: fle_def fgt_def feq_def)


section \<open>Facts about reconciliation\<close>

lemma charMap_snoc: "charMap (cs @ [c]) = (charMap cs)(cb_id c \<mapsto> c)"
  by (simp add: charMap_def)

lemma charMap_None: "charMap cs k = None \<longleftrightarrow> k \<notin> cb_id ` set cs"
  by (induction cs rule: rev_induct) (auto simp: charMap_snoc charMap_def)

lemma charMap_Some: "charMap cs k = Some c \<Longrightarrow> c \<in> set cs \<and> cb_id c = k"
  by (induction cs rule: rev_induct) (auto simp: charMap_snoc charMap_def split: if_splits)

lemma feq_eq: "feq a b \<Longrightarrow> a = b"
  by (simp add: feq_def)

lemma fixGPTError_id: "he_id (fst (fixGPTError m e)) = he_id e"
  by (auto simp: fixGPTError_def split: option.splits)

lemma fixGPTError_known_bbox:
  "m (he_id e) = Some c \<Longrightarrow> he_bbox (fst (fixGPTError m e)) = cb_bbox c"
  by (auto simp: fixGPTError_def coordsMatch_def dest!: feq_eq intro: BoundingBox.equality)

lemma pixelBox_error_char:
  "he_bbox e = cb_bbox c \<Longrightarrow> he_id e = cb_id c \<Longrightarrow>
   s \<or> (isFinite (Some (bb_w (cb_bbox c))) \<and> isFinite (Some (bb_h (cb_bbox c)))) \<Longrightarrow>
   pixelBoxToPageBox (errorAsPixelBox s e) img = pixelBoxToPageBox (charBoxAsPixelBox c) img"
  by (cases "bb_x (cb_bbox c)"; cases "bb_y (cb_bbox c)"; cases "bb_w (cb_bbox c)";
      cases "bb_h (cb_bbox c)")
     (auto simp add: pixelBoxToPageBox_def errorAsPixelBox_def charBoxAsPixelBox_def
       bbox_of_def opt_bbox_def Let_def)

lemma validateAndFix_nth:
  "i < length es \<Longrightarrow>
   fst (validateAndFixGPTCoordinates es cs) ! i = fst (fixGPTError (charMap cs) (es ! i))"
  by (simp add: validateAndFixGPTCoordinates_def Let_def)

lemma validateAndFix_length: "length (fst (validateAndFixGPTCoordinates es cs)) = length es"
  by (simp add: validateAndFixGPTCoordinates_def Let_def)

lemma convertedErrors_length:
  "length (convertedErrors rs imageData sel iw ih) = length rs"
  by (simp add: convertedErrors_def mapOcrBoxesToPage_def Let_def split: option.splits)

lemma convertedErrors_nth_None:
  "i < length rs \<Longrightarrow>
   convertedErrors rs None sel iw ih ! i =
     mappedError (rs ! i)
       (pixelBoxToPageBox (errorAsPixelBox False (rs ! i)) (captureGeometry None sel iw ih))"
  by (simp add: convertedErrors_def mapOcrBoxesToPage_def captureGeometry_def Let_def)

lemma convertedErrors_nth_Some:
  "i < length rs \<Longrightarrow>
   convertedErrors rs (Some img) sel iw ih ! i =
     (let mappedBox = pixelBoxToPageBox (errorAsPixelBox True (rs ! i)) img
      in if isNaN (page_x mappedBox) \<or> isNaN (page_y mappedBox) \<or>
            isNaN (page_w mappedBox) \<or> isNaN (page_h mappedBox)
         then rs ! i else mappedError (rs ! i) mappedBox)"
  by (simp add: convertedErrors_def mapOcrBoxesToPage_def Let_def)


lemma example_page_box:
  "pixelBoxToPageBox
     (charBoxAsPixelBox
        \<lparr>cb_id = ''c001'', cb_char = ''7'',
         cb_bbox = \<lparr>bb_x = Fin 90, bb_y = Fin 45, bb_w = Fin 30, bb_h = Fin 45\<rparr>,
         cb_center = \<lparr>pt_x = Fin 105, pt_y = Fin 68\<rparr>, cb_confidence = Fin 1\<rparr>)
     \<lparr>rect = \<lparr>rect_x = Fin 100, rect_y = Fin 200, rect_width = Fin 300, rect_height = Fin 150\<rparr>,
      naturalWidth = Fin 900, naturalHeight = Fin 450\<rparr> =
   \<lparr>page_id = Some ''c001'', page_x = Fin 130, page_y = Fin 215, page_w = Fin 10, page_h = Fin 15\<rparr>"
proof -
  have products:
    "rnd (90 * (6004799503160661 / 18014398509481984)) = Fin 30"
    "rnd (45 * (6004799503160661 / 18014398509481984)) = Fin 15"
    "rnd (120 * (6004799503160661 / 18014398509481984)) = Fin 40"
    by code_simp+
  show ?thesis
    using products
    by (simp add: pixelBoxToPageBox_def charBoxAsPixelBox_def bbox_of_def opt_bbox_def Let_def
        fsub_Fin rnd_third rnd_small_integers)
qed

lemma example_center: "rnd 135 = Fin 135" "rnd (445 / 2) = Fin (445 / 2)"
  "rnd 5 = Fin 5" "rnd (15 / 2) = Fin (15 / 2)"
  by code_simp+


section \<open>Facts about the placement loop\<close>

lemma collect_set:
  "collect f xs = Inr ys \<Longrightarrow> y \<in> set ys \<Longrightarrow> \<exists>x\<in>set xs. f x = Inr (Some y)"
proof (induction xs arbitrary: ys)
  case Nil
  then show ?case by simp
next
  case (Cons x xs)
  then show ?case
    by (auto split: sum.splits option.splits)
qed

lemma set_insort_score: "set (insort_score a bs) = insert a (set bs)"
  by (induction bs) auto

lemma set_sort_score: "set (sort_score cs) = set cs"
  by (induction cs) (simp_all add: sort_score_def set_insort_score)

lemma candidateAt_position:
  "candidateAt ec cardSize vb grid ((name, dx, dy), distance) = Inr (Some c) \<Longrightarrow>
   pc_x c = fadd (pt_x ec) (fmul dx distance) \<and> pc_y c = fadd (pt_y ec) (fmul dy distance)"
  by (auto simp: candidateAt_def Let_def split: if_splits sum.splits)

lemma generated_candidate:
  assumes "generatePositionCandidates ec cardSize vb grid = Inr cs" "c \<in> set cs"
  shows "\<exists>((name, dx, dy), distance)\<in>set (List.product directions DISTANCE_OPTIONS).
            pc_x c = fadd (pt_x ec) (fmul dx distance) \<and>
            pc_y c = fadd (pt_y ec) (fmul dy distance)"
proof -
  obtain raw where raw: "collect (candidateAt ec cardSize vb grid)
                           (List.product directions DISTANCE_OPTIONS) = Inr raw"
    and cs: "cs = sort_score raw"
    using assms(1) by (auto simp: generatePositionCandidates_def split: sum.splits)
  have "c \<in> set raw"
    using assms(2) cs by (simp add: set_sort_score)
  then obtain dd where dd: "dd \<in> set (List.product directions DISTANCE_OPTIONS)"
    and at: "candidateAt ec cardSize vb grid dd = Inr (Some c)"
    using collect_set [OF raw] by blast
  obtain name dx dy distance where "dd = ((name, dx, dy), distance)"
    by (cases dd) auto
  then show ?thesis
    using dd at candidateAt_position by blast
qed

lemma placeError_cases:
  assumes "placeError vb grid cardSize err index (ps, us) = Inr st'"
  obtains (candidate) p where "st' = (ps @ [p], us @ [buffered (sp_x p) (sp_y p) cardSize])"
      "\<forall>u\<in>set us. \<not> overlaps (sp_x p) (sp_y p) cardSize u" "isCandidatePlacement p"
  | (fallback) p where "st' = (ps @ [p], us)" "isFallbackPlacement cardSize p"
proof -
  let ?ec = "\<lparr>pt_x = fadd (bb_x (he_bbox err)) (fdiv (bb_w (he_bbox err)) (Fin 2)),
              pt_y = fadd (bb_y (he_bbox err)) (fdiv (bb_h (he_bbox err)) (Fin 2))\<rparr>"
  obtain cs where cs: "generatePositionCandidates ?ec cardSize vb grid = Inr cs"
    using assms by (auto simp: placeError_def Let_def split: sum.splits)
  let ?free = "filter (\<lambda>candidate.
                 \<not> list_ex (overlaps (pc_x candidate) (pc_y candidate) cardSize) us) cs"
  show thesis
  proof (cases ?free)
    case Nil
    let ?p = "placementAt (fadd (pt_x ?ec) (Fin 100))
                (fsub (pt_y ?ec) (fdiv (height cardSize) (Fin 2))) cardSize ?ec index"
    have "st' = (ps @ [?p], us)"
      using assms cs Nil by (simp add: placeError_def Let_def)
    moreover have "isFallbackPlacement cardSize ?p"
      by (simp add: isFallbackPlacement_def placementAt_def)
    ultimately show thesis by (rule fallback)
  next
    case (Cons best rest)
    let ?p = "placementAt (pc_x best) (pc_y best) cardSize ?ec index"
    have best: "best \<in> set ?free"
      using Cons by simp
    then have free: "\<forall>u\<in>set us. \<not> overlaps (pc_x best) (pc_y best) cardSize u"
      and mem: "best \<in> set cs"
      by (auto simp: list_ex_iff)
    have st': "st' = (ps @ [?p], us @ [buffered (sp_x ?p) (sp_y ?p) cardSize])"
      using assms cs Cons by (simp add: placeError_def Let_def placementAt_def)
    have "isCandidatePlacement ?p"
      using generated_candidate [OF cs mem]
      by (auto simp: isCandidatePlacement_def list_ex_iff placementAt_def)
    with st' free show thesis
      by (intro candidate [of ?p]) (simp_all add: placementAt_def)
  qed
qed

lemma placeError_inv:
  assumes "layout_inv cardSize st" "placeError vb grid cardSize err index st = Inr st'"
  shows "layout_inv cardSize st' \<and> length (fst st') = Suc (length (fst st))"
proof -
  obtain ps us where st: "st = (ps, us)"
    by (cases st)
  from assms(2) [unfolded st] show ?thesis
  proof (cases rule: placeError_cases)
    case (candidate p)
    then show ?thesis
      using assms(1) unfolding st layout_inv_def
      by (auto simp: nth_append less_Suc_eq)
  next
    case (fallback p)
    then show ?thesis
      using assms(1) unfolding st layout_inv_def
      by (auto simp: nth_append less_Suc_eq)
  qed
qed

lemma placeErrors_inv:
  "layout_inv cardSize st \<Longrightarrow> placeErrors vb grid cardSize errs index st = Inr st' \<Longrightarrow>
   layout_inv cardSize st' \<and> length (fst st') = length (fst st) + length errs"
proof (induction errs arbitrary: index st)
  case Nil
  then show ?case by simp
next
  case (Cons err errs)
  from Cons.prems(2) obtain st1 where
    one: "placeError vb grid cardSize err index st = Inr st1" and
    rest: "placeErrors vb grid cardSize errs (Suc index) st1 = Inr st'"
    by (auto split: sum.splits)
  have "layout_inv cardSize st1" "length (fst st1) = Suc (length (fst st))"
    using placeError_inv [OF Cons.prems(1) one] by simp_all
  then show ?case
    using Cons.IH [OF _ rest] by simp
qed

lemma layout_result:
  assumes "optimizeMultipleErrorLayout errs vb grid cardSize = Inr ps"
  shows "\<exists>us. layout_inv cardSize (ps, us)" "length ps = length errs"
proof -
  obtain us where run: "placeErrors vb grid cardSize errs 0 ([], []) = Inr (ps, us)"
    using assms by (auto simp: optimizeMultipleErrorLayout_def split: sum.splits)
  have "layout_inv cardSize ([], [])"
    by (simp add: layout_inv_def)
  from placeErrors_inv [OF this run]
  show "\<exists>us. layout_inv cardSize (ps, us)" "length ps = length errs"
    by auto
qed


lemma js_max_lower: "js_max (Fin 0) s = Fin a \<Longrightarrow> 0 \<le> a"
  by (cases s) (auto simp: js_max_def split: if_splits)

lemma js_min_upper: "js_min (Fin m) e = Fin b \<Longrightarrow> b \<le> m"
  by (cases e) (auto simp: js_min_def split: if_splits)

lemma loop_range_bounds:
  assumes "r \<in> set (loop_range s e n)"
  shows "0 \<le> r \<and> r < int n"
proof (cases "js_max (Fin 0) s")
  case a: (Fin a)
  show ?thesis
  proof (cases "js_min (Fin (of_nat n - 1)) e")
    case b: (Fin b)
    have r: "\<lfloor>a\<rfloor> \<le> r" "r \<le> \<lfloor>b\<rfloor>"
      using assms by (simp_all add: loop_range_def a b)
    have "0 \<le> a" using a by (rule js_max_lower)
    then have "0 \<le> \<lfloor>a\<rfloor>" by simp
    moreover have "b \<le> of_int (int n - 1)" using js_min_upper [OF b] by simp
    then have "\<lfloor>b\<rfloor> \<le> int n - 1"
      using floor_mono floor_of_int by metis
    ultimately show ?thesis using r by linarith
  qed (use assms a in \<open>simp_all add: loop_range_def\<close>)
qed (use assms in \<open>simp_all add: loop_range_def\<close>)

lemma add_cells_total:
  "\<forall>(row, col)\<in>set cells. nat row < length d \<Longrightarrow> add_cells d cells acc \<noteq> Inl e"
proof (induction cells arbitrary: acc)
  case Nil
  then show ?case by simp
next
  case (Cons c cells)
  then show ?case by (cases c; cases acc) auto
qed

lemma calculateDensityPenalty_total:
  assumes "grid_height grid \<le> length (density grid)"
  shows "calculateDensityPenalty position cardSize viewportBounds grid \<noteq> Inl e"
proof -
  have "add_cells (density grid)
          (List.product (loop_range s en (grid_height grid)) cols) (Fin 0, 0) \<noteq> Inl e"
    for s en cols
    using assms by (intro add_cells_total) (auto dest!: loop_range_bounds)
  then show ?thesis
    unfolding calculateDensityPenalty_def Let_def
    by (auto split: sum.splits)
qed

lemma calculatePositionScore_total:
  assumes "grid_height grid \<le> length (density grid)"
  shows "calculatePositionScore p cardSize ec vb grid \<noteq> Inl e"
  using calculateDensityPenalty_total [OF assms, of p cardSize vb]
  by (auto simp: calculatePositionScore_def split: sum.splits)

lemma candidateAt_total:
  assumes "grid_height grid \<le> length (density grid)"
  shows "candidateAt ec cardSize vb grid dd \<noteq> Inl e"
  using calculatePositionScore_total [OF assms]
  unfolding candidateAt_def Let_def
  by (cases dd) (auto split: sum.splits prod.splits)

lemma collect_total: "(\<And>x e. f x \<noteq> Inl e) \<Longrightarrow> collect f xs \<noteq> Inl e"
  by (induction xs) (auto split: sum.splits option.splits)

lemma generatePositionCandidates_total:
  assumes "grid_height grid \<le> length (density grid)"
  shows "generatePositionCandidates ec cardSize vb grid \<noteq> Inl e"
  using collect_total [of "candidateAt ec cardSize vb grid", OF candidateAt_total [OF assms]]
  by (auto simp: generatePositionCandidates_def split: sum.splits)

lemma placeError_total:
  assumes "grid_height grid \<le> length (density grid)"
  shows "placeError vb grid cardSize err index st \<noteq> Inl e"
  using generatePositionCandidates_total [OF assms]
  unfolding placeError_def Let_def
  by (cases st) (auto split: sum.splits list.splits)

lemma placeErrors_total:
  assumes "grid_height grid \<le> length (density grid)"
  shows "placeErrors vb grid cardSize errs index st \<noteq> Inl e"
  using placeError_total [OF assms]
  by (induction errs arbitrary: index st) (auto split: sum.splits)

lemma optimizeMultipleErrorLayout_total:
  assumes "grid_height grid \<le> length (density grid)"
  shows "\<exists>ps. optimizeMultipleErrorLayout errs vb grid cardSize = Inr ps"
  using placeErrors_total [OF assms, of vb cardSize errs 0 "([], [])"]
  by (auto simp: optimizeMultipleErrorLayout_def split: sum.splits prod.splits)


lemma add_cells_zero:
  "\<forall>(row, col)\<in>set cells. nat row < length d \<and> nat col < length (d ! nat row) \<and>
       d ! nat row ! nat col = Fin 0 \<Longrightarrow>
   add_cells d cells (Fin 0, k) = Inr (Fin 0, k + length cells)"
proof (induction cells arbitrary: k)
  case Nil
  then show ?case by simp
next
  case (Cons c cells)
  then show ?case by (cases c) (auto simp: rnd_zero)
qed

lemma zero_grid_penalty:
  assumes "grid_height grid = h" "grid_width grid = w"
    and "density grid = replicate h (replicate w (Fin 0))"
  shows "calculateDensityPenalty position cardSize viewportBounds grid = Inr (Fin 0)"
proof -
  have cells: "add_cells (density grid)
      (List.product (loop_range s1 e1 (grid_height grid)) (loop_range s2 e2 (grid_width grid)))
      (Fin 0, 0) =
      Inr (Fin 0, length (List.product (loop_range s1 e1 (grid_height grid))
                            (loop_range s2 e2 (grid_width grid))))"
    for s1 e1 s2 e2
  proof -
    have "\<forall>(row, col)\<in>set (List.product (loop_range s1 e1 h) (loop_range s2 e2 w)).
            nat row < length (replicate h (replicate w (Fin 0))) \<and>
            nat col < length (replicate h (replicate w (Fin 0)) ! nat row) \<and>
            replicate h (replicate w (Fin 0)) ! nat row ! nat col = Fin 0"
    proof (clarify, intro conjI)
      fix row col
      assume "(row, col) \<in> set (List.product (loop_range s1 e1 h) (loop_range s2 e2 w))"
      then have "row \<in> set (loop_range s1 e1 h)" "col \<in> set (loop_range s2 e2 w)"
        by auto
      then have r: "nat row < h" and c: "nat col < w"
        using loop_range_bounds by (metis nat_less_iff)+
      show "nat row < length (replicate h (replicate w (Fin 0)))"
        using r by simp
      show "nat col < length (replicate h (replicate w (Fin 0)) ! nat row)"
        using r c by simp
      show "replicate h (replicate w (Fin 0)) ! nat row ! nat col = Fin 0"
        using r c by simp
    qed
    from add_cells_zero [OF this, of 0] show ?thesis
      using assms by simp
  qed
  have zero: "fmul (fdiv (Fin 0) (Fin (of_nat n))) (Fin 25) = Fin 0" if "0 < n" for n :: nat
    using that by (simp add: rnd_zero)
  show ?thesis
    unfolding calculateDensityPenalty_def Let_def cells
    by (simp add: zero del: fdiv.simps fmul.simps length_product)
qed


lemma example_collect_1:
  "\<exists>s. collect (candidateAt \<lparr>pt_x = Fin (- 80), pt_y = Fin 80\<rparr> \<lparr>width = Fin 180, height = Fin 120\<rparr>
      \<lparr>bb_x = Fin 0, bb_y = Fin 0, bb_w = Fin 380, bb_h = Fin 120\<rparr>
      \<lparr>grid_width = 32, grid_height = 32, cellSize = Fin (15 / 4),
       density = replicate 32 (replicate 32 (Fin 0)),
       occupied = replicate 32 (replicate 32 False)\<rparr>)
      (List.product directions DISTANCE_OPTIONS) =
    Inr [\<lparr>pc_x = Fin 0, pc_y = Fin 0, pc_score = s, pc_direction = ''NE'',
          pc_avoided_shapes = Fin 0, pc_distance_to_error = Fin 80\<rparr>]"
  by (simp add: directions_def DISTANCE_OPTIONS_def candidateAt_def calculatePositionScore_def
      zero_grid_penalty [of _ 32 32] fge_def fle_def feq_def rnd_numeral rnd_zero Let_def)

lemma example_collect_2:
  "\<exists>s. collect (candidateAt \<lparr>pt_x = Fin 280, pt_y = Fin 80\<rparr> \<lparr>width = Fin 180, height = Fin 120\<rparr>
      \<lparr>bb_x = Fin 0, bb_y = Fin 0, bb_w = Fin 380, bb_h = Fin 120\<rparr>
      \<lparr>grid_width = 32, grid_height = 32, cellSize = Fin (15 / 4),
       density = replicate 32 (replicate 32 (Fin 0)),
       occupied = replicate 32 (replicate 32 False)\<rparr>)
      (List.product directions DISTANCE_OPTIONS) =
    Inr [\<lparr>pc_x = Fin 200, pc_y = Fin 0, pc_score = s, pc_direction = ''NW'',
          pc_avoided_shapes = Fin 0, pc_distance_to_error = Fin 80\<rparr>]"
  by (simp add: directions_def DISTANCE_OPTIONS_def candidateAt_def calculatePositionScore_def
      zero_grid_penalty [of _ 32 32] fge_def fle_def feq_def rnd_numeral rnd_zero Let_def)

lemma example_candidates_1:
  "\<exists>s. generatePositionCandidates \<lparr>pt_x = Fin (- 80), pt_y = Fin 80\<rparr> \<lparr>width = Fin 180, height = Fin 120\<rparr>
      \<lparr>bb_x = Fin 0, bb_y = Fin 0, bb_w = Fin 380, bb_h = Fin 120\<rparr>
      \<lparr>grid_width = 32, grid_height = 32, cellSize = Fin (15 / 4),
       density = replicate 32 (replicate 32 (Fin 0)),
       occupied = replicate 32 (replicate 32 False)\<rparr> =
    Inr [\<lparr>pc_x = Fin 0, pc_y = Fin 0, pc_score = s, pc_direction = ''NE'',
          pc_avoided_shapes = Fin 0, pc_distance_to_error = Fin 80\<rparr>]"
  using example_collect_1 by (auto simp: generatePositionCandidates_def sort_score_def)

lemma example_candidates_2:
  "\<exists>s. generatePositionCandidates \<lparr>pt_x = Fin 280, pt_y = Fin 80\<rparr> \<lparr>width = Fin 180, height = Fin 120\<rparr>
      \<lparr>bb_x = Fin 0, bb_y = Fin 0, bb_w = Fin 380, bb_h = Fin 120\<rparr>
      \<lparr>grid_width = 32, grid_height = 32, cellSize = Fin (15 / 4),
       density = replicate 32 (replicate 32 (Fin 0)),
       occupied = replicate 32 (replicate 32 False)\<rparr> =
    Inr [\<lparr>pc_x = Fin 200, pc_y = Fin 0, pc_score = s, pc_direction = ''NW'',
          pc_avoided_shapes = Fin 0, pc_distance_to_error = Fin 80\<rparr>]"
  using example_collect_2 by (auto simp: generatePositionCandidates_def sort_score_def)

lemma example_layout:
  "optimizeMultipleErrorLayout
     [\<lparr>he_id = ''c001'',
       he_bbox = \<lparr>bb_x = Fin (- 90), bb_y = Fin 70, bb_w = Fin 20, bb_h = Fin 20\<rparr>,
       he_center = \<lparr>pt_x = Fin (- 80), pt_y = Fin 80\<rparr>, he_errorType = Math,
       he_suggestion = ''1'', he_explanation = ''sum'', he_action = Circle\<rparr>,
      \<lparr>he_id = ''c002'',
       he_bbox = \<lparr>bb_x = Fin 270, bb_y = Fin 70, bb_w = Fin 20, bb_h = Fin 20\<rparr>,
       he_center = \<lparr>pt_x = Fin 280, pt_y = Fin 80\<rparr>, he_errorType = Math,
       he_suggestion = ''1'', he_explanation = ''sum'', he_action = Circle\<rparr>]
     \<lparr>bb_x = Fin 0, bb_y = Fin 0, bb_w = Fin 380, bb_h = Fin 120\<rparr>
     \<lparr>grid_width = 32, grid_height = 32, cellSize = Fin (15 / 4),
      density = replicate 32 (replicate 32 (Fin 0)),
      occupied = replicate 32 (replicate 32 False)\<rparr>
     \<lparr>width = Fin 180, height = Fin 120\<rparr> =
   Inr [\<lparr>sp_x = Fin 0, sp_y = Fin 0, sp_width = Fin 180, sp_height = Fin 120,
         leadLineStart = \<lparr>pt_x = Fin (- 80), pt_y = Fin 80\<rparr>,
         leadLineEnd = \<lparr>pt_x = Fin 90, pt_y = Fin 60\<rparr>, animationDelay = Fin 0\<rparr>,
        \<lparr>sp_x = Fin 200, sp_y = Fin 0, sp_width = Fin 180, sp_height = Fin 120,
         leadLineStart = \<lparr>pt_x = Fin 280, pt_y = Fin 80\<rparr>,
         leadLineEnd = \<lparr>pt_x = Fin 290, pt_y = Fin 60\<rparr>, animationDelay = Fin 800\<rparr>]"
proof -
  obtain s1 s2 where
    c1: "generatePositionCandidates \<lparr>pt_x = Fin (- 80), pt_y = Fin 80\<rparr> \<lparr>width = Fin 180, height = Fin 120\<rparr>
      \<lparr>bb_x = Fin 0, bb_y = Fin 0, bb_w = Fin 380, bb_h = Fin 120\<rparr>
      \<lparr>grid_width = 32, grid_height = 32, cellSize = Fin (15 / 4),
       density = replicate 32 (replicate 32 (Fin 0)),
       occupied = replicate 32 (replicate 32 False)\<rparr> =
    Inr [\<lparr>pc_x = Fin 0, pc_y = Fin 0, pc_score = s1, pc_direction = ''NE'',
          pc_avoided_shapes = Fin 0, pc_distance_to_error = Fin 80\<rparr>]" and
    c2: "generatePositionCandidates \<lparr>pt_x = Fin 280, pt_y = Fin 80\<rparr> \<lparr>width = Fin 180, height = Fin 120\<rparr>
      \<lparr>bb_x = Fin 0, bb_y = Fin 0, bb_w = Fin 380, bb_h = Fin 120\<rparr>
      \<lparr>grid_width = 32, grid_height = 32, cellSize = Fin (15 / 4),
       density = replicate 32 (replicate 32 (Fin 0)),
       occupied = replicate 32 (replicate 32 False)\<rparr> =
    Inr [\<lparr>pc_x = Fin 200, pc_y = Fin 0, pc_score = s2, pc_direction = ''NW'',
          pc_avoided_shapes = Fin 0, pc_distance_to_error = Fin 80\<rparr>]"
    using example_candidates_1 example_candidates_2 by blast
  have half: "rnd (20 / 2) = Fin 10" "rnd (180 / 2) = Fin 90" "rnd (120 / 2) = Fin 60"
    using rnd_numeral(1) [of "num.Bit0 (num.Bit1 (num.Bit0 num.One))"] by (simp_all add: rnd_numeral)
  show ?thesis
    by (simp add: optimizeMultipleErrorLayout_def placeError_def c1 c2 half overlaps_def
        buffered_def placementAt_def fge_def fle_def feq_def fsub_def rnd_numeral rnd_zero Let_def)
qed

section \<open>Facts about the two phases\<close>

lemma initializeOCR_calls:
  "set (snd (snd (initializeOCR env s))) \<subseteq>
     {ToImage (getSelectedShapeIds env)} \<union> range BlobToCanvas \<union> range LoadImage"
  by (auto simp: initializeOCR_def initFailed_def Let_def
      split: option.splits outcome.splits prod.splits)

lemma initializeOCR_success:
  assumes "getSelectedShapeIds env \<noteq> []"
    and "getSelectionPageBounds env = Some selectionBounds"
    and "toImage env (getSelectedShapeIds env) = Resolved (Some blob, w, h)"
    and "blobToCanvas env blob = Resolved imageCanvas"
    and "imageLoad env blob = Resolved ()"
  shows "initializeOCR env s =
     (s\<lparr>isProcessing := False, progress := 100, currentStep := InitializationCompleted,
        error := None, isInitialized := True,
        initializationData :=
          Some \<lparr>init_selectionBounds = Some selectionBounds,
                init_shapeIds = getSelectedShapeIds env,
                init_imageCanvas = Some imageCanvas\<rparr>\<rparr>,
      \<lparr>init_success = True, init_message = InitSucceeded\<rparr>,
      [ToImage (getSelectedShapeIds env), BlobToCanvas blob, LoadImage blob])"
  using assms by (simp add: initializeOCR_def Let_def)

text \<open>
  The dispatch, for a callback whose render saw \<open>ocrState\<close> and a latest state \<open>s\<close>.
\<close>

lemma phase_one_run:
  assumes "\<not> isInitialized ocrState \<or> initializationData ocrState = None"
  shows "processSelectedShapes env ocrState s =
      (case initializeOCR env s of
         (s', initResult, calls) \<Rightarrow>
           (s', \<lparr>success = init_success initResult, result = None,
                 error_message = (if init_success initResult then None
                                  else Some (init_message initResult))\<rparr>, calls))"
  using assms by (auto simp: processSelectedShapes_def)

lemma phase_one_result:
  assumes "\<not> isInitialized ocrState \<or> initializationData ocrState = None"
  shows "result (fst (snd (processSelectedShapes env ocrState s))) = None"
    and "ProcessImageOCR a b \<notin> set (snd (snd (processSelectedShapes env ocrState s)))"
    and "fst (processSelectedShapes env ocrState s) = fst (initializeOCR env s)"
    and "snd (snd (processSelectedShapes env ocrState s)) = snd (snd (initializeOCR env s))"
  using initializeOCR_calls [of env s]
  unfolding phase_one_run [OF assms] by (auto split: prod.splits)

lemma phase_two_calls:
  assumes "isInitialized ocrState" "initializationData ocrState \<noteq> None"
  shows "set (snd (snd (processSelectedShapes env ocrState s))) \<subseteq>
           range PreprocessImage \<union> range (\<lambda>(a, b). ProcessImageOCR a b) \<union>
           {ValidateOCRResult, SaveOCRResult, AnalyzeHandwritingErrors, AfterCompletion}"
  using assms
  by (auto simp: processSelectedShapes_def recognitionFailed_def Let_def
      split: option.splits outcome.splits prod.splits)

lemma example_phase_one:
  "processSelectedShapes exampleEnvironment initialState initialState =
     (initializedState,
      \<lparr>success = True, result = None, error_message = None\<rparr>,
      [ToImage [''shape:1''], BlobToCanvas 7, LoadImage 7])"
  by (simp add: processSelectedShapes_def initializeOCR_def exampleEnvironment_def
      initialState_def initializedState_def Let_def)

text \<open>
  The protocol of the two phases.  A callback that saw an uninitialized state only
  initializes; a callback that saw an initialized state recognizes the raster that this
  state holds and never rasterizes.
\<close>

lemma two_phase_dispatch:
  "(\<not> isInitialized ocrState \<or> initializationData ocrState = None \<longrightarrow>
      result (fst (snd (processSelectedShapes env ocrState s))) = None \<and>
      (\<forall>a b. ProcessImageOCR a b \<notin> set (snd (snd (processSelectedShapes env ocrState s)))) \<and>
      (getSelectedShapeIds env \<noteq> [] \<and>
       getSelectionPageBounds env = Some selectionBounds \<and>
       toImage env (getSelectedShapeIds env) = Resolved (Some blob, w, h) \<and>
       blobToCanvas env blob = Resolved imageCanvas \<and>
       imageLoad env blob = Resolved () \<longrightarrow>
         isInitialized (fst (processSelectedShapes env ocrState s)) \<and>
         initializationData (fst (processSelectedShapes env ocrState s)) =
           Some \<lparr>init_selectionBounds = Some selectionBounds,
                 init_shapeIds = getSelectedShapeIds env,
                 init_imageCanvas = Some imageCanvas\<rparr> \<and>
         \<not> isProcessing (fst (processSelectedShapes env ocrState s)) \<and>
         success (fst (snd (processSelectedShapes env ocrState s))))) \<and>
   (isInitialized ocrState \<and>
    initializationData ocrState =
      Some \<lparr>init_selectionBounds = Some bounds, init_shapeIds = ids,
            init_imageCanvas = Some originalCanvas\<rparr> \<longrightarrow>
      (\<forall>ids'. ToImage ids' \<notin> set (snd (snd (processSelectedShapes env ocrState s)))) \<and>
      (preprocessImage env originalCanvas = Resolved preprocessedCanvas \<and>
       processImageOCR env originalCanvas preprocessedCanvas = Resolved r \<and>
       validateOCRResult env
         (r\<lparr>imageWidth := Fin (of_nat (canvas_width originalCanvas)),
            imageHeight := Fin (of_nat (canvas_height originalCanvas))\<rparr>) = Resolved () \<and>
       saveOCRResult env
         (r\<lparr>imageWidth := Fin (of_nat (canvas_width originalCanvas)),
            imageHeight := Fin (of_nat (canvas_height originalCanvas))\<rparr>) = Resolved () \<and>
       analyzeHandwritingErrors env
         (r\<lparr>imageWidth := Fin (of_nat (canvas_width originalCanvas)),
            imageHeight := Fin (of_nat (canvas_height originalCanvas))\<rparr>) = Resolved () \<and>
       afterCompletion env
         (r\<lparr>imageWidth := Fin (of_nat (canvas_width originalCanvas)),
            imageHeight := Fin (of_nat (canvas_height originalCanvas))\<rparr>) = Resolved () \<longrightarrow>
         processSelectedShapes env ocrState s =
           (s\<lparr>isProcessing := False, progress := 100, currentStep := ProcessingCompleted,
              error := None,
              lastResult :=
                Some (r\<lparr>imageWidth := Fin (of_nat (canvas_width originalCanvas)),
                         imageHeight := Fin (of_nat (canvas_height originalCanvas))\<rparr>),
              lastSelectionBounds := Some bounds\<rparr>,
            \<lparr>success = True,
             result = Some (r\<lparr>imageWidth := Fin (of_nat (canvas_width originalCanvas)),
                              imageHeight := Fin (of_nat (canvas_height originalCanvas))\<rparr>),
             error_message = None\<rparr>,
            [PreprocessImage originalCanvas, ProcessImageOCR originalCanvas preprocessedCanvas,
             ValidateOCRResult, SaveOCRResult, AnalyzeHandwritingErrors,
       AfterCompletion])))"
proof (intro conjI impI)
  assume phase: "\<not> isInitialized ocrState \<or> initializationData ocrState = None"
  show "result (fst (snd (processSelectedShapes env ocrState s))) = None"
    by (rule phase_one_result [OF phase])
  show "\<forall>a b. ProcessImageOCR a b \<notin> set (snd (snd (processSelectedShapes env ocrState s)))"
    using phase_one_result(2) [OF phase] by blast
  assume ok: "getSelectedShapeIds env \<noteq> [] \<and>
       getSelectionPageBounds env = Some selectionBounds \<and>
       toImage env (getSelectedShapeIds env) = Resolved (Some blob, w, h) \<and>
       blobToCanvas env blob = Resolved imageCanvas \<and>
       imageLoad env blob = Resolved ()"
  then have init: "initializeOCR env s =
     (s\<lparr>isProcessing := False, progress := 100, currentStep := InitializationCompleted,
        error := None, isInitialized := True,
        initializationData :=
          Some \<lparr>init_selectionBounds = Some selectionBounds,
                init_shapeIds = getSelectedShapeIds env,
                init_imageCanvas = Some imageCanvas\<rparr>\<rparr>,
      \<lparr>init_success = True, init_message = InitSucceeded\<rparr>,
      [ToImage (getSelectedShapeIds env), BlobToCanvas blob, LoadImage blob])"
    by (intro initializeOCR_success) auto
  show "isInitialized (fst (processSelectedShapes env ocrState s))"
    "initializationData (fst (processSelectedShapes env ocrState s)) =
           Some \<lparr>init_selectionBounds = Some selectionBounds,
                 init_shapeIds = getSelectedShapeIds env,
                 init_imageCanvas = Some imageCanvas\<rparr>"
    "\<not> isProcessing (fst (processSelectedShapes env ocrState s))"
    "success (fst (snd (processSelectedShapes env ocrState s)))"
    unfolding phase_one_run [OF phase] init by simp_all
next
  assume phase: "isInitialized ocrState \<and>
    initializationData ocrState =
      Some \<lparr>init_selectionBounds = Some bounds, init_shapeIds = ids,
            init_imageCanvas = Some originalCanvas\<rparr>"
  show "\<forall>ids'. ToImage ids' \<notin> set (snd (snd (processSelectedShapes env ocrState s)))"
    using phase phase_two_calls [of ocrState env s] by auto
  assume ok: "preprocessImage env originalCanvas = Resolved preprocessedCanvas \<and>
       processImageOCR env originalCanvas preprocessedCanvas = Resolved r \<and>
       validateOCRResult env
         (r\<lparr>imageWidth := Fin (of_nat (canvas_width originalCanvas)),
            imageHeight := Fin (of_nat (canvas_height originalCanvas))\<rparr>) = Resolved () \<and>
       saveOCRResult env
         (r\<lparr>imageWidth := Fin (of_nat (canvas_width originalCanvas)),
            imageHeight := Fin (of_nat (canvas_height originalCanvas))\<rparr>) = Resolved () \<and>
       analyzeHandwritingErrors env
         (r\<lparr>imageWidth := Fin (of_nat (canvas_width originalCanvas)),
            imageHeight := Fin (of_nat (canvas_height originalCanvas))\<rparr>) = Resolved () \<and>
       afterCompletion env
         (r\<lparr>imageWidth := Fin (of_nat (canvas_width originalCanvas)),
            imageHeight := Fin (of_nat (canvas_height originalCanvas))\<rparr>) = Resolved ()"
  show "processSelectedShapes env ocrState s =
           (s\<lparr>isProcessing := False, progress := 100, currentStep := ProcessingCompleted,
              error := None,
              lastResult :=
                Some (r\<lparr>imageWidth := Fin (of_nat (canvas_width originalCanvas)),
                         imageHeight := Fin (of_nat (canvas_height originalCanvas))\<rparr>),
              lastSelectionBounds := Some bounds\<rparr>,
            \<lparr>success = True,
             result = Some (r\<lparr>imageWidth := Fin (of_nat (canvas_width originalCanvas)),
                              imageHeight := Fin (of_nat (canvas_height originalCanvas))\<rparr>),
             error_message = None\<rparr>,
            [PreprocessImage originalCanvas, ProcessImageOCR originalCanvas preprocessedCanvas,
             ValidateOCRResult, SaveOCRResult, AnalyzeHandwritingErrors,
       AfterCompletion])"
    using phase ok by (simp add: processSelectedShapes_def Let_def)
qed

text \<open>A throw after the state has been set to completed.\<close>

lemma late_throw_keeps_result:
  assumes "isInitialized ocrState"
    and "initializationData ocrState =
      Some \<lparr>init_selectionBounds = Some bounds, init_shapeIds = ids,
            init_imageCanvas = Some originalCanvas\<rparr>"
    and "preprocessImage env originalCanvas = Resolved preprocessedCanvas"
    and "processImageOCR env originalCanvas preprocessedCanvas = Resolved r"
    and "validateOCRResult env
         (r\<lparr>imageWidth := Fin (of_nat (canvas_width originalCanvas)),
            imageHeight := Fin (of_nat (canvas_height originalCanvas))\<rparr>) = Resolved ()"
    and "saveOCRResult env
         (r\<lparr>imageWidth := Fin (of_nat (canvas_width originalCanvas)),
            imageHeight := Fin (of_nat (canvas_height originalCanvas))\<rparr>) = Resolved ()"
    and "analyzeHandwritingErrors env
         (r\<lparr>imageWidth := Fin (of_nat (canvas_width originalCanvas)),
            imageHeight := Fin (of_nat (canvas_height originalCanvas))\<rparr>) = Resolved ()"
    and "afterCompletion env
         (r\<lparr>imageWidth := Fin (of_nat (canvas_width originalCanvas)),
            imageHeight := Fin (of_nat (canvas_height originalCanvas))\<rparr>) = Rejected m"
  shows "processSelectedShapes env ocrState s =
           (s\<lparr>isProcessing := False, progress := 100, currentStep := ProcessingCompleted,
              error := Some m,
              lastResult :=
                Some (r\<lparr>imageWidth := Fin (of_nat (canvas_width originalCanvas)),
                         imageHeight := Fin (of_nat (canvas_height originalCanvas))\<rparr>),
              lastSelectionBounds := Some bounds\<rparr>,
            \<lparr>success = False, result = None, error_message = Some m\<rparr>,
            [PreprocessImage originalCanvas, ProcessImageOCR originalCanvas preprocessedCanvas,
             ValidateOCRResult, SaveOCRResult, AnalyzeHandwritingErrors,
       AfterCompletion])"
  using assms by (simp add: processSelectedShapes_def recognitionFailed_def Let_def)

text \<open>
  The first run of the idle timer never reaches the OCR engine, whatever the collaborators
  answer.
\<close>

lemma timer_first_run_never_recognizes:
  assumes "\<not> isInitialized ocrState" "\<not> initialized"
  shows "ProcessImageOCR a b \<notin> set (snd (snd (autoOCRProcessorTimer env ocrState initialized s)))"
    and "fst (snd (autoOCRProcessorTimer env ocrState initialized s)) = Some r \<Longrightarrow> result r = None"
proof -
  have p: "\<not> isInitialized ocrState \<or> initializationData ocrState = None"
    using assms by simp
  show "ProcessImageOCR a b \<notin> set (snd (snd (autoOCRProcessorTimer env ocrState initialized s)))"
    using assms initializeOCR_calls [of env s]
      phase_one_result(2) [OF p, of a b env "fst (initializeOCR env s)"]
    by (auto simp: autoOCRProcessorTimer_def split: prod.splits)
  show "fst (snd (autoOCRProcessorTimer env ocrState initialized s)) = Some r \<Longrightarrow> result r = None"
    using assms phase_one_result(1) [OF p, of env "fst (initializeOCR env s)"]
    by (auto simp: autoOCRProcessorTimer_def split: prod.splits if_splits)
qed

text \<open>
  The button: the first click initializes; the second, made with the callback of the
  render that followed, recognizes the raster of the first, on a state that the click has
  just reset.
\<close>

lemma button_two_clicks:
  "handleProcessSelected exampleEnvironment initialState =
     (initializedState, \<lparr>success = True, result = None, error_message = None\<rparr>,
      [ToImage [''shape:1''], BlobToCanvas 7, LoadImage 7]) \<and>
   handleProcessSelected exampleEnvironment initializedState =
     (initialState
        \<lparr>progress := 100, currentStep := ProcessingCompleted,
         lastResult := Some exampleOCRResult,
         lastSelectionBounds :=
           Some \<lparr>bb_x = Fin 100, bb_y = Fin 200, bb_w = Fin 300, bb_h = Fin 150\<rparr>\<rparr>,
      \<lparr>success = True, result = Some exampleOCRResult, error_message = None\<rparr>,
      [PreprocessImage \<lparr>canvas_id = 1, canvas_width = 300, canvas_height = 150\<rparr>,
       ProcessImageOCR \<lparr>canvas_id = 1, canvas_width = 300, canvas_height = 150\<rparr>
         \<lparr>canvas_id = 2, canvas_width = 300, canvas_height = 150\<rparr>,
       ValidateOCRResult, SaveOCRResult, AnalyzeHandwritingErrors,
       AfterCompletion])"
proof -
  have size: "exampleOCRResult\<lparr>imageWidth := Fin 300, imageHeight := Fin 150\<rparr> = exampleOCRResult"
    by (simp add: exampleOCRResult_def)
  show ?thesis
    using size example_phase_one
    by (simp add: handleProcessSelected_def processSelectedShapes_def exampleEnvironment_def
        initializedState_def initialState_def Let_def)
qed

section \<open>Facts about arbitrary arguments\<close>

lemma add_any_throws: "(add_any c x v = Inl TypeError) = is_bigint_or_symbol v"
  by (cases v) simp_all

lemma add_any_converts:
  "add_any c x v = Inr u \<Longrightarrow> \<exists>n. toNumber_any c u = Inr n"
  by (cases v) auto

lemma number_as_any_simps:
  "number_as_any None = JSUndefined" "number_as_any (Some n) = JSNumber n"
  by (simp_all add: number_as_any_def)

lemma isFinite_any_number: "isFinite_any (number_as_any v) = isFinite v"
  by (cases v rule: isFinite.cases) (simp_all add: number_as_any_def)

lemma isFinite_cases: "isFinite v \<Longrightarrow> \<exists>a. v = Some (Fin a)"
  by (cases v rule: isFinite.cases) simp_all

lemma finite_or_bbox_typed:
  "finite_or_bbox any_x any_bbox_x (box_as_any box) =
     number_as_any (if isFinite (box_x box) then box_x box else opt_bbox bbox_x box)"
  "finite_or_bbox any_y any_bbox_y (box_as_any box) =
     number_as_any (if isFinite (box_y box) then box_y box else opt_bbox bbox_y box)"
  "finite_or_bbox any_w any_bbox_w (box_as_any box) =
     number_as_any (if isFinite (box_w box) then box_w box else opt_bbox bbox_w box)"
  "finite_or_bbox any_h any_bbox_h (box_as_any box) =
     number_as_any (if isFinite (box_h box) then box_h box else opt_bbox bbox_h box)"
  by (simp_all add: finite_or_bbox_def box_as_any_def isFinite_any_number opt_bbox_def
      number_as_any_simps split: option.splits)

text \<open>
  On a box whose properties are numbers or missing, the function on arbitrary arguments
  returns what the numeric model returns.
\<close>

lemma pixelBoxToPageBox_any_typed:
  "pixelBoxToPageBox_any c (Some (box_as_any box)) img = Inr (page_as_any (pixelBoxToPageBox box img))"
proof -
  define bx where "bx = (if isFinite (box_x box) then box_x box else opt_bbox bbox_x box)"
  define by' where "by' = (if isFinite (box_y box) then box_y box else opt_bbox bbox_y box)"
  define bw where "bw = (if isFinite (box_w box) then box_w box else opt_bbox bbox_w box)"
  define bh where "bh = (if isFinite (box_h box) then box_h box else opt_bbox bbox_h box)"
  have id: "any_id (box_as_any box) = string_as_any (box_id box)"
    by (simp add: box_as_any_def)
  have unknown: "id_or_unknown (string_as_any (box_id box)) =
      string_as_any (Some (case box_id box of None \<Rightarrow> ''unknown'' | Some i \<Rightarrow> i))"
    by (simp add: string_as_any_def split: option.splits)
  show ?thesis
  proof (cases "isFinite bx \<and> isFinite by'")
    case True
    then obtain x y where xy: "bx = Some (Fin x)" "by' = Some (Fin y)"
      using isFinite_cases by blast
    show ?thesis
      unfolding pixelBoxToPageBox_any_def pixelBoxToPageBox_def Let_def finite_or_bbox_typed
        option.case id bx_def [symmetric] by'_def [symmetric] bw_def [symmetric]
        bh_def [symmetric] xy
      by (cases bw; cases bh) (simp_all add: number_as_any_simps page_as_any_def)
  next
    case False
    then have shape: "\<And>x y. \<not> (number_as_any bx = JSNumber (Fin x) \<and> number_as_any by' = JSNumber (Fin y))"
      by (auto simp: number_as_any_def split: option.splits)
    have "(case (number_as_any bx, number_as_any by') of
             (JSNumber (Fin x), JSNumber (Fin y)) \<Rightarrow> f x y
           | _ \<Rightarrow> g) = g" for f :: "rat \<Rightarrow> rat \<Rightarrow> js_error + any_page_box" and g
      using shape by (auto split: js_value.splits number.splits)
    then show ?thesis
      using False
      unfolding pixelBoxToPageBox_any_def pixelBoxToPageBox_def Let_def finite_or_bbox_typed
        option.case id bx_def [symmetric] by'_def [symmetric] bw_def [symmetric]
        bh_def [symmetric]
      by (simp add: page_as_any_def unknown)
  qed
qed




text \<open>
  A \<open>w\<close> and \<open>h\<close> read as \<^verbatim>\<open>null\<close> count as \<open>0\<close>: the box \<open>{x: 90, y: 45}\<close> with
  \<open>bbox: {w: null, h: null}\<close> maps to \<open>{130, 215, 0, 0}\<close> in the \<open>900 \<times> 450\<close> geometry.
  A \<^verbatim>\<open>null\<close> in the box's own \<open>w\<close> is not finite and gives way to \<open>bbox.w\<close>.
\<close>

lemma null_size_counts_as_zero:
  "pixelBoxToPageBox_any c
     (Some \<lparr>any_id = JSString ''c001'', any_x = JSNumber (Fin 90), any_y = JSNumber (Fin 45),
            any_w = JSUndefined, any_h = JSNull,
            any_bbox =
              Some \<lparr>any_bbox_x = JSUndefined, any_bbox_y = JSUndefined,
                    any_bbox_w = JSNull, any_bbox_h = JSNull\<rparr>\<rparr>)
     \<lparr>rect = \<lparr>rect_x = Fin 100, rect_y = Fin 200, rect_width = Fin 300, rect_height = Fin 150\<rparr>,
      naturalWidth = Fin 900, naturalHeight = Fin 450\<rparr> =
   Inr \<lparr>any_page_id = JSString ''c001'', any_page_x = Fin 130, any_page_y = Fin 215,
        any_page_w = Fin 0, any_page_h = Fin 0\<rparr>"
proof -
  have products:
    "rnd (90 * (6004799503160661 / 18014398509481984)) = Fin 30"
    "rnd (45 * (6004799503160661 / 18014398509481984)) = Fin 15"
    by code_simp+
  show ?thesis
    using products
    by (simp add: pixelBoxToPageBox_any_def finite_or_bbox_def Let_def fsub_Fin rnd_third
        rnd_zero rnd_numeral)
qed

section \<open>The page mapping\<close>

text \<open>
  C1.  For a pixel box whose \<open>x\<close>, \<open>y\<close>, \<open>w\<close>, \<open>h\<close> are finite numbers and any image
  geometry, \<^verbatim>\<open>pixelBoxToPageBox\<close> returns
  \<open>x = rect.x + box.x * (rect.width / naturalWidth)\<close>,
  \<open>y = rect.y + box.y * (rect.height / naturalHeight)\<close>, and \<open>w\<close>, \<open>h\<close> the difference
  between the far corner, mapped the same way, and that near corner.  For the geometry
  \<open>{pageRect: {100, 200, 300, 150}, 900 \<times> 450}\<close> the pixel box \<open>{90, 45, 30, 45}\<close>
  maps to the page box \<open>{130, 215, 10, 15}\<close>, also in binary64 arithmetic.
\<close>

theorem pixelBoxToPageBox_formula:
  "pixelBoxToPageBox
     \<lparr>box_id = i, box_x = Some (Fin x), box_y = Some (Fin y),
      box_w = Some (Fin w), box_h = Some (Fin h), box_bbox = b\<rparr> img =
   (let scaleX = fdiv (rect_width (rect img)) (naturalWidth img);
        scaleY = fdiv (rect_height (rect img)) (naturalHeight img);
        x1 = fadd (rect_x (rect img)) (fmul (Fin x) scaleX);
        y1 = fadd (rect_y (rect img)) (fmul (Fin y) scaleY);
        x2 = fadd (rect_x (rect img)) (fmul (fadd (Fin x) (Fin w)) scaleX);
        y2 = fadd (rect_y (rect img)) (fmul (fadd (Fin y) (Fin h)) scaleY)
    in \<lparr>page_id = i, page_x = x1, page_y = y1, page_w = fsub x2 x1, page_h = fsub y2 y1\<rparr>)
   \<and>
   pixelBoxToPageBox
     \<lparr>box_id = i, box_x = Some (Fin 90), box_y = Some (Fin 45),
      box_w = Some (Fin 30), box_h = Some (Fin 45), box_bbox = b\<rparr>
     \<lparr>rect = \<lparr>rect_x = Fin 100, rect_y = Fin 200, rect_width = Fin 300, rect_height = Fin 150\<rparr>,
      naturalWidth = Fin 900, naturalHeight = Fin 450\<rparr> =
   \<lparr>page_id = i, page_x = Fin 130, page_y = Fin 215, page_w = Fin 10, page_h = Fin 15\<rparr>"
proof
  show "pixelBoxToPageBox
     \<lparr>box_id = i, box_x = Some (Fin x), box_y = Some (Fin y),
      box_w = Some (Fin w), box_h = Some (Fin h), box_bbox = b\<rparr> img =
   (let scaleX = fdiv (rect_width (rect img)) (naturalWidth img);
        scaleY = fdiv (rect_height (rect img)) (naturalHeight img);
        x1 = fadd (rect_x (rect img)) (fmul (Fin x) scaleX);
        y1 = fadd (rect_y (rect img)) (fmul (Fin y) scaleY);
        x2 = fadd (rect_x (rect img)) (fmul (fadd (Fin x) (Fin w)) scaleX);
        y2 = fadd (rect_y (rect img)) (fmul (fadd (Fin y) (Fin h)) scaleY)
    in \<lparr>page_id = i, page_x = x1, page_y = y1, page_w = fsub x2 x1, page_h = fsub y2 y1\<rparr>)"
    by (simp add: pixelBoxToPageBox_def Let_def)
next
  have products:
    "rnd (90 * (6004799503160661 / 18014398509481984)) = Fin 30"
    "rnd (45 * (6004799503160661 / 18014398509481984)) = Fin 15"
    "rnd (120 * (6004799503160661 / 18014398509481984)) = Fin 40"
    by code_simp+
  show "pixelBoxToPageBox
     \<lparr>box_id = i, box_x = Some (Fin 90), box_y = Some (Fin 45),
      box_w = Some (Fin 30), box_h = Some (Fin 45), box_bbox = b\<rparr>
     \<lparr>rect = \<lparr>rect_x = Fin 100, rect_y = Fin 200, rect_width = Fin 300, rect_height = Fin 150\<rparr>,
      naturalWidth = Fin 900, naturalHeight = Fin 450\<rparr> =
   \<lparr>page_id = i, page_x = Fin 130, page_y = Fin 215, page_w = Fin 10, page_h = Fin 15\<rparr>"
    using products
    by (simp add: pixelBoxToPageBox_def Let_def fsub_Fin rnd_third rnd_small_integers)
qed

theorem pixelBoxToPageBox_formula_witness:
  "pixelBoxToPageBox
     \<lparr>box_id = Some ''c001'', box_x = Some (Fin 90), box_y = Some (Fin 45),
      box_w = Some (Fin 30), box_h = Some (Fin 45), box_bbox = None\<rparr>
     \<lparr>rect = \<lparr>rect_x = Fin 100, rect_y = Fin 200, rect_width = Fin 300, rect_height = Fin 150\<rparr>,
      naturalWidth = Fin 900, naturalHeight = Fin 450\<rparr> =
   \<lparr>page_id = Some ''c001'', page_x = Fin 130, page_y = Fin 215, page_w = Fin 10,
    page_h = Fin 15\<rparr>"
  using pixelBoxToPageBox_formula
    [of "Some ''c001''" 90 45 30 45 None
        "\<lparr>rect = \<lparr>rect_x = Fin 100, rect_y = Fin 200, rect_width = Fin 300,
                    rect_height = Fin 150\<rparr>,
          naturalWidth = Fin 900, naturalHeight = Fin 450\<rparr>"]
  by (rule conjunct2)

text \<open>
  C2 as stated: the full-image pixel box \<open>{0, 0, naturalWidth, naturalHeight}\<close> maps to the
  page rectangle exactly.  In binary64 this fails: for the page rectangle
  \<open>{100, 200, 300, 150}\<close> and a \<open>562 \<times> 281\<close> image the width comes out as
  \<open>(100 + 562 * (300 / 562)) - 100\<close>, which is \<open>300 - 2\<^sup>-\<^sup>4\<^sup>4\<close>
  (\<^verbatim>\<open>299.99999999999994\<close>), not \<open>300\<close>.
\<close>

theorem full_image_box_counterexample:
  "page_w (pixelBoxToPageBox
     \<lparr>box_id = None, box_x = Some (Fin 0), box_y = Some (Fin 0),
      box_w = Some (Fin 562), box_h = Some (Fin 281), box_bbox = None\<rparr>
     \<lparr>rect = \<lparr>rect_x = Fin 100, rect_y = Fin 200, rect_width = Fin 300, rect_height = Fin 150\<rparr>,
      naturalWidth = Fin 562, naturalHeight = Fin 281\<rparr>)
   = Fin (5277655813324799 / 17592186044416)
   \<and> Fin (5277655813324799 / 17592186044416) \<noteq> Fin 300"
proof -
  have steps:
    "rnd (150 / 281) = Fin (4808113481178465 / 9007199254740992)"
    "rnd (562 * (4808113481178465 / 9007199254740992)) = Fin (5277655813324799 / 17592186044416)"
    "rnd (100 + 5277655813324799 / 17592186044416) = Fin (7036874417766399 / 17592186044416)"
    "rnd (7036874417766399 / 17592186044416 - 100) = Fin (5277655813324799 / 17592186044416)"
    by code_simp+
  show ?thesis
    using steps
    by (simp add: pixelBoxToPageBox_def Let_def fsub_Fin rnd_zero rnd_numeral)
qed

text \<open>
  C2, amended.  Take a geometry of finite doubles with positive natural size whose two
  scale quotients \<open>rect.width / naturalWidth\<close> and \<open>rect.height / naturalHeight\<close> are
  finite, say \<open>sx\<close> and \<open>sy\<close>.  The full-image pixel box maps to a page box whose \<open>x\<close>
  and \<open>y\<close> are exactly \<open>rect.x\<close> and \<open>rect.y\<close>, and whose \<open>w\<close> is the double
  \<open>(rect.x + naturalWidth * sx) - rect.x\<close>, each operation rounded.  That \<open>w\<close> is
  \<open>rect.width\<close> itself whenever the product \<open>naturalWidth * sx\<close> gives back
  \<open>rect.width\<close> and \<open>(rect.x + rect.width) - rect.x\<close> gives back \<open>rect.width\<close>, as it does
  for the \<open>900 \<times> 450\<close> geometry although \<open>300 / 900\<close> is not a double; and when it is
  finite it never differs from \<open>rect.width\<close> by more than
  \<open>(\<bar>rect.x\<bar> + \<bar>rect.width\<bar>) / 2\<^sup>5\<^sup>0 + (naturalWidth + 1) / 2\<^sup>1\<^sup>0\<^sup>7\<^sup>2\<close>.  The
  same holds of \<open>h\<close>.
\<close>

theorem full_image_box_round_trip:
  assumes "is_double rx" "is_double ry" "is_double nw" "is_double nh" "0 < nw" "0 < nh"
    and "fdiv (Fin rw) (Fin nw) = Fin sx" "fdiv (Fin rh) (Fin nh) = Fin sy"
  shows "pixelBoxToPageBox
     \<lparr>box_id = i, box_x = Some (Fin 0), box_y = Some (Fin 0),
      box_w = Some (Fin nw), box_h = Some (Fin nh), box_bbox = b\<rparr>
     \<lparr>rect = \<lparr>rect_x = Fin rx, rect_y = Fin ry, rect_width = Fin rw, rect_height = Fin rh\<rparr>,
      naturalWidth = Fin nw, naturalHeight = Fin nh\<rparr> =
   \<lparr>page_id = i, page_x = Fin rx, page_y = Fin ry,
    page_w = fsub (fadd (Fin rx) (fmul (Fin nw) (Fin sx))) (Fin rx),
    page_h = fsub (fadd (Fin ry) (fmul (Fin nh) (Fin sy))) (Fin ry)\<rparr> \<and>
   (fmul (Fin nw) (Fin sx) = Fin rw \<and> fsub (fadd (Fin rx) (Fin rw)) (Fin rx) = Fin rw \<longrightarrow>
      fsub (fadd (Fin rx) (fmul (Fin nw) (Fin sx))) (Fin rx) = Fin rw) \<and>
   (fmul (Fin nh) (Fin sy) = Fin rh \<and> fsub (fadd (Fin ry) (Fin rh)) (Fin ry) = Fin rh \<longrightarrow>
      fsub (fadd (Fin ry) (fmul (Fin nh) (Fin sy))) (Fin ry) = Fin rh) \<and>
   (\<forall>w'. fsub (fadd (Fin rx) (fmul (Fin nw) (Fin sx))) (Fin rx) = Fin w' \<longrightarrow>
      \<bar>w' - rw\<bar> \<le> (\<bar>rx\<bar> + \<bar>rw\<bar>) / 2 ^ 50 + (nw + 1) / 2 ^ 1072) \<and>
   (\<forall>h'. fsub (fadd (Fin ry) (fmul (Fin nh) (Fin sy))) (Fin ry) = Fin h' \<longrightarrow>
      \<bar>h' - rh\<bar> \<le> (\<bar>ry\<bar> + \<bar>rh\<bar>) / 2 ^ 50 + (nh + 1) / 2 ^ 1072)"
proof (intro conjI allI impI)
  note X = full_image_axis [OF assms(1,3,5,7)]
  note Y = full_image_axis [OF assms(2,4,6,8)]
  show "pixelBoxToPageBox
     \<lparr>box_id = i, box_x = Some (Fin 0), box_y = Some (Fin 0),
      box_w = Some (Fin nw), box_h = Some (Fin nh), box_bbox = b\<rparr>
     \<lparr>rect = \<lparr>rect_x = Fin rx, rect_y = Fin ry, rect_width = Fin rw, rect_height = Fin rh\<rparr>,
      naturalWidth = Fin nw, naturalHeight = Fin nh\<rparr> =
   \<lparr>page_id = i, page_x = Fin rx, page_y = Fin ry,
    page_w = fsub (fadd (Fin rx) (fmul (Fin nw) (Fin sx))) (Fin rx),
    page_h = fsub (fadd (Fin ry) (fmul (Fin nh) (Fin sy))) (Fin ry)\<rparr>"
    unfolding pixelBoxToPageBox_def Let_def
    by (simp del: fdiv.simps fadd.simps fmul.simps add: X(1,2) Y(1,2))
next
  assume "fmul (Fin nw) (Fin sx) = Fin rw \<and> fsub (fadd (Fin rx) (Fin rw)) (Fin rx) = Fin rw"
  then show "fsub (fadd (Fin rx) (fmul (Fin nw) (Fin sx))) (Fin rx) = Fin rw"
    by simp
next
  assume "fmul (Fin nh) (Fin sy) = Fin rh \<and> fsub (fadd (Fin ry) (Fin rh)) (Fin ry) = Fin rh"
  then show "fsub (fadd (Fin ry) (fmul (Fin nh) (Fin sy))) (Fin ry) = Fin rh"
    by simp
next
  fix w'
  assume "fsub (fadd (Fin rx) (fmul (Fin nw) (Fin sx))) (Fin rx) = Fin w'"
  then show "\<bar>w' - rw\<bar> \<le> (\<bar>rx\<bar> + \<bar>rw\<bar>) / 2 ^ 50 + (nw + 1) / 2 ^ 1072"
    by (rule full_image_axis(4) [OF assms(1,3,5,7)])
next
  fix h'
  assume "fsub (fadd (Fin ry) (fmul (Fin nh) (Fin sy))) (Fin ry) = Fin h'"
  then show "\<bar>h' - rh\<bar> \<le> (\<bar>ry\<bar> + \<bar>rh\<bar>) / 2 ^ 50 + (nh + 1) / 2 ^ 1072"
    by (rule full_image_axis(4) [OF assms(2,4,6,8)])
qed

theorem full_image_box_round_trip_witness:
  "pixelBoxToPageBox
     \<lparr>box_id = Some ''c001'', box_x = Some (Fin 0), box_y = Some (Fin 0),
      box_w = Some (Fin 900), box_h = Some (Fin 450), box_bbox = None\<rparr>
     \<lparr>rect = \<lparr>rect_x = Fin 100, rect_y = Fin 200, rect_width = Fin 300, rect_height = Fin 150\<rparr>,
      naturalWidth = Fin 900, naturalHeight = Fin 450\<rparr> =
   \<lparr>page_id = Some ''c001'', page_x = Fin 100, page_y = Fin 200,
    page_w = Fin 300, page_h = Fin 150\<rparr> \<and>
   pixelBoxToPageBox
     \<lparr>box_id = None, box_x = Some (Fin 0), box_y = Some (Fin 0),
      box_w = Some (Fin 562), box_h = Some (Fin 281), box_bbox = None\<rparr>
     \<lparr>rect = \<lparr>rect_x = Fin 100, rect_y = Fin 200, rect_width = Fin 300, rect_height = Fin 150\<rparr>,
      naturalWidth = Fin 562, naturalHeight = Fin 281\<rparr> =
   \<lparr>page_id = None, page_x = Fin 100, page_y = Fin 200,
    page_w = Fin (5277655813324799 / 17592186044416),
    page_h = Fin 150\<rparr> \<and>
   \<bar>5277655813324799 / 17592186044416 - 300 :: rat\<bar> \<le>
     (\<bar>100\<bar> + \<bar>300\<bar>) / 2 ^ 50 + (562 + 1) / 2 ^ 1072"
proof -
  have d: "is_double 100" "is_double 200" "is_double 900" "is_double 450"
    "is_double 562" "is_double 281"
    by (simp_all add: is_double_def rnd_numeral)
  have scale: "fdiv (Fin 300) (Fin 900) = Fin (6004799503160661 / 18014398509481984)"
    "fdiv (Fin 150) (Fin 450) = Fin (6004799503160661 / 18014398509481984)"
    using rnd_third by simp_all
  have products:
    "fmul (Fin 900) (Fin (6004799503160661 / 18014398509481984)) = Fin 300"
    "fmul (Fin 450) (Fin (6004799503160661 / 18014398509481984)) = Fin 150"
    by code_simp+
  have sums: "fsub (fadd (Fin 100) (Fin 300)) (Fin 100) = Fin 300"
    "fsub (fadd (Fin 200) (Fin 150)) (Fin 200) = Fin 150"
    by (simp_all add: fsub_Fin rnd_numeral)
  have exact: "pixelBoxToPageBox
     \<lparr>box_id = Some ''c001'', box_x = Some (Fin 0), box_y = Some (Fin 0),
      box_w = Some (Fin 900), box_h = Some (Fin 450), box_bbox = None\<rparr>
     \<lparr>rect = \<lparr>rect_x = Fin 100, rect_y = Fin 200, rect_width = Fin 300, rect_height = Fin 150\<rparr>,
      naturalWidth = Fin 900, naturalHeight = Fin 450\<rparr> =
   \<lparr>page_id = Some ''c001'', page_x = Fin 100, page_y = Fin 200,
    page_w = Fin 300, page_h = Fin 150\<rparr>"
    using full_image_box_round_trip
      [where rx = 100 and ry = 200 and nw = 900 and nh = 450 and rw = 300 and rh = 150
         and sx = "6004799503160661 / 18014398509481984"
         and sy = "6004799503160661 / 18014398509481984"
         and i = "Some ''c001''" and b = None, OF d(1-4) _ _ scale]
      products sums
    by (simp del: fmul.simps fadd.simps fdiv.simps)
  have scale': "fdiv (Fin 300) (Fin 562) = Fin (4808113481178465 / 9007199254740992)"
    "fdiv (Fin 150) (Fin 281) = Fin (4808113481178465 / 9007199254740992)"
    by code_simp+
  have trip:
    "fsub (fadd (Fin 100) (fmul (Fin 562) (Fin (4808113481178465 / 9007199254740992))))
       (Fin 100) = Fin (5277655813324799 / 17592186044416)"
    "fsub (fadd (Fin 200) (fmul (Fin 281) (Fin (4808113481178465 / 9007199254740992))))
       (Fin 200) = Fin 150"
    by code_simp+
  have pos: "(0::rat) < 562" "(0::rat) < 281"
    by simp_all
  note rounded = full_image_box_round_trip
      [where rx = 100 and ry = 200 and nw = 562 and nh = 281 and rw = 300 and rh = 150
         and sx = "4808113481178465 / 9007199254740992"
         and sy = "4808113481178465 / 9007199254740992"
         and i = None and b = None, OF d(1,2,5,6) pos scale', unfolded trip]
  have geometry: "pixelBoxToPageBox
     \<lparr>box_id = None, box_x = Some (Fin 0), box_y = Some (Fin 0),
      box_w = Some (Fin 562), box_h = Some (Fin 281), box_bbox = None\<rparr>
     \<lparr>rect = \<lparr>rect_x = Fin 100, rect_y = Fin 200, rect_width = Fin 300, rect_height = Fin 150\<rparr>,
      naturalWidth = Fin 562, naturalHeight = Fin 281\<rparr> =
   \<lparr>page_id = None, page_x = Fin 100, page_y = Fin 200,
    page_w = Fin (5277655813324799 / 17592186044416),
    page_h = Fin 150\<rparr>"
    using rounded by simp
  have bound_w: "\<bar>5277655813324799 / 17592186044416 - 300 :: rat\<bar> \<le>
     (\<bar>100\<bar> + \<bar>300\<bar>) / 2 ^ 50 + (562 + 1) / 2 ^ 1072"
    using rounded by blast
  show ?thesis
    using exact geometry bound_w by (intro conjI)
qed




section \<open>Scale anomaly\<close>

text \<open>
  C3.  The OCR stage reports the internal scale factor \<open>2\<close> when the height of the first
  character, divided by the height of the image, exceeds \<open>0.5\<close>, and \<open>1\<close> otherwise (also
  when there is no first character).  In the auto-correcting mapper a reported factor
  \<open>f > 1\<close> takes precedence: \<open>x\<close>, \<open>y\<close> and, when present, \<open>w\<close> and \<open>h\<close> are divided by \<open>f\<close>
  before the local mapping is applied.  Without such a factor, an oversized box is divided
  by \<open>2\<close> in the same way.
\<close>

theorem scale_anomaly_handling:
  "(firstSymbolOf paragraphs = None \<longrightarrow> internalScaleFactor paragraphs canvasHeight = Fin 1) \<and>
   (firstSymbolOf paragraphs = Some s \<longrightarrow>
      internalScaleFactor paragraphs canvasHeight =
        (if fgt (fdiv (fsub (y1 (sym_bbox s)) (y0 (sym_bbox s))) (Fin (of_nat canvasHeight)))
                (Fin (1 / 2))
         then Fin 2 else Fin 1)) \<and>
   (fgt f (Fin 1) \<longrightarrow>
      mapLocalOcrCoordinatesWithAutoCorrection c sel sz (Some f) =
        mapLocalOcrCoordinates
          \<lparr>oc_x = fdiv (oc_x c) f, oc_y = fdiv (oc_y c) f,
           oc_w = scale_prop (oc_w c) f, oc_h = scale_prop (oc_h c) f\<rparr> sel) \<and>
   ((d = None \<or> (\<exists>g. d = Some g \<and> \<not> fgt g (Fin 1))) \<and> isOversized c sz \<longrightarrow>
      mapLocalOcrCoordinatesWithAutoCorrection c sel sz d =
        mapLocalOcrCoordinates
          \<lparr>oc_x = fdiv (oc_x c) (Fin 2), oc_y = fdiv (oc_y c) (Fin 2),
           oc_w = scale_prop (oc_w c) (Fin 2), oc_h = scale_prop (oc_h c) (Fin 2)\<rparr> sel)"
  by (auto simp: internalScaleFactor_def Let_def mapLocalOcrCoordinatesWithAutoCorrection_def
      autoCorrection_def applyScaleCorrectionToOCRCoordinates_def fgt_one_truthy)

theorem scale_anomaly_handling_witness:
  "internalScaleFactor
     [\<lparr>lines = [\<lparr>words = [\<lparr>symbols = Some [\<lparr>sym_text = ''7'',
         sym_bbox = \<lparr>x0 = Fin 12, y0 = Fin 20, x1 = Fin 60, y1 = Fin 120\<rparr>\<rparr>]\<rparr>]\<rparr>]\<rparr>] 150 = Fin 2 \<and>
   mapLocalOcrCoordinatesWithAutoCorrection
     \<lparr>oc_x = Fin 200, oc_y = Fin 100, oc_w = Present (Fin 40), oc_h = Present (Fin 60)\<rparr>
     \<lparr>bb_x = Fin 0, bb_y = Fin 0, bb_w = Fin 300, bb_h = Fin 150\<rparr>
     \<lparr>width = Fin 300, height = Fin 150\<rparr> (Some (Fin 2)) =
     \<lparr>oc_x = Fin 100, oc_y = Fin 50, oc_w = Present (Fin 20), oc_h = Present (Fin 30)\<rparr>"
proof -
  have r: "rnd (120 - 20) = Fin 100" "rnd (100 / 150) = Fin (6004799503160661 / 9007199254740992)"
    "rnd (200 / 2) = Fin 100" "rnd (100 / 2) = Fin 50" "rnd (40 / 2) = Fin 20"
    "rnd (60 / 2) = Fin 30" "rnd (0 + 100) = Fin 100" "rnd (0 + 50) = Fin 50"
    by code_simp+
  show ?thesis
    using r scale_anomaly_handling
      [of "[\<lparr>lines = [\<lparr>words = [\<lparr>symbols = Some [\<lparr>sym_text = ''7'',
              sym_bbox = \<lparr>x0 = Fin 12, y0 = Fin 20, x1 = Fin 60, y1 = Fin 120\<rparr>\<rparr>]\<rparr>]\<rparr>]\<rparr>]"
          150
          "\<lparr>sym_text = ''7'', sym_bbox = \<lparr>x0 = Fin 12, y0 = Fin 20, x1 = Fin 60, y1 = Fin 120\<rparr>\<rparr>"
          "Fin 2"
          "\<lparr>oc_x = Fin 200, oc_y = Fin 100, oc_w = Present (Fin 40), oc_h = Present (Fin 60)\<rparr>"
          "\<lparr>bb_x = Fin 0, bb_y = Fin 0, bb_w = Fin 300, bb_h = Fin 150\<rparr>"
          "\<lparr>width = Fin 300, height = Fin 150\<rparr>" None]
    by (simp add: firstSymbolOf_def fsub_Fin fgt_def mapLocalOcrCoordinates_def has_key_def)
qed


text \<open>
  C4.  When no internal scale factor greater than \<open>1\<close> is reported and the box is within
  the nominal bounds (\<open>x \<le> 1.5 * width\<close>, \<open>y \<le> 1.5 * height\<close>, \<open>w \<le> 0.8 * width\<close>,
  \<open>h \<le> 0.8 * height\<close>, the products computed as the code computes them), the applied
  scale factor is \<open>1\<close> and the box reaches the local mapping unchanged.
\<close>

theorem no_correction_within_bounds:
  assumes "d = None \<or> (\<exists>g. d = Some g \<and> \<not> fgt g (Fin 1))"
    and "fle (oc_x c) (fmul (width sz) (Fin (3 / 2)))"
    and "fle (oc_y c) (fmul (height sz) (Fin (3 / 2)))"
    and "\<forall>v. oc_w c = Present v \<longrightarrow> fle v (fmul (width sz) lit_0_8)"
    and "\<forall>v. oc_h c = Present v \<longrightarrow> fle v (fmul (height sz) lit_0_8)"
  shows "autoCorrection c sz d = (Fin 1, c) \<and>
         mapLocalOcrCoordinatesWithAutoCorrection c sel sz d = mapLocalOcrCoordinates c sel"
proof -
  have w: "\<not> (prop_truthy (oc_w c) \<and> fgt (prop_number (oc_w c)) (fmul (width sz) lit_0_8))"
    using assms(4) by (cases "oc_w c") (auto dest: fle_not_fgt)
  have h: "\<not> (prop_truthy (oc_h c) \<and> fgt (prop_number (oc_h c)) (fmul (height sz) lit_0_8))"
    using assms(5) by (cases "oc_h c") (auto dest: fle_not_fgt)
  have "\<not> isOversized c sz"
    using assms(2,3) w h by (auto simp: isOversized_def dest: fle_not_fgt)
  then have "autoCorrection c sz d = (Fin 1, c)"
    using assms(1) by (auto simp: autoCorrection_def)
  then show ?thesis
    by (simp add: mapLocalOcrCoordinatesWithAutoCorrection_def)
qed

theorem no_correction_within_bounds_witness:
  "autoCorrection
     \<lparr>oc_x = Fin 200, oc_y = Fin 100, oc_w = Present (Fin 40), oc_h = Present (Fin 60)\<rparr>
     \<lparr>width = Fin 300, height = Fin 150\<rparr> (Some (Fin 1)) =
     (Fin 1, \<lparr>oc_x = Fin 200, oc_y = Fin 100, oc_w = Present (Fin 40), oc_h = Present (Fin 60)\<rparr>)
   \<and> mapLocalOcrCoordinatesWithAutoCorrection
     \<lparr>oc_x = Fin 200, oc_y = Fin 100, oc_w = Present (Fin 40), oc_h = Present (Fin 60)\<rparr>
     \<lparr>bb_x = Fin 10, bb_y = Fin 20, bb_w = Fin 300, bb_h = Fin 150\<rparr>
     \<lparr>width = Fin 300, height = Fin 150\<rparr> (Some (Fin 1)) =
     \<lparr>oc_x = Fin 210, oc_y = Fin 120, oc_w = Present (Fin 40), oc_h = Present (Fin 60)\<rparr>"
proof -
  have r: "rnd (300 * (3 / 2)) = Fin 450" "rnd (150 * (3 / 2)) = Fin 225"
    "rnd (300 * (3602879701896397 / 4503599627370496)) = Fin 240"
    "rnd (150 * (3602879701896397 / 4503599627370496)) = Fin 120"
    "rnd (10 + 200) = Fin 210" "rnd (20 + 100) = Fin 120"
    by code_simp+
  show ?thesis
    using r no_correction_within_bounds
      [of "Some (Fin 1)"
          "\<lparr>oc_x = Fin 200, oc_y = Fin 100, oc_w = Present (Fin 40), oc_h = Present (Fin 60)\<rparr>"
          "\<lparr>width = Fin 300, height = Fin 150\<rparr>"
          "\<lparr>bb_x = Fin 10, bb_y = Fin 20, bb_w = Fin 300, bb_h = Fin 150\<rparr>"]
    by (simp add: lit_0_8_value fle_def feq_def fgt_def mapLocalOcrCoordinates_def has_key_def)
qed

section \<open>Reconciliation\<close>

text \<open>
  C5.  Take an error annotation whose id has a canonical character box, reconcile it
  (\<^verbatim>\<open>validateAndFixGPTCoordinates\<close>) and convert it to page coordinates as
  \<^verbatim>\<open>processSelectedShapes\<close> does.  Its bbox is then the page mapping of the canonical
  box under the capture's geometry, and its center is the midpoint of that page box,
  whatever bbox and center the annotation carried.  The canonical box is taken to be an
  ordinary one: when the geometry comes from the selection bounds its width and height are
  finite numbers, and when it comes from the image element the page mapping has no NaN
  field (the code passes an annotation on unconverted when it has).
\<close>

theorem reconciliation_fidelity:
  assumes i: "i < length es"
    and c: "charMap cs (he_id (es ! i)) = Some c"
    and pb: "pb = pixelBoxToPageBox (charBoxAsPixelBox c) (captureGeometry imageData sel iw ih)"
    and finite: "imageData = None \<longrightarrow>
                   isFinite (Some (bb_w (cb_bbox c))) \<and> isFinite (Some (bb_h (cb_bbox c)))"
    and no_nan: "imageData \<noteq> None \<longrightarrow>
                   page_x pb \<noteq> NaN \<and> page_y pb \<noteq> NaN \<and> page_w pb \<noteq> NaN \<and> page_h pb \<noteq> NaN"
  shows "he_bbox (convertedErrors (fst (validateAndFixGPTCoordinates es cs)) imageData sel iw ih ! i)
           = \<lparr>bb_x = page_x pb, bb_y = page_y pb, bb_w = page_w pb, bb_h = page_h pb\<rparr> \<and>
         he_center (convertedErrors (fst (validateAndFixGPTCoordinates es cs)) imageData sel iw ih ! i)
           = \<lparr>pt_x = fadd (page_x pb) (fdiv (page_w pb) (Fin 2)),
              pt_y = fadd (page_y pb) (fdiv (page_h pb) (Fin 2))\<rparr>"
proof -
  let ?fixed = "fst (validateAndFixGPTCoordinates es cs)"
  let ?r = "?fixed ! i"
  have len: "i < length ?fixed"
    using i by (simp add: validateAndFix_length)
  have r: "?r = fst (fixGPTError (charMap cs) (es ! i))"
    using i by (rule validateAndFix_nth)
  have bbox: "he_bbox ?r = cb_bbox c"
    unfolding r using c by (rule fixGPTError_known_bbox)
  have id: "he_id ?r = cb_id c"
    unfolding r using charMap_Some [OF c] by (simp add: fixGPTError_id)
  show ?thesis
  proof (cases imageData)
    case None
    have "pixelBoxToPageBox (errorAsPixelBox False ?r) (captureGeometry None sel iw ih) = pb"
      unfolding pb None using bbox id finite None by (intro pixelBox_error_char) auto
    then show ?thesis
      using len by (simp add: None convertedErrors_nth_None mappedError_def)
  next
    case (Some img)
    have "pixelBoxToPageBox (errorAsPixelBox True ?r) img = pb"
      unfolding pb Some using bbox id by (simp add: pixelBox_error_char captureGeometry_def)
    then show ?thesis
      using len no_nan Some
      by (simp add: convertedErrors_nth_Some mappedError_def isNaN_def Let_def)
  qed
qed


theorem reconciliation_fidelity_witness:
  "convertedErrors
     (fst (validateAndFixGPTCoordinates
        [\<lparr>he_id = ''c001'',
          he_bbox = \<lparr>bb_x = Fin 1, bb_y = Fin 2, bb_w = Fin 3, bb_h = Fin 4\<rparr>,
          he_center = \<lparr>pt_x = Fin 5, pt_y = Fin 6\<rparr>, he_errorType = Math,
          he_suggestion = ''1'', he_explanation = ''sum'', he_action = Circle\<rparr>]
        [\<lparr>cb_id = ''c001'', cb_char = ''7'',
          cb_bbox = \<lparr>bb_x = Fin 90, bb_y = Fin 45, bb_w = Fin 30, bb_h = Fin 45\<rparr>,
          cb_center = \<lparr>pt_x = Fin 105, pt_y = Fin 68\<rparr>, cb_confidence = Fin 1\<rparr>]))
     (Some \<lparr>rect = \<lparr>rect_x = Fin 100, rect_y = Fin 200, rect_width = Fin 300,
                     rect_height = Fin 150\<rparr>,
            naturalWidth = Fin 900, naturalHeight = Fin 450\<rparr>)
     \<lparr>bb_x = Fin 100, bb_y = Fin 200, bb_w = Fin 300, bb_h = Fin 150\<rparr> (Fin 900) (Fin 450) =
   [\<lparr>he_id = ''c001'',
     he_bbox = \<lparr>bb_x = Fin 130, bb_y = Fin 215, bb_w = Fin 10, bb_h = Fin 15\<rparr>,
     he_center = \<lparr>pt_x = Fin 135, pt_y = Fin (445 / 2)\<rparr>, he_errorType = Math,
     he_suggestion = ''1'', he_explanation = ''sum'', he_action = Circle\<rparr>]"
proof -
  let ?e = "\<lparr>he_id = ''c001'',
          he_bbox = \<lparr>bb_x = Fin 1, bb_y = Fin 2, bb_w = Fin 3, bb_h = Fin 4\<rparr>,
          he_center = \<lparr>pt_x = Fin 5, pt_y = Fin 6\<rparr>, he_errorType = Math,
          he_suggestion = ''1'', he_explanation = ''sum'', he_action = Circle\<rparr>"
  let ?c = "\<lparr>cb_id = ''c001'', cb_char = ''7'',
          cb_bbox = \<lparr>bb_x = Fin 90, bb_y = Fin 45, bb_w = Fin 30, bb_h = Fin 45\<rparr>,
          cb_center = \<lparr>pt_x = Fin 105, pt_y = Fin 68\<rparr>, cb_confidence = Fin 1\<rparr>"
  let ?img = "\<lparr>rect = \<lparr>rect_x = Fin 100, rect_y = Fin 200, rect_width = Fin 300,
                     rect_height = Fin 150\<rparr>,
            naturalWidth = Fin 900, naturalHeight = Fin 450\<rparr>"
  let ?sel = "\<lparr>bb_x = Fin 100, bb_y = Fin 200, bb_w = Fin 300, bb_h = Fin 150\<rparr>"
  let ?pb = "\<lparr>page_id = Some ''c001'', page_x = Fin 130, page_y = Fin 215, page_w = Fin 10,
             page_h = Fin 15\<rparr>"
  let ?conv = "convertedErrors (fst (validateAndFixGPTCoordinates [?e] [?c])) (Some ?img) ?sel
                 (Fin 900) (Fin 450)"
  have fid:
    "he_bbox (?conv ! 0) = \<lparr>bb_x = Fin 130, bb_y = Fin 215, bb_w = Fin 10, bb_h = Fin 15\<rparr> \<and>
     he_center (?conv ! 0) = \<lparr>pt_x = Fin 135, pt_y = Fin (445 / 2)\<rparr>"
    using reconciliation_fidelity [of 0 "[?e]" "[?c]" ?c ?pb "Some ?img" ?sel "Fin 900" "Fin 450"]
      example_page_box
    by (simp add: charMap_def captureGeometry_def example_center)
  have len: "length ?conv = 1"
    by (simp add: convertedErrors_length validateAndFix_length)
  have rest: "he_id (?conv ! 0) = ''c001'' \<and> he_errorType (?conv ! 0) = Math \<and>
     he_suggestion (?conv ! 0) = ''1'' \<and> he_explanation (?conv ! 0) = ''sum'' \<and>
     he_action (?conv ! 0) = Circle"
    by (simp add: convertedErrors_nth_Some validateAndFix_length validateAndFix_nth
        fixGPTError_def charMap_def Let_def mappedError_def)
  obtain r where conv: "?conv = [r]"
    using len by (cases ?conv) auto
  show ?thesis
    using fid rest unfolding conv by (cases r) simp
qed


text \<open>
  C6.  Reconciliation returns as many annotations as it was given, in the same order (the
  ids are the same, position by position).  An annotation whose id is not the id of any
  canonical box comes back unchanged, and a warning naming its id is issued.  No bbox is
  invented: each returned bbox is the annotation's own or that of a canonical box with the
  annotation's id.
\<close>

theorem reconcile_passthrough:
  "length (fst (validateAndFixGPTCoordinates es cs)) = length es \<and>
   map he_id (fst (validateAndFixGPTCoordinates es cs)) = map he_id es \<and>
   (\<forall>i<length es. he_id (es ! i) \<notin> cb_id ` set cs \<longrightarrow>
        fst (validateAndFixGPTCoordinates es cs) ! i = es ! i \<and>
        UnknownCharId (he_id (es ! i)) \<in> set (snd (validateAndFixGPTCoordinates es cs))) \<and>
   (\<forall>i<length es.
        he_bbox (fst (validateAndFixGPTCoordinates es cs) ! i) = he_bbox (es ! i) \<or>
        (\<exists>c\<in>set cs. cb_id c = he_id (es ! i) \<and>
            he_bbox (fst (validateAndFixGPTCoordinates es cs) ! i) = cb_bbox c))"
proof (intro conjI allI impI)
  show "length (fst (validateAndFixGPTCoordinates es cs)) = length es"
    by (rule validateAndFix_length)
  show "map he_id (fst (validateAndFixGPTCoordinates es cs)) = map he_id es"
    by (simp add: validateAndFixGPTCoordinates_def Let_def fixGPTError_id)
next
  fix i assume i: "i < length es" and unknown: "he_id (es ! i) \<notin> cb_id ` set cs"
  have none: "charMap cs (he_id (es ! i)) = None"
    using unknown by (simp add: charMap_None)
  show "fst (validateAndFixGPTCoordinates es cs) ! i = es ! i"
    using i none by (simp add: validateAndFix_nth fixGPTError_def)
  have "UnknownCharId (he_id (es ! i)) \<in> set (snd (fixGPTError (charMap cs) (es ! i)))"
    using none by (simp add: fixGPTError_def)
  then show "UnknownCharId (he_id (es ! i)) \<in> set (snd (validateAndFixGPTCoordinates es cs))"
    using i by (auto simp: validateAndFixGPTCoordinates_def Let_def intro!: bexI [of _ "es ! i"])
next
  fix i assume i: "i < length es"
  show "he_bbox (fst (validateAndFixGPTCoordinates es cs) ! i) = he_bbox (es ! i) \<or>
        (\<exists>c\<in>set cs. cb_id c = he_id (es ! i) \<and>
            he_bbox (fst (validateAndFixGPTCoordinates es cs) ! i) = cb_bbox c)"
  proof (cases "charMap cs (he_id (es ! i))")
    case None
    then show ?thesis using i by (simp add: validateAndFix_nth fixGPTError_def)
  next
    case (Some c)
    then show ?thesis
      using i charMap_Some [OF Some]
        fixGPTError_known_bbox [of "charMap cs" "es ! i" c, OF Some]
      by (auto simp: validateAndFix_nth)
  qed
qed

theorem reconcile_passthrough_witness:
  "validateAndFixGPTCoordinates
     [\<lparr>he_id = ''c009'',
       he_bbox = \<lparr>bb_x = Fin 1, bb_y = Fin 2, bb_w = Fin 3, bb_h = Fin 4\<rparr>,
       he_center = \<lparr>pt_x = Fin 5, pt_y = Fin 6\<rparr>, he_errorType = Math,
       he_suggestion = ''1'', he_explanation = ''sum'', he_action = Circle\<rparr>]
     [\<lparr>cb_id = ''c001'', cb_char = ''7'',
       cb_bbox = \<lparr>bb_x = Fin 90, bb_y = Fin 45, bb_w = Fin 30, bb_h = Fin 45\<rparr>,
       cb_center = \<lparr>pt_x = Fin 105, pt_y = Fin 68\<rparr>, cb_confidence = Fin 1\<rparr>] =
   ([\<lparr>he_id = ''c009'',
       he_bbox = \<lparr>bb_x = Fin 1, bb_y = Fin 2, bb_w = Fin 3, bb_h = Fin 4\<rparr>,
       he_center = \<lparr>pt_x = Fin 5, pt_y = Fin 6\<rparr>, he_errorType = Math,
       he_suggestion = ''1'', he_explanation = ''sum'', he_action = Circle\<rparr>],
    [UnknownCharId ''c009''])"
proof -
  let ?e = "\<lparr>he_id = ''c009'',
       he_bbox = \<lparr>bb_x = Fin 1, bb_y = Fin 2, bb_w = Fin 3, bb_h = Fin 4\<rparr>,
       he_center = \<lparr>pt_x = Fin 5, pt_y = Fin 6\<rparr>, he_errorType = Math,
       he_suggestion = ''1'', he_explanation = ''sum'', he_action = Circle\<rparr>"
  let ?c = "\<lparr>cb_id = ''c001'', cb_char = ''7'',
       cb_bbox = \<lparr>bb_x = Fin 90, bb_y = Fin 45, bb_w = Fin 30, bb_h = Fin 45\<rparr>,
       cb_center = \<lparr>pt_x = Fin 105, pt_y = Fin 68\<rparr>, cb_confidence = Fin 1\<rparr>"
  let ?r = "validateAndFixGPTCoordinates [?e] [?c]"
  have "length (fst ?r) = 1 \<and> fst ?r ! 0 = ?e"
    using reconcile_passthrough [of "[?e]" "[?c]"] by simp
  then have "fst ?r = [?e]"
    by (cases "fst ?r") auto
  moreover have "snd ?r = [UnknownCharId ''c009'']"
    by (simp add: validateAndFixGPTCoordinates_def Let_def fixGPTError_def charMap_def)
  ultimately show ?thesis
    by (simp add: prod_eq_iff)
qed

section \<open>Placement\<close>

text \<open>
  C9 as stated: the buffered footprints of two placements of one call do not intersect
  unless one of them is a fallback.  The code tests the card of a later candidate against
  the buffered footprint of an earlier placement, so a later card may touch that footprint
  and its own buffered footprint then reaches 20 into it.  Two errors centred at
  \<open>(-80, 80)\<close> and \<open>(280, 80)\<close> in the viewport \<open>{0, 0, 380, 120}\<close> get the cards at
  \<open>(0, 0)\<close> and \<open>(200, 0)\<close>, both from candidates; their buffered footprints
  \<open>{-20, -20, 220, 160}\<close> and \<open>{180, -20, 220, 160}\<close> overlap.
\<close>

theorem buffered_footprints_counterexample:
  "optimizeMultipleErrorLayout
     [\<lparr>he_id = ''c001'',
       he_bbox = \<lparr>bb_x = Fin (- 90), bb_y = Fin 70, bb_w = Fin 20, bb_h = Fin 20\<rparr>,
       he_center = \<lparr>pt_x = Fin (- 80), pt_y = Fin 80\<rparr>, he_errorType = Math,
       he_suggestion = ''1'', he_explanation = ''sum'', he_action = Circle\<rparr>,
      \<lparr>he_id = ''c002'',
       he_bbox = \<lparr>bb_x = Fin 270, bb_y = Fin 70, bb_w = Fin 20, bb_h = Fin 20\<rparr>,
       he_center = \<lparr>pt_x = Fin 280, pt_y = Fin 80\<rparr>, he_errorType = Math,
       he_suggestion = ''1'', he_explanation = ''sum'', he_action = Circle\<rparr>]
     \<lparr>bb_x = Fin 0, bb_y = Fin 0, bb_w = Fin 380, bb_h = Fin 120\<rparr>
     \<lparr>grid_width = 32, grid_height = 32, cellSize = Fin (15 / 4),
      density = replicate 32 (replicate 32 (Fin 0)),
      occupied = replicate 32 (replicate 32 False)\<rparr>
     \<lparr>width = Fin 180, height = Fin 120\<rparr> =
   Inr [\<lparr>sp_x = Fin 0, sp_y = Fin 0, sp_width = Fin 180, sp_height = Fin 120,
         leadLineStart = \<lparr>pt_x = Fin (- 80), pt_y = Fin 80\<rparr>,
         leadLineEnd = \<lparr>pt_x = Fin 90, pt_y = Fin 60\<rparr>, animationDelay = Fin 0\<rparr>,
        \<lparr>sp_x = Fin 200, sp_y = Fin 0, sp_width = Fin 180, sp_height = Fin 120,
         leadLineStart = \<lparr>pt_x = Fin 280, pt_y = Fin 80\<rparr>,
         leadLineEnd = \<lparr>pt_x = Fin 290, pt_y = Fin 60\<rparr>, animationDelay = Fin 800\<rparr>] \<and>
   \<not> isFallbackPlacement \<lparr>width = Fin 180, height = Fin 120\<rparr>
       \<lparr>sp_x = Fin 0, sp_y = Fin 0, sp_width = Fin 180, sp_height = Fin 120,
         leadLineStart = \<lparr>pt_x = Fin (- 80), pt_y = Fin 80\<rparr>,
         leadLineEnd = \<lparr>pt_x = Fin 90, pt_y = Fin 60\<rparr>, animationDelay = Fin 0\<rparr> \<and>
   \<not> isFallbackPlacement \<lparr>width = Fin 180, height = Fin 120\<rparr>
       \<lparr>sp_x = Fin 200, sp_y = Fin 0, sp_width = Fin 180, sp_height = Fin 120,
         leadLineStart = \<lparr>pt_x = Fin 280, pt_y = Fin 80\<rparr>,
         leadLineEnd = \<lparr>pt_x = Fin 290, pt_y = Fin 60\<rparr>, animationDelay = Fin 800\<rparr> \<and>
   buffered (Fin 0) (Fin 0) \<lparr>width = Fin 180, height = Fin 120\<rparr> =
     \<lparr>bb_x = Fin (- 20), bb_y = Fin (- 20), bb_w = Fin 220, bb_h = Fin 160\<rparr> \<and>
   buffered (Fin 200) (Fin 0) \<lparr>width = Fin 180, height = Fin 120\<rparr> =
     \<lparr>bb_x = Fin 180, bb_y = Fin (- 20), bb_w = Fin 220, bb_h = Fin 160\<rparr> \<and>
   overlaps (Fin 180) (Fin (- 20)) \<lparr>width = Fin 220, height = Fin 160\<rparr>
     \<lparr>bb_x = Fin (- 20), bb_y = Fin (- 20), bb_w = Fin 220, bb_h = Fin 160\<rparr>"
  using example_layout
  by (simp add: isFallbackPlacement_def buffered_def overlaps_def fsub_def fge_def fle_def
      feq_def rnd_numeral)

text \<open>
  C9, amended.  A call returns one placement for each error, and it does return when the
  density array has a row for each of the grid's \<open>height\<close> rows.  Of two placements that
  do not have the fallback shape, the later one's card does not overlap, in the code's own
  test, the earlier one's buffered footprint (its card grown by 20 on every side); the
  two buffered footprints may intersect.  The result has no fallback flag: a placement
  either has the fallback shape, \<open>(leadLineStart.x + 100, leadLineStart.y - height / 2)\<close>,
  or sits at one of the 32 candidate offsets from \<open>leadLineStart\<close>.
\<close>

theorem placements_keep_clear:
  "(grid_height grid \<le> length (density grid) \<longrightarrow>
      (\<exists>ps. optimizeMultipleErrorLayout errors viewportBounds grid cardSize = Inr ps)) \<and>
   (optimizeMultipleErrorLayout errors viewportBounds grid cardSize = Inr placements \<longrightarrow>
      length placements = length errors \<and>
      (\<forall>j<length placements. \<forall>i<j.
         \<not> isFallbackPlacement cardSize (placements ! i) \<longrightarrow>
         \<not> isFallbackPlacement cardSize (placements ! j) \<longrightarrow>
         \<not> overlaps (sp_x (placements ! j)) (sp_y (placements ! j)) cardSize
             (buffered (sp_x (placements ! i)) (sp_y (placements ! i)) cardSize)) \<and>
      (\<forall>i<length placements.
         isFallbackPlacement cardSize (placements ! i) \<or>
         isCandidatePlacement (placements ! i)))"
proof (intro conjI impI)
  assume "grid_height grid \<le> length (density grid)"
  then show "\<exists>ps. optimizeMultipleErrorLayout errors viewportBounds grid cardSize = Inr ps"
    by (rule optimizeMultipleErrorLayout_total)
next
  assume run: "optimizeMultipleErrorLayout errors viewportBounds grid cardSize = Inr placements"
  from layout_result(2) [OF run] show "length placements = length errors" .
  from layout_result(1) [OF run]
  show "\<forall>j<length placements. \<forall>i<j.
         \<not> isFallbackPlacement cardSize (placements ! i) \<longrightarrow>
         \<not> isFallbackPlacement cardSize (placements ! j) \<longrightarrow>
         \<not> overlaps (sp_x (placements ! j)) (sp_y (placements ! j)) cardSize
             (buffered (sp_x (placements ! i)) (sp_y (placements ! i)) cardSize)"
    by (auto simp: layout_inv_def)
  from layout_result(1) [OF run]
  show "\<forall>i<length placements.
         isFallbackPlacement cardSize (placements ! i) \<or>
         isCandidatePlacement (placements ! i)"
    by (auto simp: layout_inv_def)
qed

theorem placements_keep_clear_witness:
  "optimizeMultipleErrorLayout
     [\<lparr>he_id = ''c001'',
       he_bbox = \<lparr>bb_x = Fin (- 90), bb_y = Fin 70, bb_w = Fin 20, bb_h = Fin 20\<rparr>,
       he_center = \<lparr>pt_x = Fin (- 80), pt_y = Fin 80\<rparr>, he_errorType = Math,
       he_suggestion = ''1'', he_explanation = ''sum'', he_action = Circle\<rparr>,
      \<lparr>he_id = ''c002'',
       he_bbox = \<lparr>bb_x = Fin 270, bb_y = Fin 70, bb_w = Fin 20, bb_h = Fin 20\<rparr>,
       he_center = \<lparr>pt_x = Fin 280, pt_y = Fin 80\<rparr>, he_errorType = Math,
       he_suggestion = ''1'', he_explanation = ''sum'', he_action = Circle\<rparr>]
     \<lparr>bb_x = Fin 0, bb_y = Fin 0, bb_w = Fin 380, bb_h = Fin 120\<rparr>
     \<lparr>grid_width = 32, grid_height = 32, cellSize = Fin (15 / 4),
      density = replicate 32 (replicate 32 (Fin 0)),
      occupied = replicate 32 (replicate 32 False)\<rparr>
     \<lparr>width = Fin 180, height = Fin 120\<rparr> =
   Inr [\<lparr>sp_x = Fin 0, sp_y = Fin 0, sp_width = Fin 180, sp_height = Fin 120,
         leadLineStart = \<lparr>pt_x = Fin (- 80), pt_y = Fin 80\<rparr>,
         leadLineEnd = \<lparr>pt_x = Fin 90, pt_y = Fin 60\<rparr>, animationDelay = Fin 0\<rparr>,
        \<lparr>sp_x = Fin 200, sp_y = Fin 0, sp_width = Fin 180, sp_height = Fin 120,
         leadLineStart = \<lparr>pt_x = Fin 280, pt_y = Fin 80\<rparr>,
         leadLineEnd = \<lparr>pt_x = Fin 290, pt_y = Fin 60\<rparr>, animationDelay = Fin 800\<rparr>] \<and>
   \<not> overlaps (Fin 200) (Fin 0) \<lparr>width = Fin 180, height = Fin 120\<rparr>
       (buffered (Fin 0) (Fin 0) \<lparr>width = Fin 180, height = Fin 120\<rparr>)"
proof -
  let ?ps = "[\<lparr>sp_x = Fin 0, sp_y = Fin 0, sp_width = Fin 180, sp_height = Fin 120,
         leadLineStart = \<lparr>pt_x = Fin (- 80), pt_y = Fin 80\<rparr>,
         leadLineEnd = \<lparr>pt_x = Fin 90, pt_y = Fin 60\<rparr>, animationDelay = Fin 0\<rparr>,
        \<lparr>sp_x = Fin 200, sp_y = Fin 0, sp_width = Fin 180, sp_height = Fin 120,
         leadLineStart = \<lparr>pt_x = Fin 280, pt_y = Fin 80\<rparr>,
         leadLineEnd = \<lparr>pt_x = Fin 290, pt_y = Fin 60\<rparr>, animationDelay = Fin 800\<rparr>]"
  have clear: "\<forall>j<length ?ps. \<forall>i<j.
         \<not> isFallbackPlacement \<lparr>width = Fin 180, height = Fin 120\<rparr> (?ps ! i) \<longrightarrow>
         \<not> isFallbackPlacement \<lparr>width = Fin 180, height = Fin 120\<rparr> (?ps ! j) \<longrightarrow>
         \<not> overlaps (sp_x (?ps ! j)) (sp_y (?ps ! j)) \<lparr>width = Fin 180, height = Fin 120\<rparr>
             (buffered (sp_x (?ps ! i)) (sp_y (?ps ! i)) \<lparr>width = Fin 180, height = Fin 120\<rparr>)"
    using example_layout
      placements_keep_clear
        [of "\<lparr>grid_width = 32, grid_height = 32, cellSize = Fin (15 / 4),
      density = replicate 32 (replicate 32 (Fin 0)),
      occupied = replicate 32 (replicate 32 False)\<rparr>"
            "[\<lparr>he_id = ''c001'',
       he_bbox = \<lparr>bb_x = Fin (- 90), bb_y = Fin 70, bb_w = Fin 20, bb_h = Fin 20\<rparr>,
       he_center = \<lparr>pt_x = Fin (- 80), pt_y = Fin 80\<rparr>, he_errorType = Math,
       he_suggestion = ''1'', he_explanation = ''sum'', he_action = Circle\<rparr>,
      \<lparr>he_id = ''c002'',
       he_bbox = \<lparr>bb_x = Fin 270, bb_y = Fin 70, bb_w = Fin 20, bb_h = Fin 20\<rparr>,
       he_center = \<lparr>pt_x = Fin 280, pt_y = Fin 80\<rparr>, he_errorType = Math,
       he_suggestion = ''1'', he_explanation = ''sum'', he_action = Circle\<rparr>]"
            "\<lparr>bb_x = Fin 0, bb_y = Fin 0, bb_w = Fin 380, bb_h = Fin 120\<rparr>"
            "\<lparr>width = Fin 180, height = Fin 120\<rparr>" ?ps]
    by blast
  have shape: "\<not> isFallbackPlacement \<lparr>width = Fin 180, height = Fin 120\<rparr> (?ps ! 0)"
    "\<not> isFallbackPlacement \<lparr>width = Fin 180, height = Fin 120\<rparr> (?ps ! 1)"
    by (simp_all add: isFallbackPlacement_def rnd_numeral)
  have "\<not> overlaps (sp_x (?ps ! 1)) (sp_y (?ps ! 1)) \<lparr>width = Fin 180, height = Fin 120\<rparr>
             (buffered (sp_x (?ps ! 0)) (sp_y (?ps ! 0)) \<lparr>width = Fin 180, height = Fin 120\<rparr>)"
    using clear shape by (metis length_Cons list.size(3) lessI One_nat_def)
  then show ?thesis
    using example_layout by simp
qed

section \<open>The capture state machine\<close>

text \<open>
  C7.  The protocol of the claim: a recognize call on an uninitialized session only
  initializes, and a call on the initialized session recognizes the raster kept by phase
  one without rasterizing again.  \<^verbatim>\<open>processSelectedShapes\<close> decides the phase on the
  state its render saw, so the protocol holds of a call made with the callback of the
  latest render (lemma \<open>two_phase_dispatch\<close>), but not of the call the idle timer of
  \<^verbatim>\<open>AutoOCRProcessor\<close> makes.  The timer awaits \<^verbatim>\<open>initializeOCR\<close>, after which
  the session is initialized, and then calls the \<^verbatim>\<open>processSelectedShapes\<close> of its own
  render, whose comment says that it enters the second phase directly.  That callback
  still sees \<open>isInitialized = false\<close>: it rasterizes the selection a second time, never
  calls the OCR engine, and returns \<open>success\<close> with no recognition result.  The same call
  made with a callback that sees the initialized state recognizes the raster.
\<close>

theorem stale_callback_reinitializes:
  "initializeOCR exampleEnvironment initialState =
     (initializedState, \<lparr>init_success = True, init_message = InitSucceeded\<rparr>,
      [ToImage [''shape:1''], BlobToCanvas 7, LoadImage 7]) \<and>
   isInitialized initializedState \<and>
   processSelectedShapes exampleEnvironment initialState initializedState =
     (initializedState, \<lparr>success = True, result = None, error_message = None\<rparr>,
      [ToImage [''shape:1''], BlobToCanvas 7, LoadImage 7]) \<and>
   autoOCRProcessorTimer exampleEnvironment initialState False initialState =
     (initializedState, Some \<lparr>success = True, result = None, error_message = None\<rparr>,
      [ToImage [''shape:1''], BlobToCanvas 7, LoadImage 7,
       ToImage [''shape:1''], BlobToCanvas 7, LoadImage 7]) \<and>
   processSelectedShapes exampleEnvironment initializedState initializedState =
     (initializedState
        \<lparr>currentStep := ProcessingCompleted, lastResult := Some exampleOCRResult,
         lastSelectionBounds :=
           Some \<lparr>bb_x = Fin 100, bb_y = Fin 200, bb_w = Fin 300, bb_h = Fin 150\<rparr>\<rparr>,
      \<lparr>success = True, result = Some exampleOCRResult, error_message = None\<rparr>,
      [PreprocessImage \<lparr>canvas_id = 1, canvas_width = 300, canvas_height = 150\<rparr>,
       ProcessImageOCR \<lparr>canvas_id = 1, canvas_width = 300, canvas_height = 150\<rparr>
         \<lparr>canvas_id = 2, canvas_width = 300, canvas_height = 150\<rparr>,
       ValidateOCRResult, SaveOCRResult, AnalyzeHandwritingErrors,
       AfterCompletion])"
proof -
  have size: "exampleOCRResult\<lparr>imageWidth := Fin 300, imageHeight := Fin 150\<rparr> = exampleOCRResult"
    by (simp add: exampleOCRResult_def)
  have one: "initializeOCR exampleEnvironment initialState =
     (initializedState, \<lparr>init_success = True, init_message = InitSucceeded\<rparr>,
      [ToImage [''shape:1''], BlobToCanvas 7, LoadImage 7])"
    by (simp add: initializeOCR_def exampleEnvironment_def initialState_def
        initializedState_def Let_def)
  have again: "initializeOCR exampleEnvironment initializedState =
     (initializedState, \<lparr>init_success = True, init_message = InitSucceeded\<rparr>,
      [ToImage [''shape:1''], BlobToCanvas 7, LoadImage 7])"
    by (simp add: initializeOCR_def exampleEnvironment_def initializedState_def Let_def)
  have stale: "processSelectedShapes exampleEnvironment initialState initializedState =
     (initializedState, \<lparr>success = True, result = None, error_message = None\<rparr>,
      [ToImage [''shape:1''], BlobToCanvas 7, LoadImage 7])"
    using phase_one_run [of initialState exampleEnvironment initializedState] again
    by (simp add: initialState_def)
  have timer: "autoOCRProcessorTimer exampleEnvironment initialState False initialState =
     (initializedState, Some \<lparr>success = True, result = None, error_message = None\<rparr>,
      [ToImage [''shape:1''], BlobToCanvas 7, LoadImage 7,
       ToImage [''shape:1''], BlobToCanvas 7, LoadImage 7])"
    unfolding autoOCRProcessorTimer_def one
    using stale by (simp add: exampleEnvironment_def initialState_def)
  have fresh: "processSelectedShapes exampleEnvironment initializedState initializedState =
     (initializedState
        \<lparr>currentStep := ProcessingCompleted, lastResult := Some exampleOCRResult,
         lastSelectionBounds :=
           Some \<lparr>bb_x = Fin 100, bb_y = Fin 200, bb_w = Fin 300, bb_h = Fin 150\<rparr>\<rparr>,
      \<lparr>success = True, result = Some exampleOCRResult, error_message = None\<rparr>,
      [PreprocessImage \<lparr>canvas_id = 1, canvas_width = 300, canvas_height = 150\<rparr>,
       ProcessImageOCR \<lparr>canvas_id = 1, canvas_width = 300, canvas_height = 150\<rparr>
         \<lparr>canvas_id = 2, canvas_width = 300, canvas_height = 150\<rparr>,
       ValidateOCRResult, SaveOCRResult, AnalyzeHandwritingErrors,
       AfterCompletion])"
    using size
    by (simp add: processSelectedShapes_def exampleEnvironment_def initializedState_def Let_def)
  show ?thesis
    using one stale timer fresh by (simp add: initializedState_def)
qed

theorem stale_callback_reinitializes_witness:
  "isInitialized initializedState \<and>
   result (fst (snd (processSelectedShapes exampleEnvironment initialState initializedState))) =
     None \<and>
   snd (snd (processSelectedShapes exampleEnvironment initialState initializedState)) =
     [ToImage [''shape:1''], BlobToCanvas 7, LoadImage 7] \<and>
   fst (snd (autoOCRProcessorTimer exampleEnvironment initialState False initialState)) =
     Some \<lparr>success = True, result = None, error_message = None\<rparr>"
  using stale_callback_reinitializes by simp

text \<open>
  C8 as stated: a call of an entry point while a phase is processing is a no-op.  Neither
  entry point looks at \<^verbatim>\<open>isProcessing\<close>: called in a state where it is set,
  \<^verbatim>\<open>initializeOCR\<close> rasterizes the selection again and replaces the session, and
  \<^verbatim>\<open>processSelectedShapes\<close> runs the OCR engine again.
\<close>

theorem reentrant_call_counterexample:
  "isProcessing (initialState\<lparr>isProcessing := True\<rparr>) \<and>
   initializeOCR exampleEnvironment (initialState\<lparr>isProcessing := True\<rparr>) =
     (initializedState,
      \<lparr>init_success = True, init_message = InitSucceeded\<rparr>,
      [ToImage [''shape:1''], BlobToCanvas 7, LoadImage 7]) \<and>
   initializedState \<noteq> initialState\<lparr>isProcessing := True\<rparr> \<and>
   isProcessing (initializedState\<lparr>isProcessing := True\<rparr>) \<and>
   snd (snd (processSelectedShapes exampleEnvironment
               (initializedState\<lparr>isProcessing := True\<rparr>)
               (initializedState\<lparr>isProcessing := True\<rparr>))) =
     [PreprocessImage \<lparr>canvas_id = 1, canvas_width = 300, canvas_height = 150\<rparr>,
      ProcessImageOCR \<lparr>canvas_id = 1, canvas_width = 300, canvas_height = 150\<rparr>
        \<lparr>canvas_id = 2, canvas_width = 300, canvas_height = 150\<rparr>,
      ValidateOCRResult, SaveOCRResult, AnalyzeHandwritingErrors,
       AfterCompletion]"
  by (simp add: initializeOCR_def processSelectedShapes_def exampleEnvironment_def
      initialState_def initializedState_def Let_def)


text \<open>
  C8, amended.  The entry points have no re-entrancy guard of their own: what
  \<^verbatim>\<open>initializeOCR\<close> and \<^verbatim>\<open>processSelectedShapes\<close> do, return and leave as the state
  does not depend on \<^verbatim>\<open>isProcessing\<close>; they only set the flag on entry and clear it
  when they finish, whether they succeed or fail.
\<close>

theorem entry_points_ignore_isProcessing:
  "initializeOCR env (s\<lparr>isProcessing := b\<rparr>) = initializeOCR env s \<and>
   processSelectedShapes env (ocrState\<lparr>isProcessing := b\<rparr>) (s\<lparr>isProcessing := b'\<rparr>) =
     processSelectedShapes env ocrState s \<and>
   \<not> isProcessing (fst (initializeOCR env s)) \<and>
   \<not> isProcessing (fst (processSelectedShapes env ocrState s))"
  by (auto simp: initializeOCR_def processSelectedShapes_def initFailed_def recognitionFailed_def
      Let_def split: option.splits outcome.splits prod.splits)



theorem entry_points_ignore_isProcessing_witness:
  "initializeOCR exampleEnvironment (initialState\<lparr>isProcessing := True\<rparr>) =
     initializeOCR exampleEnvironment initialState \<and>
   processSelectedShapes exampleEnvironment (initializedState\<lparr>isProcessing := True\<rparr>)
       (initializedState\<lparr>isProcessing := True\<rparr>) =
     processSelectedShapes exampleEnvironment initializedState initializedState \<and>
   snd (snd (initializeOCR exampleEnvironment initialState)) =
     [ToImage [''shape:1''], BlobToCanvas 7, LoadImage 7]"
  using entry_points_ignore_isProcessing
      [where env = exampleEnvironment and s = initialState and b = True]
    entry_points_ignore_isProcessing
      [where env = exampleEnvironment and ocrState = initializedState
         and s = initializedState and b = True and b' = True]
  by (simp add: initializeOCR_def exampleEnvironment_def initialState_def Let_def)
end
